theory Spec2Isabelle
  imports Complex_Main "HOL-Library.AList"
begin

section \<open>Data model\<close>

text \<open>
  The server (\<^verbatim>\<open>server.js\<close>) keeps one \<^verbatim>\<open>GameRoom\<close> object per room; the client
  (\<^verbatim>\<open>GameCanvas.tsx\<close>) mirrors the same entities. JavaScript numbers are modelled as
  real numbers (exact arithmetic, no rounding, no NaN); times are milliseconds.
  Field names follow the source, except where two object shapes share a name or the name
  is taken by HOL: \<^verbatim>\<open>x\<close>, \<^verbatim>\<open>y\<close> become \<open>xc\<close>, \<open>yc\<close> (a vector), \<open>ox\<close>, \<open>oy\<close>
  (an obstacle) and \<open>sx\<close>, \<open>sy\<close> (a slime area); \<^verbatim>\<open>id\<close> becomes \<open>pid\<close>, \<open>obsId\<close>,
  \<open>slimeId\<close>, \<open>puId\<close>, \<open>roomId\<close>. Objects that carry \<^verbatim>\<open>position\<close> and \<^verbatim>\<open>radius\<close>
  extend the record \<open>Circle\<close>; those that also carry \<^verbatim>\<open>velocity\<close> and \<^verbatim>\<open>speed\<close>
  extend \<open>Mover\<close>.
\<close>

record Vector2 =
  xc :: real
  yc :: real

record Obstacle =
  obsId :: string
  ox :: real
  oy :: real
  width :: real
  height :: real

record Circle =
  position :: Vector2
  radius :: real

record Mover = Circle +
  velocity :: Vector2
  speed :: real

record Player = Mover +
  pid :: string
  name :: string
  color :: string
  isBot :: bool
  isDead :: bool
  score :: real
  lives :: int
  ping :: real
  dashCooldown :: real
  shieldCooldown :: real
  smokeCooldown :: real
  slimeCooldown :: real
  isShielded :: bool
  isHidden :: bool
  isGhost :: bool
  isSilenced :: bool
  isSlowed :: bool
  speedBoostEndTime :: real
  input :: Vector2

record Potato = Mover +
  targetId :: "string option"
  isFrozen :: bool
  freezeEndTime :: real

datatype PowerupType = SPEED | COOLDOWN_RESET | GHOST | MAGNET | FREEZE | DOUBLE_POINTS

text \<open>
  Identifiers of power-ups and slime areas are \<^verbatim>\<open>Math.random().toString()\<close> in the
  source; the model keeps the random number itself.
\<close>

record Powerup = Circle +
  puId :: real
  putype :: PowerupType
  spawnTime :: real

record SlimeArea =
  slimeId :: real
  ownerId :: string
  sx :: real
  sy :: real
  sradius :: real
  sspawnTime :: real
  sduration :: real

datatype RoomState = WAITING | PLAYING | GAME_OVER

text \<open>
  \<^verbatim>\<open>this.players\<close> is an object keyed by socket id whose entries are only ever created by
  \<^verbatim>\<open>addPlayer\<close> with \<^verbatim>\<open>id\<close> equal to the key. \<^verbatim>\<open>Object.values\<close> and
  \<^verbatim>\<open>Object.keys\<close> enumerate it in insertion order, so it is modelled as the list of its
  values in that order; \<^verbatim>\<open>this.players[k]\<close> is the entry whose \<open>pid\<close> is \<open>k\<close>.
\<close>

record GameRoom =
  roomId :: string
  hostId :: string
  initialPotatoSpeed :: real
  maxPlayers :: nat
  isPrivate :: bool
  players :: "Player list"
  potatoes :: "Potato list"
  powerups :: "Powerup list"
  obstacles :: "Obstacle list"
  slimeAreas :: "SlimeArea list"
  state :: RoomState
  lastUpdate :: real
  potatoSpeedMultiplier :: real
  startTime :: real
  gameEnded :: bool
  lastSurvivorId :: "string option"

section \<open>Constants\<close>

definition CANVAS_WIDTH :: real where "CANVAS_WIDTH = 2000"
definition CANVAS_HEIGHT :: real where "CANVAS_HEIGHT = 2000"
definition PLAYER_RADIUS :: real where "PLAYER_RADIUS = 25"
definition POTATO_RADIUS :: real where "POTATO_RADIUS = 20"
definition POWERUP_RADIUS :: real where "POWERUP_RADIUS = 20"
definition BASE_SPEED :: real where "BASE_SPEED = 250"
definition POTATO_SPEED :: real where "POTATO_SPEED = 230"
definition SLIME_RADIUS :: real where "SLIME_RADIUS = 80"

section \<open>Numeric helpers of the JavaScript runtime\<close>

definition hypot :: "real \<Rightarrow> real \<Rightarrow> real" where
  "hypot a b = sqrt (a * a + b * b)"

text \<open>\<^verbatim>\<open>Math.atan2(y, x)\<close>: the angle of the point \<open>(x, y)\<close> in \<open>(-\<pi>, \<pi>]\<close>, 0 at the origin.\<close>

definition atan2 :: "real \<Rightarrow> real \<Rightarrow> real" where
  "atan2 y x =
     (if 0 < x then arctan (y / x)
      else if x < 0 then (if 0 \<le> y then arctan (y / x) + pi else arctan (y / x) - pi)
      else if 0 < y then pi / 2
      else if y < 0 then - (pi / 2)
      else 0)"

section \<open>Geometry: \<^verbatim>\<open>isPositionValid\<close>\<close>

text \<open>The obstacle loop of \<^verbatim>\<open>isPositionValid\<close> (server.js 66-76, GameCanvas.tsx 73-83).\<close>

fun obstaclesClear :: "real \<Rightarrow> real \<Rightarrow> real \<Rightarrow> Obstacle list \<Rightarrow> bool" where
  "obstaclesClear x y r [] = True"
| "obstaclesClear x y r (obs # rest) =
     (let testX = max (ox obs) (min x (ox obs + width obs));
          testY = max (oy obs) (min y (oy obs + height obs));
          distX = x - testX;
          distY = y - testY
      in if distX * distX + distY * distY < r * r then False
         else obstaclesClear x y r rest)"

definition isPositionValid :: "real \<Rightarrow> real \<Rightarrow> real \<Rightarrow> Obstacle list \<Rightarrow> bool" where
  "isPositionValid x y r obs =
     (if x < r \<or> x > CANVAS_WIDTH - r \<or> y < r \<or> y > CANVAS_HEIGHT - r then False
      else obstaclesClear x y r obs)"

section \<open>Avatar movement (move-and-slide)\<close>

text \<open>
  server.js 287-304: the step vector of a living avatar toward \<^verbatim>\<open>p.input\<close>.
  Nothing moves unless the distance exceeds 5.
\<close>

definition stepVector :: "Player \<Rightarrow> real \<Rightarrow> real \<times> real" where
  "stepVector p dt =
     (let dx = xc (input p) - xc (position p);
          dy = yc (input p) - yc (position p);
          dist = sqrt (dx * dx + dy * dy);
          moveStep = speed p * dt
      in if dist > 5 then
           (if dist < moveStep then (dx, dy)
            else (let angle = atan2 dy dx
                  in (cos angle * moveStep, sin angle * moveStep)))
         else (0, 0))"

text \<open>
  The guarded single-axis assignment used by every mover of the avatars (server.js 309-311,
  319-321, 353-366; GameCanvas.tsx 677-686): the coordinate is replaced only if the
  circle is valid at the new coordinate and the current other coordinate.
\<close>

definition setXIfValid :: "Obstacle list \<Rightarrow> real \<Rightarrow> Player \<Rightarrow> Player" where
  "setXIfValid obs nextX p =
     (if isPositionValid nextX (yc (position p)) (radius p) obs
      then p\<lparr>position := (position p)\<lparr>xc := nextX\<rparr>\<rparr>
      else p)"

definition setYIfValid :: "Obstacle list \<Rightarrow> real \<Rightarrow> Player \<Rightarrow> Player" where
  "setYIfValid obs nextY p =
     (if isPositionValid (xc (position p)) nextY (radius p) obs
      then p\<lparr>position := (position p)\<lparr>yc := nextY\<rparr>\<rparr>
      else p)"

text \<open>server.js 306-323: try the X component, then the Y component at the new X.\<close>

definition tryMoveX :: "Obstacle list \<Rightarrow> real \<Rightarrow> Player \<Rightarrow> Player" where
  "tryMoveX obs vx p =
     (if vx \<noteq> 0 then setXIfValid obs (xc (position p) + vx) p else p)"

definition tryMoveY :: "Obstacle list \<Rightarrow> real \<Rightarrow> Player \<Rightarrow> Player" where
  "tryMoveY obs vy p =
     (if vy \<noteq> 0 then setYIfValid obs (yc (position p) + vy) p else p)"

definition moveAndSlide :: "Obstacle list \<Rightarrow> real \<Rightarrow> Player \<Rightarrow> Player" where
  "moveAndSlide obs dt p =
     (let (vx, vy) = stepVector p dt
      in tryMoveY obs vy (tryMoveX obs vx p))"

section \<open>Randomness and safe spawning\<close>

text \<open>
  \<^verbatim>\<open>Math.random()\<close> is modelled by an explicit stream of draws: \<open>r 0\<close> is the next
  value and \<open>rdrop k r\<close> the stream after \<open>k\<close> draws. \<open>unitDraws r\<close> says every draw
  lies in \<open>[0, 1)\<close>, the contract of \<^verbatim>\<open>Math.random\<close>.
\<close>

type_synonym rng = "nat \<Rightarrow> real"

definition rdrop :: "nat \<Rightarrow> rng \<Rightarrow> rng" where
  "rdrop k r = (\<lambda>n. r (n + k))"

definition unitDraws :: "rng \<Rightarrow> bool" where
  "unitDraws r = (\<forall>n. 0 \<le> r n \<and> r n < 1)"

text \<open>server.js 165-167 and 458-460: is the point strictly inside some obstacle?\<close>

fun insideSomeObstacle :: "real \<Rightarrow> real \<Rightarrow> Obstacle list \<Rightarrow> bool" where
  "insideSomeObstacle px py [] = False"
| "insideSomeObstacle px py (obs # rest) =
     ((px > ox obs \<and> px < ox obs + width obs \<and> py > oy obs \<and> py < oy obs + height obs)
      \<or> insideSomeObstacle px py rest)"

text \<open>
  The rejection-sampling loop shared by \<^verbatim>\<open>findSafeSpawn\<close> (budget 50) and
  \<^verbatim>\<open>updatePowerups\<close> (budget 20): \<^verbatim>\<open>while (!safe && attempts < budget)\<close>. The first
  argument is the number of attempts left; the state is \<open>(px, py, safe)\<close>.
\<close>

fun spawnLoop :: "nat \<Rightarrow> Obstacle list \<Rightarrow> real \<times> real \<times> bool \<Rightarrow> rng \<Rightarrow> (real \<times> real \<times> bool) \<times> rng" where
  "spawnLoop 0 obs st r = (st, r)"
| "spawnLoop (Suc n) obs (px, py, safe) r =
     (if safe then ((px, py, safe), r)
      else (let px' = r 0 * (CANVAS_WIDTH - 200) + 100;
                py' = r 1 * (CANVAS_HEIGHT - 200) + 100;
                safe' = \<not> insideSomeObstacle px' py' obs
            in spawnLoop n obs (px', py', safe') (rdrop 2 r)))"

text \<open>
  server.js 156-170. \<^verbatim>\<open>px || 500\<close> replaces a falsy coordinate (0; the initial
  \<^verbatim>\<open>undefined\<close> never survives, the loop body runs at least once) by 500.
\<close>

definition findSafeSpawn :: "Obstacle list \<Rightarrow> rng \<Rightarrow> Vector2 \<times> rng" where
  "findSafeSpawn obs r =
     (let ((px, py, safe), r') = spawnLoop 50 obs (0, 0, False) r
      in (\<lparr>xc = (if px = 0 then 500 else px), yc = (if py = 0 then 500 else py)\<rparr>, r'))"

section \<open>The tick: \<^verbatim>\<open>GameRoom.update\<close>\<close>

subsection \<open>Phase 1: status and movement of each avatar\<close>

text \<open>server.js 260-261: the avatar stands in a slime area that is not its own.\<close>

definition inSlime :: "Player \<Rightarrow> SlimeArea \<Rightarrow> bool" where
  "inSlime p slime =
     (hypot (xc (position p) - sx slime) (yc (position p) - sy slime) < sradius slime
      \<and> pid p \<noteq> ownerId slime)"

text \<open>server.js 259-272: one slime area acting on the avatar; \<open>ms\<close> is \<^verbatim>\<open>moveSpeed\<close>.\<close>

definition slimeEffect :: "SlimeArea \<Rightarrow> Player \<times> real \<Rightarrow> Player \<times> real" where
  "slimeEffect slime pm =
     (let p = fst pm; ms = snd pm
      in if inSlime p slime then
           (p\<lparr>isSlowed := True, isSilenced := True, speedBoostEndTime := 0,
               isShielded := False, shieldCooldown := max (shieldCooldown p) 1000,
               isHidden := False, smokeCooldown := max (smokeCooldown p) 1000,
               isGhost := False\<rparr>,
            ms * 0.75)
         else (p, ms))"

fun slimeLoop :: "SlimeArea list \<Rightarrow> Player \<times> real \<Rightarrow> Player \<times> real" where
  "slimeLoop [] pm = pm"
| "slimeLoop (slime # rest) pm = slimeLoop rest (slimeEffect slime pm)"

text \<open>server.js 244-275: cooldowns, derived flags, speed and score of a living avatar.\<close>

definition statusUpdate :: "real \<Rightarrow> real \<Rightarrow> SlimeArea list \<Rightarrow> Player \<Rightarrow> Player" where
  "statusUpdate now dt slimes p =
     (let p1 = p\<lparr>dashCooldown := max 0 (dashCooldown p - dt * 1000),
                 shieldCooldown := max 0 (shieldCooldown p - dt * 1000),
                 smokeCooldown := max 0 (smokeCooldown p - dt * 1000),
                 slimeCooldown := max 0 (slimeCooldown p - dt * 1000)\<rparr>;
          p2 = p1\<lparr>isShielded := (shieldCooldown p1 > 17000),
                  isHidden := (smokeCooldown p1 > 7000)\<rparr>;
          moveSpeed = (if now > speedBoostEndTime p2 then BASE_SPEED else speed p2);
          p3 = p2\<lparr>isSilenced := False, isSlowed := False\<rparr>;
          (p4, moveSpeed') = slimeLoop slimes (p3, moveSpeed)
      in p4\<lparr>speed := moveSpeed', score := score p4 + dt * 10\<rparr>)"

text \<open>server.js 280-283: the extra pursuer pushed when the score passes a threshold.\<close>

definition extraPotato :: Potato where
  "extraPotato = \<lparr>position = \<lparr>xc = 50, yc = 50\<rparr>, radius = POTATO_RADIUS,
     velocity = \<lparr>xc = 0, yc = 0\<rparr>, speed = POTATO_SPEED * 1.1,
     targetId = None, isFrozen = False, freezeEndTime = 0\<rparr>"

definition spawnByScore :: "Player \<Rightarrow> Potato list \<Rightarrow> Potato list" where
  "spawnByScore p pots =
     (let expectedPotatoes = 1 + \<lfloor>score p / 500\<rfloor>
      in if int (length pots) < expectedPotatoes \<and> length pots < 10
         then pots @ [extraPotato] else pots)"

text \<open>
  server.js 236-324: the body of the \<^verbatim>\<open>forEach\<close> over the avatars. The accumulator
  holds the closure variables \<^verbatim>\<open>aliveCount\<close>, \<^verbatim>\<open>potentialWinner\<close> and the pursuer list,
  which the body may extend.
\<close>

type_synonym tally = "nat \<times> string option \<times> Potato list"

definition playerTick :: "real \<Rightarrow> real \<Rightarrow> SlimeArea list \<Rightarrow> Obstacle list \<Rightarrow> Player \<Rightarrow> tally \<Rightarrow> Player \<times> tally" where
  "playerTick now dt slimes obs p acc =
     (let (aliveCount, potentialWinner, pots) = acc
      in if isDead p then (p, (aliveCount, potentialWinner, pots))
         else (let p1 = statusUpdate now dt slimes p;
                   pots' = spawnByScore p1 pots
               in (moveAndSlide obs dt p1, (aliveCount + 1, Some (pid p), pots'))))"

fun playersLoop :: "real \<Rightarrow> real \<Rightarrow> SlimeArea list \<Rightarrow> Obstacle list \<Rightarrow> Player list \<Rightarrow> tally \<Rightarrow> Player list \<times> tally" where
  "playersLoop now dt slimes obs [] acc = ([], acc)"
| "playersLoop now dt slimes obs (p # ps) acc =
     (let (p', acc') = playerTick now dt slimes obs p acc;
          (ps', acc'') = playersLoop now dt slimes obs ps acc'
      in (p' # ps', acc''))"

subsection \<open>Phase 2: pairwise separation of avatars\<close>

text \<open>server.js 330-367: the body of the double loop for one pair \<open>(p1, p2)\<close>.\<close>

definition resolvePair :: "Obstacle list \<Rightarrow> Player \<Rightarrow> Player \<Rightarrow> Player \<times> Player" where
  "resolvePair obs p1 p2 =
     (if isDead p1 \<or> isDead p2 \<or> isGhost p1 \<or> isGhost p2 then (p1, p2)
      else (let dx = xc (position p2) - xc (position p1);
                dy = yc (position p2) - yc (position p1);
                dist = sqrt (dx * dx + dy * dy);
                minDist = radius p1 + radius p2
            in if dist < minDist \<and> dist > 0 then
                 (let overlap = (minDist - dist) / 2;
                      nx = dx / dist;
                      ny = dy / dist;
                      p1NextX = xc (position p1) - nx * overlap;
                      p1NextY = yc (position p1) - ny * overlap;
                      p2NextX = xc (position p2) + nx * overlap;
                      p2NextY = yc (position p2) + ny * overlap;
                      p1a = setXIfValid obs p1NextX p1;
                      p1b = setYIfValid obs p1NextY p1a;
                      p2a = setXIfValid obs p2NextX p2;
                      p2b = setYIfValid obs p2NextY p2a
                  in (p1b, p2b))
               else (p1, p2)))"

text \<open>
  server.js 327-369: the double loop over index pairs \<open>i < j\<close> of
  \<^verbatim>\<open>Object.keys(this.players)\<close>; both avatars of a pair are updated in place.
\<close>

definition pairStep :: "Obstacle list \<Rightarrow> nat \<Rightarrow> nat \<Rightarrow> Player list \<Rightarrow> Player list" where
  "pairStep obs i j ps =
     (let (p1, p2) = resolvePair obs (ps ! i) (ps ! j)
      in (ps[i := p1])[j := p2])"

definition resolveAll :: "Obstacle list \<Rightarrow> Player list \<Rightarrow> Player list" where
  "resolveAll obs ps =
     fold (\<lambda>i qs. fold (\<lambda>j. pairStep obs i j) [i + 1 ..< length qs] qs) [0 ..< length ps] ps"

subsection \<open>Game-over check\<close>

text \<open>JavaScript truthiness of an id: \<^verbatim>\<open>null\<close> and the empty string are falsy.\<close>

definition truthy :: "string option \<Rightarrow> bool" where
  "truthy v = (case v of None \<Rightarrow> False | Some s \<Rightarrow> s \<noteq> [])"

text \<open>
  server.js 385-394. \<^verbatim>\<open>Array.prototype.sort\<close> is stable, as is \<open>sort_key\<close>; sorting by
  \<^verbatim>\<open>b.score - a.score\<close> is sorting by descending score.
\<close>

definition finalWinner :: "string option \<Rightarrow> string option \<Rightarrow> Player list \<Rightarrow> string option" where
  "finalWinner potentialWinner lastSurvivor ps =
     (if truthy potentialWinner then potentialWinner
      else if truthy lastSurvivor then lastSurvivor
      else (case sort_key (\<lambda>p. - score p) ps of
              [] \<Rightarrow> lastSurvivor
            | p # _ \<Rightarrow> Some (pid p)))"

subsection \<open>Pursuers\<close>

text \<open>server.js 408-413: the nearest visible living avatar; \<open>None\<close> stands for \<^verbatim>\<open>Infinity\<close>.\<close>

definition considerTarget :: "Potato \<Rightarrow> Player \<Rightarrow> real option \<times> Player option \<Rightarrow> real option \<times> Player option" where
  "considerTarget potato p acc =
     (if \<not> isDead p \<and> \<not> isHidden p \<and> \<not> isGhost p then
        (let d = hypot (xc (position p) - xc (position potato)) (yc (position p) - yc (position potato))
         in if (case fst acc of None \<Rightarrow> True | Some m \<Rightarrow> d < m) then (Some d, Some p) else acc)
      else acc)"

fun targetLoop :: "Potato \<Rightarrow> Player list \<Rightarrow> real option \<times> Player option \<Rightarrow> real option \<times> Player option" where
  "targetLoop potato [] acc = acc"
| "targetLoop potato (p # ps) acc = targetLoop potato ps (considerTarget potato p acc)"

text \<open>
  server.js 402-428: one pursuer in one tick. The step goes straight toward the target;
  the obstacles are not consulted.
\<close>

definition updatePotato :: "real \<Rightarrow> real \<Rightarrow> real \<Rightarrow> Player list \<Rightarrow> Potato \<Rightarrow> Potato" where
  "updatePotato now dt multiplier ps potato0 =
     (let potato = (if isFrozen potato0 \<and> now > freezeEndTime potato0
                    then potato0\<lparr>isFrozen := False\<rparr> else potato0)
      in if isFrozen potato then potato
         else (let target = snd (targetLoop potato ps (None, None));
                   potato1 = potato\<lparr>targetId := map_option pid target\<rparr>
               in case target of
                    None \<Rightarrow> potato1
                  | Some t \<Rightarrow>
                      (let dx = xc (position t) - xc (position potato1);
                           dy = yc (position t) - yc (position potato1);
                           dist = sqrt (dx * dx + dy * dy)
                       in if dist > 1 then
                            (let currentSpeed = speed potato1 * multiplier
                             in potato1\<lparr>position :=
                                  \<lparr>xc = xc (position potato1) + (dx / dist) * currentSpeed * dt,
                                   yc = yc (position potato1) + (dy / dist) * currentSpeed * dt\<rparr>\<rparr>)
                          else potato1)))"

subsection \<open>Power-up spawning\<close>

definition pickType :: "real \<Rightarrow> PowerupType" where
  "pickType r =
     (if r < 0.05 then FREEZE
      else if r < 0.20 then DOUBLE_POINTS
      else if r < 0.40 then SPEED
      else if r < 0.60 then COOLDOWN_RESET
      else if r < 0.80 then GHOST
      else MAGNET)"

text \<open>server.js 440-472.\<close>

definition updatePowerups :: "real \<Rightarrow> Obstacle list \<Rightarrow> Powerup list \<Rightarrow> rng \<Rightarrow> Powerup list \<times> rng" where
  "updatePowerups now obs pus r =
     (if r 0 < 0.005 \<and> length pus < 5 then
        (let ty = pickType (r 1);
             ((px, py, safe), r') = spawnLoop 20 obs (0, 0, False) (rdrop 2 r)
         in if safe then
              (pus @ [\<lparr>position = \<lparr>xc = px, yc = py\<rparr>, radius = POWERUP_RADIUS,
                        puId = r' 0, putype = ty, spawnTime = now\<rparr>], rdrop 1 r')
            else (pus, r'))
      else (pus, rdrop 1 r))"

subsection \<open>Contacts: \<^verbatim>\<open>checkCollisions\<close>\<close>

text \<open>
  server.js 479-498: one pursuer meeting one avatar. The state threaded through the
  loops is the pursuer, the avatar, \<^verbatim>\<open>this.potatoSpeedMultiplier\<close> and the random draws
  (\<^verbatim>\<open>findSafeSpawn\<close> consumes some).
\<close>

definition contact :: "real \<Rightarrow> Obstacle list \<Rightarrow> Potato \<Rightarrow> Player \<Rightarrow> real \<Rightarrow> rng \<Rightarrow> Potato \<times> Player \<times> real \<times> rng" where
  "contact now obs potato p multiplier r =
     (if isDead p then (potato, p, multiplier, r)
      else (let dist = hypot (xc (position p) - xc (position potato)) (yc (position p) - yc (position potato))
            in if dist < radius p + radius potato then
                 (if isShielded p then
                    (if \<not> isFrozen potato
                     then (potato\<lparr>isFrozen := True, freezeEndTime := now + 1000\<rparr>, p, multiplier, r)
                     else (potato, p, multiplier, r))
                  else if \<not> isFrozen potato \<and> \<not> isGhost p then
                    (let p1 = p\<lparr>lives := lives p - 1\<rparr>
                     in if lives p1 \<le> 0 then (potato, p1\<lparr>isDead := True\<rparr>, multiplier + 0.1, r)
                        else (let (pos, r') = findSafeSpawn obs r
                              in (potato, p1\<lparr>position := pos, shieldCooldown := 20000\<rparr>, multiplier, r')))
                  else (potato, p, multiplier, r))
               else (potato, p, multiplier, r)))"

fun contactPlayers :: "real \<Rightarrow> Obstacle list \<Rightarrow> Potato \<Rightarrow> Player list \<Rightarrow> real \<Rightarrow> rng \<Rightarrow> Potato \<times> Player list \<times> real \<times> rng" where
  "contactPlayers now obs potato [] multiplier r = (potato, [], multiplier, r)"
| "contactPlayers now obs potato (p # ps) multiplier r =
     (let (potato', p', multiplier', r') = contact now obs potato p multiplier r;
          (potato'', ps', multiplier'', r'') = contactPlayers now obs potato' ps multiplier' r'
      in (potato'', p' # ps', multiplier'', r''))"

fun contactPotatoes :: "real \<Rightarrow> Obstacle list \<Rightarrow> Potato list \<Rightarrow> Player list \<Rightarrow> real \<Rightarrow> rng \<Rightarrow> Potato list \<times> Player list \<times> real \<times> rng" where
  "contactPotatoes now obs [] ps multiplier r = ([], ps, multiplier, r)"
| "contactPotatoes now obs (potato # pots) ps multiplier r =
     (let (potato', ps', multiplier', r') = contactPlayers now obs potato ps multiplier r;
          (pots', ps'', multiplier'', r'') = contactPotatoes now obs pots ps' multiplier' r'
      in (potato' # pots', ps'', multiplier'', r''))"

text \<open>
  A callback handed to \<^verbatim>\<open>setTimeout\<close>: its delay in milliseconds and the id of the avatar
  it captured (server.js 516-520).
\<close>

type_synonym Timer = "real \<times> string"

text \<open>server.js 508-522: an avatar collecting a power-up.\<close>

definition applyPowerup :: "real \<Rightarrow> Powerup \<Rightarrow> Player \<Rightarrow> Potato list \<Rightarrow> Player \<times> Potato list \<times> Timer list" where
  "applyPowerup now pu p0 pots =
     (let p = p0\<lparr>score := score p0 + 50\<rparr>
      in case putype pu of
           SPEED \<Rightarrow> (p\<lparr>speedBoostEndTime := now + 8000, speed := BASE_SPEED * 1.5\<rparr>, pots, [])
         | COOLDOWN_RESET \<Rightarrow>
             (p\<lparr>dashCooldown := 0, shieldCooldown := 0, smokeCooldown := 0, slimeCooldown := 0\<rparr>, pots, [])
         | FREEZE \<Rightarrow> (p, map (\<lambda>pot. pot\<lparr>isFrozen := True, freezeEndTime := now + 3000\<rparr>) pots, [])
         | GHOST \<Rightarrow> (p\<lparr>isGhost := True\<rparr>, pots, [(5000, pid p)])
         | MAGNET \<Rightarrow> (p, pots, [])
         | DOUBLE_POINTS \<Rightarrow> (p, pots, []))"

text \<open>server.js 504-524: the avatars tried against one power-up; the flag is \<^verbatim>\<open>collected\<close>.\<close>

fun collectLoop :: "real \<Rightarrow> Powerup \<Rightarrow> Player list \<Rightarrow> bool \<times> Potato list \<times> Timer list \<Rightarrow> Player list \<times> bool \<times> Potato list \<times> Timer list" where
  "collectLoop now pu [] acc = ([], acc)"
| "collectLoop now pu (p # ps) (collected, pots, timers) =
     (if isDead p then
        (let (ps', acc') = collectLoop now pu ps (collected, pots, timers) in (p # ps', acc'))
      else (let dist = hypot (xc (position p) - xc (position pu)) (yc (position p) - yc (position pu))
            in if dist < radius p + radius pu then
                 (let (p', pots', ts) = applyPowerup now pu p pots;
                      (ps', acc') = collectLoop now pu ps (True, pots', timers @ ts)
                  in (p' # ps', acc'))
               else (let (ps', acc') = collectLoop now pu ps (collected, pots, timers)
                     in (p # ps', acc'))))"

text \<open>server.js 502-526: the \<^verbatim>\<open>filter\<close> over the power-ups.\<close>

fun powerupFilter :: "real \<Rightarrow> Powerup list \<Rightarrow> Player list \<times> Potato list \<times> Timer list \<Rightarrow> Powerup list \<times> Player list \<times> Potato list \<times> Timer list" where
  "powerupFilter now [] acc = ([], acc)"
| "powerupFilter now (pu # pus) (ps, pots, timers) =
     (let (ps', collected, pots', timers') = collectLoop now pu ps (False, pots, timers);
          (kept, acc') = powerupFilter now pus (ps', pots', timers')
      in ((if collected then kept else pu # kept), acc'))"

text \<open>server.js 474-527.\<close>

definition checkCollisions :: "real \<Rightarrow> rng \<Rightarrow> GameRoom \<Rightarrow> GameRoom \<times> Timer list \<times> rng" where
  "checkCollisions now r room =
     (if gameEnded room then (room, [], r)
      else (let (pots, ps, multiplier, r') =
                  contactPotatoes now (obstacles room) (potatoes room) (players room)
                    (potatoSpeedMultiplier room) r;
                (kept, ps', pots', timers) = powerupFilter now (powerups room) (ps, pots, [])
            in (room\<lparr>players := ps', potatoes := pots', powerups := kept,
                      potatoSpeedMultiplier := multiplier\<rparr>, timers, r')))"

text \<open>server.js 516-520: the body of the scheduled callback, run when its timer fires.\<close>

fun modifyPlayer :: "string \<Rightarrow> (Player \<Rightarrow> Player) \<Rightarrow> Player list \<Rightarrow> Player list" where
  "modifyPlayer k f [] = []"
| "modifyPlayer k f (p # ps) = (if pid p = k then f p # ps else p # modifyPlayer k f ps)"

definition ghostTimeout :: "string \<Rightarrow> GameRoom \<Rightarrow> GameRoom" where
  "ghostTimeout k room = room\<lparr>players := modifyPlayer k (\<lambda>p. p\<lparr>isGhost := False\<rparr>) (players room)\<rparr>"

subsection \<open>The whole tick\<close>

text \<open>
  What \<^verbatim>\<open>update\<close> returns: \<^verbatim>\<open>undefined\<close> when the room is not playing,
  \<^verbatim>\<open>{ gameOver: false }\<close>, or \<^verbatim>\<open>{ gameOver: true, winnerId }\<close>.
\<close>

datatype UpdateResult = NotPlaying | Continue | GameOverResult "string option"

text \<open>
  server.js 223-438. \<open>now\<close> is the value of \<^verbatim>\<open>Date.now()\<close>; the result carries the room
  after the tick, the returned object, the timers scheduled and the remaining draws.
\<close>

definition update :: "real \<Rightarrow> rng \<Rightarrow> GameRoom \<Rightarrow> GameRoom \<times> UpdateResult \<times> Timer list \<times> rng" where
  "update now r room =
     (if state room \<noteq> PLAYING then (room, NotPlaying, [], r)
      else (let dt = (now - lastUpdate room) / 1000;
                room1 = room\<lparr>lastUpdate := now,
                             slimeAreas := filter (\<lambda>s. now < sspawnTime s + sduration s) (slimeAreas room)\<rparr>;
                (ps, aliveCount, potentialWinner, pots) =
                  playersLoop now dt (slimeAreas room1) (obstacles room1) (players room1)
                    (0, None, potatoes room1);
                room2 = room1\<lparr>players := resolveAll (obstacles room1) ps, potatoes := pots\<rparr>;
                room3 = (if aliveCount = 1 then room2\<lparr>lastSurvivorId := potentialWinner\<rparr> else room2)
            in if now - startTime room3 > 3000 \<and> \<not> gameEnded room3 \<and> aliveCount \<le> 1 then
                 (room3\<lparr>state := GAME_OVER, gameEnded := True\<rparr>,
                  GameOverResult (finalWinner potentialWinner (lastSurvivorId room3) (players room3)),
                  [], r)
               else if \<not> gameEnded room3 then
                 (let room4 = room3\<lparr>potatoes :=
                        map (updatePotato now dt (potatoSpeedMultiplier room3) (players room3))
                          (potatoes room3)\<rparr>;
                      (pus, r1) = updatePowerups now (obstacles room4) (powerups room4) r;
                      (room5, timers, r2) = checkCollisions now r1 (room4\<lparr>powerups := pus\<rparr>)
                  in (room5, Continue, timers, r2))
               else (room3\<lparr>potatoes := map (\<lambda>p. p\<lparr>targetId := None\<rparr>) (potatoes room3)\<rparr>,
                     Continue, [], r)))"

section \<open>Room membership, inputs and round start\<close>

text \<open>
  server.js 93-118: the constructor. \<open>obs\<close> is the result of \<^verbatim>\<open>generateObstacles()\<close>
  and \<open>now\<close> the value of \<^verbatim>\<open>Date.now()\<close>; \<^verbatim>\<open>a || b\<close> replaces a falsy \<^verbatim>\<open>a\<close> (zero).
\<close>

definition newGameRoom :: "string \<Rightarrow> string \<Rightarrow> real \<Rightarrow> nat \<Rightarrow> bool \<Rightarrow> Obstacle list \<Rightarrow> real \<Rightarrow> GameRoom" where
  "newGameRoom rid host initialSpeed maxP priv obs now =
     (let ips = (if initialSpeed = 0 then 1.0 else initialSpeed)
      in \<lparr>roomId = rid, hostId = host, initialPotatoSpeed = ips,
          maxPlayers = (if maxP = 0 then 12 else maxP), isPrivate = priv,
          players = [],
          potatoes = [\<lparr>position = \<lparr>xc = 100, yc = 100\<rparr>, radius = POTATO_RADIUS,
                        velocity = \<lparr>xc = 0, yc = 0\<rparr>, speed = POTATO_SPEED * ips,
                        targetId = None, isFrozen = False, freezeEndTime = 0\<rparr>],
          powerups = [], obstacles = obs, slimeAreas = [], state = WAITING,
          lastUpdate = now, potatoSpeedMultiplier = 1.0, startTime = 0,
          gameEnded = False, lastSurvivorId = None\<rparr>)"

definition findPlayer :: "string \<Rightarrow> Player list \<Rightarrow> Player option" where
  "findPlayer k ps = find (\<lambda>p. pid p = k) ps"

text \<open>Assignment \<^verbatim>\<open>this.players[k] = v\<close>: an existing key keeps its place, a new one is appended.\<close>

fun putPlayer :: "Player \<Rightarrow> Player list \<Rightarrow> Player list" where
  "putPlayer v [] = [v]"
| "putPlayer v (p # ps) = (if pid p = pid v then v # ps else p # putPlayer v ps)"

text \<open>server.js 123-147: the object \<^verbatim>\<open>addPlayer\<close> stores for a new avatar.\<close>

definition newPlayer :: "string \<Rightarrow> string \<Rightarrow> string \<Rightarrow> Vector2 \<Rightarrow> Player" where
  "newPlayer socketId nm col pos =
     \<lparr>position = pos, radius = PLAYER_RADIUS, velocity = \<lparr>xc = 0, yc = 0\<rparr>,
      speed = BASE_SPEED, pid = socketId, name = nm, color = col, isBot = False,
      isDead = False, score = 0, lives = 3, ping = 0, dashCooldown = 0,
      shieldCooldown = 0, smokeCooldown = 0, slimeCooldown = 0, isShielded = False,
      isHidden = False, isGhost = False, isSilenced = False, isSlowed = False,
      speedBoostEndTime = 0, input = pos\<rparr>"

text \<open>server.js 120-148.\<close>

definition addPlayer :: "string \<Rightarrow> string \<Rightarrow> string \<Rightarrow> rng \<Rightarrow> GameRoom \<Rightarrow> GameRoom \<times> rng" where
  "addPlayer socketId nm col r room =
     (let (pos, r') = findSafeSpawn (obstacles room) r
      in (room\<lparr>players := putPlayer (newPlayer socketId nm col pos) (players room)\<rparr>, r'))"

text \<open>server.js 172-185; the returned object is not modelled, the room after the call is.\<close>

definition removePlayer :: "string \<Rightarrow> GameRoom \<Rightarrow> GameRoom" where
  "removePlayer socketId room =
     (let ps = filter (\<lambda>p. pid p \<noteq> socketId) (players room);
          room1 = room\<lparr>players := ps\<rparr>
      in if socketId = hostId room then
           (case ps of [] \<Rightarrow> room1 | p # _ \<Rightarrow> room1\<lparr>hostId := pid p\<rparr>)
         else room1)"

text \<open>server.js 196-206: the reset of every avatar at round start.\<close>

fun resetPlayers :: "Obstacle list \<Rightarrow> Player list \<Rightarrow> rng \<Rightarrow> Player list \<times> rng" where
  "resetPlayers obs [] r = ([], r)"
| "resetPlayers obs (p # ps) r =
     (let (pos, r') = findSafeSpawn obs r;
          p' = p\<lparr>position := pos, lives := 3, isDead := False, score := 0, slimeCooldown := 0,
                 shieldCooldown := 0, dashCooldown := 0, smokeCooldown := 0, isSilenced := False\<rparr>;
          (ps', r'') = resetPlayers obs ps r'
      in (p' # ps', r''))"

text \<open>server.js 187-221.\<close>

definition startGame :: "real \<Rightarrow> rng \<Rightarrow> GameRoom \<Rightarrow> GameRoom \<times> rng" where
  "startGame now r room =
     (let (ps, r') = resetPlayers (obstacles room) (players room) r
      in (room\<lparr>state := PLAYING, gameEnded := False, lastUpdate := now, startTime := now,
                potatoSpeedMultiplier := initialPotatoSpeed room, lastSurvivorId := None,
                players := ps,
                potatoes := [\<lparr>position = \<lparr>xc = 100, yc = 100\<rparr>, radius = POTATO_RADIUS,
                              velocity = \<lparr>xc = 0, yc = 0\<rparr>,
                              speed = POTATO_SPEED * initialPotatoSpeed room,
                              targetId = None, isFrozen = False, freezeEndTime = 0\<rparr>],
                slimeAreas := [], powerups := []\<rparr>, r'))"

text \<open>The payload of an \<^verbatim>\<open>input\<close> message; \<open>key\<close> is absent or a key name.\<close>

record InputData =
  ix :: real
  iy :: real
  key :: "string option"

text \<open>server.js 541-559: the ability keys, for an avatar that is not silenced.\<close>

definition abilityKeys :: "real \<Rightarrow> rng \<Rightarrow> string \<Rightarrow> string \<Rightarrow> Player \<Rightarrow> SlimeArea list \<Rightarrow> Player \<times> SlimeArea list \<times> rng" where
  "abilityKeys now r socketId k p0 slimes =
     (let p1 = (if k = ''q'' \<and> dashCooldown p0 \<le> 0
                then p0\<lparr>dashCooldown := 8000, speedBoostEndTime := now + 300, speed := BASE_SPEED * 2.5\<rparr>
                else p0);
          p2 = (if k = ''w'' \<and> shieldCooldown p1 \<le> 0 then p1\<lparr>shieldCooldown := 20000\<rparr> else p1);
          p3 = (if k = ''e'' \<and> smokeCooldown p2 \<le> 0 then p2\<lparr>smokeCooldown := 12000\<rparr> else p2)
      in if k = ''r'' \<and> slimeCooldown p3 \<le> 0 then
           (p3\<lparr>slimeCooldown := 15000\<rparr>,
            slimes @ [\<lparr>slimeId = r 0, ownerId = socketId, sx = xc (position p3), sy = yc (position p3),
                       sradius = SLIME_RADIUS, sspawnTime = now, sduration = 3000\<rparr>],
            rdrop 1 r)
         else (p3, slimes, r))"

text \<open>server.js 529-562.\<close>

definition handleInput :: "real \<Rightarrow> rng \<Rightarrow> string \<Rightarrow> InputData \<Rightarrow> GameRoom \<Rightarrow> GameRoom \<times> rng" where
  "handleInput now r socketId inputData room =
     (case findPlayer socketId (players room) of
        None \<Rightarrow> (room, r)
      | Some q \<Rightarrow>
          (let p = q\<lparr>input := \<lparr>xc = ix inputData, yc = iy inputData\<rparr>\<rparr>
           in if truthy (key inputData) \<and> \<not> isSilenced p then
                (let (p', slimes, r') = abilityKeys now r socketId (the (key inputData)) p (slimeAreas room)
                 in (room\<lparr>players := modifyPlayer socketId (\<lambda>_. p') (players room),
                           slimeAreas := slimes\<rparr>, r'))
              else (room\<lparr>players := modifyPlayer socketId (\<lambda>_. p) (players room)\<rparr>, r)))"

section \<open>The server: registry, \<^verbatim>\<open>join_room\<close> and the tick driver\<close>

text \<open>The events the server emits, with their payloads (server.js 565-689).\<close>

datatype Payload =
    ErrorEvent string
  | RoomJoined string bool string real nat bool
  | RoomUpdate "Player list" string
  | LobbiesUpdate "(string \<times> nat \<times> nat \<times> RoomState) list"
  | GameStateFull "Player list" "Potato list" "Obstacle list" "Powerup list" "SlimeArea list"
  | GameStateTick "Player list" "Potato list" "Powerup list" "SlimeArea list"
  | GameOverEvent "string option" "Player list"

datatype Emit = ToSocket string Payload | ToRoom string Payload | ToAll Payload

text \<open>
  The process state: the table \<^verbatim>\<open>rooms\<close> (in insertion order) and the socket.io room
  membership written by \<^verbatim>\<open>socket.join\<close>, as pairs (socket id, room id).
\<close>

record Server =
  rooms :: "(string \<times> GameRoom) list"
  joined :: "(string \<times> string) list"

text \<open>server.js 657-664.\<close>

definition getActiveLobbies :: "(string \<times> GameRoom) list \<Rightarrow> (string \<times> nat \<times> nat \<times> RoomState) list" where
  "getActiveLobbies rs =
     map (\<lambda>g. (roomId g, length (players g), maxPlayers g, state g))
       (filter (\<lambda>g. \<not> isPrivate g) (map snd rs))"

text \<open>server.js 597-616: the handler of \<^verbatim>\<open>join_room\<close> for the socket \<open>socketId\<close>.\<close>

definition join_room :: "string \<Rightarrow> string \<Rightarrow> string \<Rightarrow> string \<Rightarrow> rng \<Rightarrow> Server \<Rightarrow> Server \<times> Emit list \<times> rng" where
  "join_room socketId rid nm col r srv =
     (case map_of (rooms srv) rid of
        None \<Rightarrow> (srv, [ToSocket socketId (ErrorEvent ''Room not found or game already in progress'')], r)
      | Some room \<Rightarrow>
          (if state room = WAITING then
             (if length (players room) \<ge> maxPlayers room
              then (srv, [ToSocket socketId (ErrorEvent ''Room is full!'')], r)
              else (let (room', r') = addPlayer socketId nm col r room;
                        srv' = srv\<lparr>rooms := AList.update rid room' (rooms srv),
                                   joined := joined srv @ [(socketId, rid)]\<rparr>
                    in (srv',
                        [ToSocket socketId (RoomJoined rid False socketId (initialPotatoSpeed room')
                           (maxPlayers room') (isPrivate room')),
                         ToRoom rid (RoomUpdate (players room') (hostId room')),
                         ToAll (LobbiesUpdate (getActiveLobbies (rooms srv'))),
                         ToSocket socketId (GameStateFull (players room') (potatoes room')
                           (obstacles room') (powerups room') (slimeAreas room'))],
                        r')))
           else (srv, [ToSocket socketId (ErrorEvent ''Room not found or game already in progress'')], r)))"

text \<open>
  server.js 667-689: the body of the interval callback for the room stored under the
  key \<open>rid\<close> of the table.
\<close>

definition tickRoom :: "real \<Rightarrow> rng \<Rightarrow> string \<Rightarrow> GameRoom \<Rightarrow> GameRoom \<times> Emit list \<times> Timer list \<times> rng" where
  "tickRoom now r rid room =
     (if state room = PLAYING \<or> state room = GAME_OVER then
        (let (room', res, timers, r') = update now r room
         in case res of
              GameOverResult w \<Rightarrow>
                (room'\<lparr>state := WAITING\<rparr>,
                 [ToRoom rid (GameOverEvent w (players room'))], timers, r')
            | _ \<Rightarrow>
                (room',
                 [ToRoom rid (GameStateTick (players room') (potatoes room')
                    (powerups room') (slimeAreas room'))], timers, r'))
      else (room, [], [], r))"

section \<open>The client: reconciliation and local prediction\<close>

text \<open>GameCanvas.tsx 60-62.\<close>

definition lerp :: "real \<Rightarrow> real \<Rightarrow> real \<Rightarrow> real" where
  "lerp start end' t = start * (1 - t) + end' * t"

text \<open>
  GameCanvas.tsx 443-476: what \<^verbatim>\<open>applyOnlineInterpolation\<close> makes of one avatar
  \<open>targetP\<close> of the snapshot, given the avatars the client currently shows. \<open>myId\<close> is
  the client's own socket id, absent when there is no socket. The avatars of a snapshot
  are the server's objects, so the record \<open>Player\<close> is used for both sides.
\<close>

definition interpolatePlayer :: "string option \<Rightarrow> real \<Rightarrow> Player list \<Rightarrow> Player \<Rightarrow> Player" where
  "interpolatePlayer myId factor current targetP =
     (case find (\<lambda>p. pid p = pid targetP) current of
        Some currentP \<Rightarrow>
          (if Some (pid targetP) = myId then
             (let dist = hypot (xc (position targetP) - xc (position currentP))
                               (yc (position targetP) - yc (position currentP))
              in if dist > 50 then targetP
                 else targetP\<lparr>position := position currentP\<rparr>)
           else (let lx = lerp (xc (position currentP)) (xc (position targetP)) factor;
                     ly = lerp (yc (position currentP)) (yc (position targetP)) factor
                 in targetP\<lparr>position := \<lparr>xc = lx, yc = ly\<rparr>\<rparr>))
      | None \<Rightarrow> targetP)"

text \<open>
  GameCanvas.tsx 434-477: the avatars after a snapshot is applied (the pursuers are
  interpolated the same way and are not modelled).
\<close>

definition applyOnlineInterpolation :: "string option \<Rightarrow> real \<Rightarrow> Player list \<Rightarrow> Player list \<Rightarrow> Player list" where
  "applyOnlineInterpolation myId factor current targetPlayers =
     map (interpolatePlayer myId factor current) targetPlayers"

text \<open>
  The obstacles the client holds, \<^verbatim>\<open>obstaclesRef.current\<close>. Offline it is the list
  built by \<^verbatim>\<open>initGameLocal\<close>. Online the \<^verbatim>\<open>game_state\<close> handler assigns
  \<^verbatim>\<open>state.obstacles\<close> on every message (GameCanvas.tsx 235), and the states broadcast
  by the tick driver carry no obstacles (server.js 680-685): after such a message the
  value is \<^verbatim>\<open>undefined\<close>, modelled as \<open>None\<close>.
\<close>

definition stateObstacles :: "Payload \<Rightarrow> Obstacle list option" where
  "stateObstacles payload =
     (case payload of
        GameStateFull ps pots obs pus sl \<Rightarrow> Some obs
      | _ \<Rightarrow> None)"

datatype ClientError = TypeError

text \<open>
  GameCanvas.tsx 66-85: the client's copy of \<^verbatim>\<open>isPositionValid\<close>. A point out of
  bounds is rejected before the obstacles are read; otherwise \<^verbatim>\<open>for (const obs of
  obstacles)\<close> throws a \<^verbatim>\<open>TypeError\<close> when the obstacles are \<^verbatim>\<open>undefined\<close>.
\<close>

definition clientIsPositionValid :: "real \<Rightarrow> real \<Rightarrow> real \<Rightarrow> Obstacle list option \<Rightarrow> ClientError + bool" where
  "clientIsPositionValid x y r cobs =
     (if x < r \<or> x > CANVAS_WIDTH - r \<or> y < r \<or> y > CANVAS_HEIGHT - r then Inr False
      else (case cobs of
              None \<Rightarrow> Inl TypeError
            | Some obs \<Rightarrow> Inr (obstaclesClear x y r obs)))"

text \<open>
  GameCanvas.tsx 675-687. An exception leaves the avatar as it was: the X coordinate is
  assigned only after a check that returned true, which needs the obstacles defined.
\<close>

definition applyMovement :: "Obstacle list option \<Rightarrow> Player \<Rightarrow> real \<Rightarrow> real \<Rightarrow> ClientError + Player" where
  "applyMovement cobs p vx vy =
     (let nextX = xc (position p) + vx
      in case clientIsPositionValid nextX (yc (position p)) (radius p) cobs of
           Inl e \<Rightarrow> Inl e
         | Inr okX \<Rightarrow>
             (let p1 = (if okX then p\<lparr>position := (position p)\<lparr>xc := nextX\<rparr>\<rparr> else p);
                  nextY = yc (position p1) + vy
              in case clientIsPositionValid (xc (position p1)) nextY (radius p1) cobs of
                   Inl e \<Rightarrow> Inl e
                 | Inr okY \<Rightarrow>
                     Inr (if okY then p1\<lparr>position := (position p1)\<lparr>yc := nextY\<rparr>\<rparr> else p1)))"

text \<open>
  GameCanvas.tsx 638-673. \<open>isOnline\<close> is \<^verbatim>\<open>settings.isOnline\<close> and \<open>myId\<close> the socket id;
  the first branch is the avatar the client controls, the second the offline bots.
\<close>

definition movePlayerToward :: "bool \<Rightarrow> string option \<Rightarrow> Obstacle list option \<Rightarrow> Player \<Rightarrow> real \<Rightarrow> real \<Rightarrow> real \<Rightarrow> ClientError + Player" where
  "movePlayerToward isOnline myId cobs p tx ty dt =
     (let dx = tx - xc (position p);
          dy = ty - yc (position p)
      in if pid p = ''user'' \<or> (isOnline \<and> Some (pid p) = myId) then
           (let dist = sqrt (dx * dx + dy * dy)
            in if dist < 5 then Inr p
               else (let moveStep = speed p * dt;
                         (vx, vy) = (if dist < moveStep then (dx, dy)
                                     else (let angle = atan2 dy dx
                                           in (cos angle * moveStep, sin angle * moveStep)))
                     in applyMovement cobs p vx vy))
         else (let dist = sqrt (dx * dx + dy * dy)
               in if dist > 1 then
                    (let moveSpeed = speed p * dt;
                         vx = (dx / dist) * moveSpeed;
                         vy = (dy / dist) * moveSpeed
                     in applyMovement cobs p vx vy)
                  else Inr p))"

text \<open>
  GameCanvas.tsx 345-350: the obstacle test of the client's own \<^verbatim>\<open>findSafeSpawn\<close>,
  which pads every obstacle by the avatar radius.
\<close>

fun nearSomeObstacle :: "real \<Rightarrow> real \<Rightarrow> Obstacle list \<Rightarrow> bool" where
  "nearSomeObstacle px py [] = False"
| "nearSomeObstacle px py (obs # rest) =
     ((px > ox obs - PLAYER_RADIUS \<and> px < ox obs + width obs + PLAYER_RADIUS
       \<and> py > oy obs - PLAYER_RADIUS \<and> py < oy obs + height obs + PLAYER_RADIUS)
      \<or> nearSomeObstacle px py rest)"

section \<open>Auxiliary notions for the statements\<close>

text \<open>The number of dead avatars in a room's avatar list.\<close>

definition deadCount :: "Player list \<Rightarrow> nat" where
  "deadCount ps = length (filter isDead ps)"

text \<open>
  A circle (avatar or pursuer) is validly placed when \<^verbatim>\<open>isPositionValid\<close> accepts its
  centre and radius: it lies within the arena and its interior meets no obstacle.
\<close>

definition circleValid :: "Obstacle list \<Rightarrow> 'a Circle_scheme \<Rightarrow> bool" where
  "circleValid obs c = isPositionValid (xc (position c)) (yc (position c)) (radius c) obs"

text \<open>
  Two relations between an avatar before and after a step, used to follow one avatar
  through the loops of a tick. \<open>stays\<close>: id, lives and radius are unchanged, and a
  validly placed avatar remains validly placed. \<open>keptOrHit\<close>: id and radius are
  unchanged, no life is gained, and the position is unchanged unless a life was lost.
\<close>

definition stays :: "Obstacle list \<Rightarrow> Player \<Rightarrow> Player \<Rightarrow> bool" where
  "stays obs p p' =
     (pid p' = pid p \<and> lives p' = lives p \<and> radius p' = radius p
      \<and> (circleValid obs p \<longrightarrow> circleValid obs p'))"

definition keptOrHit :: "Player \<Rightarrow> Player \<Rightarrow> bool" where
  "keptOrHit p p' =
     (pid p' = pid p \<and> radius p' = radius p \<and> lives p' \<le> lives p
      \<and> (position p' = position p \<or> lives p' < lives p))"

section \<open>Arithmetic of the step vector\<close>

lemma cos_arctan_div: "x > 0 \<Longrightarrow> cos (arctan (y / x)) = x / sqrt (x * x + y * y)"
proof -
  assume x: "x > 0"
  have "1 + (y / x)\<^sup>2 = (x * x + y * y) / (x * x)"
    using x by (simp add: power2_eq_square field_simps)
  then have "sqrt (1 + (y / x)\<^sup>2) = sqrt (x * x + y * y) / x"
    using x by (simp add: real_sqrt_divide)
  then show ?thesis by (simp add: cos_arctan)
qed

lemma cos_arctan_div_neg: "x < 0 \<Longrightarrow> cos (arctan (y / x)) = - x / sqrt (x * x + y * y)"
  using cos_arctan_div [of "- x" "- y"] by simp

lemma sin_arctan_div: "x > 0 \<Longrightarrow> sin (arctan (y / x)) = y / sqrt (x * x + y * y)"
proof -
  assume x: "x > 0"
  have "1 + (y / x)\<^sup>2 = (x * x + y * y) / (x * x)"
    using x by (simp add: power2_eq_square field_simps)
  then have "sqrt (1 + (y / x)\<^sup>2) = sqrt (x * x + y * y) / x"
    using x by (simp add: real_sqrt_divide)
  then show ?thesis using x by (simp add: sin_arctan)
qed

lemma sin_arctan_div_neg: "x < 0 \<Longrightarrow> sin (arctan (y / x)) = - y / sqrt (x * x + y * y)"
  using sin_arctan_div [of "- x" "- y"] by simp

text \<open>The unit vector of \<^verbatim>\<open>Math.atan2(dy, dx)\<close> is the normalised \<open>(dx, dy)\<close>.\<close>

lemma cos_atan2: "x \<noteq> 0 \<or> y \<noteq> 0 \<Longrightarrow> cos (atan2 y x) = x / sqrt (x * x + y * y)"
  by (auto simp: atan2_def cos_arctan_div cos_arctan_div_neg)

lemma sin_atan2: "x \<noteq> 0 \<or> y \<noteq> 0 \<Longrightarrow> sin (atan2 y x) = y / sqrt (x * x + y * y)"
  by (auto simp: atan2_def sin_arctan_div sin_arctan_div_neg)

lemma stepVector_eq:
  "stepVector p dt =
     (let dx = xc (input p) - xc (position p);
          dy = yc (input p) - yc (position p);
          dist = sqrt (dx * dx + dy * dy);
          moveStep = speed p * dt
      in if dist \<le> 5 then (0, 0)
         else if dist < moveStep then (dx, dy)
         else (dx / dist * moveStep, dy / dist * moveStep))"
proof -
  let ?dx = "xc (input p) - xc (position p)"
  let ?dy = "yc (input p) - yc (position p)"
  show ?thesis
  proof (cases "sqrt (?dx * ?dx + ?dy * ?dy) > 5")
    case True
    then have "?dx \<noteq> 0 \<or> ?dy \<noteq> 0" by auto
    then show ?thesis using True
      by (simp add: stepVector_def Let_def cos_atan2 sin_atan2)
  next
    case False
    then show ?thesis by (simp add: stepVector_def Let_def)
  qed
qed

lemma step_sq:
  fixes dx dy m d :: real
  assumes "d > 0" "d * d = dx * dx + dy * dy"
  shows "(dx / d * m) * (dx / d * m) + (dy / d * m) * (dy / d * m) = m * m"
proof -
  have "(dx / d * m) * (dx / d * m) + (dy / d * m) * (dy / d * m)
      = (dx * dx + dy * dy) / (d * d) * (m * m)"
    using assms(1) by (simp add: field_simps)
  also have "\<dots> = (d * d) / (d * d) * (m * m)" using assms(2) by simp
  also have "\<dots> = m * m" using assms(1) by simp
  finally show ?thesis .
qed

lemma step_length:
  fixes dx dy m :: real
  assumes "sqrt (dx * dx + dy * dy) > 0"
  shows "sqrt ((dx / sqrt (dx * dx + dy * dy) * m) * (dx / sqrt (dx * dx + dy * dy) * m)
    + (dy / sqrt (dx * dx + dy * dy) * m) * (dy / sqrt (dx * dx + dy * dy) * m)) = \<bar>m\<bar>"
proof -
  have pos: "dx * dx + dy * dy > 0" using assms by (simp add: real_sqrt_gt_0_iff)
  have dd: "sqrt (dx * dx + dy * dy) * sqrt (dx * dx + dy * dy) = dx * dx + dy * dy"
    using pos by simp
  show ?thesis
    unfolding step_sq [OF assms dd] by simp
qed

section \<open>Move-and-slide\<close>

lemma moveAndSlide_eq:
  "moveAndSlide obs dt p =
    (let x = xc (position p); y = yc (position p);
         v = stepVector p dt;
         x' = (if fst v \<noteq> 0 \<and> isPositionValid (x + fst v) y (radius p) obs then x + fst v else x);
         y' = (if snd v \<noteq> 0 \<and> isPositionValid x' (y + snd v) (radius p) obs then y + snd v else y)
     in p\<lparr>position := \<lparr>xc = x', yc = y'\<rparr>\<rparr>)"
  by (cases "stepVector p dt") (simp add: moveAndSlide_def tryMoveX_def tryMoveY_def setXIfValid_def setYIfValid_def Let_def)

text \<open>
  Claim C4, as the code has it. With \<open>(dx, dy)\<close> the vector from the avatar to its
  movement-intent target, \<open>dist\<close> its length and \<open>moveStep = speed * dt\<close>, the
  displacement of a tick is zero when \<open>dist \<le> 5\<close>, the whole of \<open>(dx, dy)\<close> (a snap to
  the target) when \<open>5 < dist < moveStep\<close>, and otherwise the vector of length
  \<open>moveStep\<close> in the direction of the target; its length never exceeds a non-negative
  \<open>moveStep\<close>. It is applied per axis: the new X is taken only if it is non-zero and the
  circle at the new X and old Y is valid, and the new Y is then tried the same way at the
  X just decided.
\<close>

theorem C4_move_and_slide:
  "let x = xc (position p); y = yc (position p);
       dx = xc (input p) - x; dy = yc (input p) - y;
       dist = sqrt (dx * dx + dy * dy); moveStep = speed p * dt;
       v = (if dist \<le> 5 then (0, 0)
            else if dist < moveStep then (dx, dy)
            else (dx / dist * moveStep, dy / dist * moveStep));
       x' = (if fst v \<noteq> 0 \<and> isPositionValid (x + fst v) y (radius p) obs then x + fst v else x);
       y' = (if snd v \<noteq> 0 \<and> isPositionValid x' (y + snd v) (radius p) obs then y + snd v else y)
   in moveAndSlide obs dt p = p\<lparr>position := \<lparr>xc = x', yc = y'\<rparr>\<rparr>
      \<and> (0 \<le> moveStep \<longrightarrow> sqrt (fst v * fst v + snd v * snd v) \<le> moveStep)"
proof -
  let ?dx = "xc (input p) - xc (position p)"
  let ?dy = "yc (input p) - yc (position p)"
  let ?dist = "sqrt (?dx * ?dx + ?dy * ?dy)"
  let ?m = "speed p * dt"
  let ?v = "if ?dist \<le> 5 then (0, 0) else if ?dist < ?m then (?dx, ?dy)
            else (?dx / ?dist * ?m, ?dy / ?dist * ?m)"
  have sv: "stepVector p dt = ?v"
    by (simp add: stepVector_eq Let_def)
  have cap: "0 \<le> ?m \<longrightarrow> sqrt (fst ?v * fst ?v + snd ?v * snd ?v) \<le> ?m"
  proof (cases "?dist \<le> 5")
    case True then show ?thesis by simp
  next
    case far: False
    show ?thesis
    proof (cases "?dist < ?m")
      case True with far show ?thesis by simp
    next
      case False
      have "?dist > 0" using far by linarith
      from step_length [OF this, of ?m] far False show ?thesis by simp
    qed
  qed
  have mv: "moveAndSlide obs dt p =
    (let x = xc (position p); y = yc (position p);
         x' = (if fst ?v \<noteq> 0 \<and> isPositionValid (x + fst ?v) y (radius p) obs then x + fst ?v else x);
         y' = (if snd ?v \<noteq> 0 \<and> isPositionValid x' (y + snd ?v) (radius p) obs then y + snd ?v else y)
     in p\<lparr>position := \<lparr>xc = x', yc = y'\<rparr>\<rparr>)"
    unfolding moveAndSlide_eq [of obs dt p] sv [symmetric] by (simp add: Let_def)
  show ?thesis
    unfolding Let_def using mv cap unfolding Let_def by blast
qed

text \<open>
  The two scenarios of the claim, obtained from the theorem: the avatar at \<open>(100, 100)\<close>
  with radius 25, speed 250 and target \<open>(500, 100)\<close> moves in a tick of one second to
  \<open>(350, 100)\<close> on the empty map, and stays at \<open>(100, 100)\<close> when an obstacle occupies
  \<open>x \<in> [340, 360]\<close>, \<open>y \<in> [50, 150]\<close>.
\<close>

theorem C4_move_and_slide_witness:
  "(0::real) \<le> 250 * 1
   \<and> position (moveAndSlide [] 1
        ((newPlayer ''a'' ''A'' ''red'' \<lparr>xc = 100, yc = 100\<rparr>)\<lparr>input := \<lparr>xc = 500, yc = 100\<rparr>\<rparr>))
       = \<lparr>xc = 350, yc = 100\<rparr>
   \<and> position (moveAndSlide [\<lparr>obsId = ''obs-0'', ox = 340, oy = 50, width = 20, height = 100\<rparr>] 1
        ((newPlayer ''a'' ''A'' ''red'' \<lparr>xc = 100, yc = 100\<rparr>)\<lparr>input := \<lparr>xc = 500, yc = 100\<rparr>\<rparr>))
       = \<lparr>xc = 100, yc = 100\<rparr>"
proof -
  let ?p = "(newPlayer ''a'' ''A'' ''red'' \<lparr>xc = 100, yc = 100\<rparr>)\<lparr>input := \<lparr>xc = 500, yc = 100\<rparr>\<rparr>"
  let ?o = "\<lparr>obsId = ''obs-0'', ox = 340, oy = 50, width = 20, height = 100\<rparr>"
  have f: "xc (position ?p) = 100" "yc (position ?p) = 100" "xc (input ?p) = 500"
    "yc (input ?p) = 100" "speed ?p = 250" "radius ?p = 25"
    by (simp_all add: newPlayer_def PLAYER_RADIUS_def BASE_SPEED_def)
  have v1: "isPositionValid 350 100 25 []"
    by (simp add: isPositionValid_def CANVAS_WIDTH_def CANVAS_HEIGHT_def)
  have v2: "\<not> isPositionValid 350 100 25 [?o]"
    by (simp add: isPositionValid_def CANVAS_WIDTH_def CANVAS_HEIGHT_def)
  have "position (moveAndSlide [] 1 ?p) = \<lparr>xc = 350, yc = 100\<rparr>"
    using C4_move_and_slide [of ?p 1 "[]"] unfolding Let_def f using v1 by simp
  moreover have "position (moveAndSlide [?o] 1 ?p) = \<lparr>xc = 100, yc = 100\<rparr>"
    using C4_move_and_slide [of ?p 1 "[?o]"] unfolding Let_def f using v2 by simp
  ultimately show ?thesis by simp
qed

text \<open>
  Claim C4 as stated fails inside the dead zone: an avatar at \<open>(100, 100)\<close> whose target
  \<open>(103, 100)\<close> is 3 units away, less than one step of 250, is not snapped to the target
  although the target position is valid; it does not move.
\<close>

theorem C4_counterexample:
  "sqrt ((103 - 100) * (103 - 100) + (100 - 100) * (100 - 100)) < BASE_SPEED * 1
   \<and> isPositionValid 103 100 PLAYER_RADIUS []
   \<and> position (moveAndSlide [] 1
        ((newPlayer ''a'' ''A'' ''red'' \<lparr>xc = 100, yc = 100\<rparr>)\<lparr>input := \<lparr>xc = 103, yc = 100\<rparr>\<rparr>))
       = \<lparr>xc = 100, yc = 100\<rparr>"
  by (simp add: newPlayer_def PLAYER_RADIUS_def BASE_SPEED_def CANVAS_WIDTH_def CANVAS_HEIGHT_def
      isPositionValid_def moveAndSlide_def stepVector_def tryMoveX_def tryMoveY_def setXIfValid_def setYIfValid_def Let_def)

section \<open>The dead zone\<close>

lemma slimeEffect_keeps:
  "position (fst (slimeEffect s pm)) = position (fst pm)"
  "input (fst (slimeEffect s pm)) = input (fst pm)"
  "radius (fst (slimeEffect s pm)) = radius (fst pm)"
  "isDead (fst (slimeEffect s pm)) = isDead (fst pm)"
  "pid (fst (slimeEffect s pm)) = pid (fst pm)"
  by (simp_all add: slimeEffect_def Let_def)

lemma slimeLoop_keeps:
  "position (fst (slimeLoop sl pm)) = position (fst pm)"
  "input (fst (slimeLoop sl pm)) = input (fst pm)"
  "radius (fst (slimeLoop sl pm)) = radius (fst pm)"
  "isDead (fst (slimeLoop sl pm)) = isDead (fst pm)"
  "pid (fst (slimeLoop sl pm)) = pid (fst pm)"
  by (induction sl arbitrary: pm; simp add: slimeEffect_keeps)+

lemma statusUpdate_keeps:
  "position (statusUpdate now dt sl p) = position p"
  "input (statusUpdate now dt sl p) = input p"
  "radius (statusUpdate now dt sl p) = radius p"
  "isDead (statusUpdate now dt sl p) = isDead p"
  "pid (statusUpdate now dt sl p) = pid p"
  unfolding statusUpdate_def Let_def
  by (simp_all add: case_prod_beta slimeLoop_keeps)

lemma moveAndSlide_dead_zone:
  assumes "sqrt ((xc (input p) - xc (position p)) * (xc (input p) - xc (position p))
              + (yc (input p) - yc (position p)) * (yc (input p) - yc (position p))) \<le> 5"
  shows "moveAndSlide obs dt p = p"
  using assms by (simp add: moveAndSlide_def stepVector_def tryMoveX_def tryMoveY_def setXIfValid_def setYIfValid_def Let_def)

text \<open>
  The server's dead zone: an avatar whose distance to its movement-intent target is at
  most 5 is left unchanged by move-and-slide, and the whole per-avatar body of the tick
  leaves its position unchanged.
\<close>

lemma server_dead_zone:
  assumes "sqrt ((xc (input p) - xc (position p)) * (xc (input p) - xc (position p))
              + (yc (input p) - yc (position p)) * (yc (input p) - yc (position p))) \<le> 5"
  shows "moveAndSlide obs dt p = p"
    and "position (fst (playerTick now dt slimes obs p acc)) = position p"
proof -
  show "moveAndSlide obs dt p = p" by (rule moveAndSlide_dead_zone [OF assms])
  let ?p1 = "statusUpdate now dt slimes p"
  have "moveAndSlide obs dt ?p1 = ?p1"
    by (rule moveAndSlide_dead_zone) (simp add: statusUpdate_keeps assms)
  then show "position (fst (playerTick now dt slimes obs p acc)) = position p"
    by (cases acc) (simp add: playerTick_def Let_def statusUpdate_keeps)
qed

text \<open>
  The client's dead zone is strict: the controlled avatar is returned unchanged, without
  reading the obstacles, when the distance to the pointer is below 5.
\<close>

lemma client_dead_zone:
  assumes "pid q = ''user'' \<or> (isOnline \<and> Some (pid q) = myId)"
    and "sqrt ((tx - xc (position q)) * (tx - xc (position q))
             + (ty - yc (position q)) * (ty - yc (position q))) < 5"
  shows "movePlayerToward isOnline myId cobs q tx ty cdt = Inr q"
  using assms by (auto simp add: movePlayerToward_def Let_def)

text \<open>
  Online, once a tick state has been received the client holds no obstacles, and a step
  of the controlled avatar to a point within the arena throws before anything moves.
\<close>

lemma client_online_throws:
  assumes "stateObstacles (GameStateTick ps pots pus sl) = cobs"
    and "radius q \<le> xc (position q) + vx" and "xc (position q) + vx \<le> CANVAS_WIDTH - radius q"
    and "radius q \<le> yc (position q)" and "yc (position q) \<le> CANVAS_HEIGHT - radius q"
  shows "applyMovement cobs q vx vy = Inl TypeError"
  using assms by (auto simp add: stateObstacles_def applyMovement_def clientIsPositionValid_def Let_def)

text \<open>
  Claim C10 at the boundary of the dead zone. The offline client controls the avatar
  \<^verbatim>\<open>'user'\<close>, created at the centre \<open>(1000, 1000)\<close> with speed 250; the pointer is at
  \<open>(1003, 1004)\<close>, exactly 5 units away, and a frame lasts a sixtieth of a second. The
  server's rule leaves the avatar at such a distance unchanged, as the claim says; the
  client's \<^verbatim>\<open>movePlayerToward\<close> moves it by one step of \<open>250 / 60\<close> toward the pointer,
  to \<open>(1002.5, 1003.33\<dots>)\<close>.
\<close>

theorem C10_client_boundary:
  "sqrt ((1003 - 1000) * (1003 - 1000) + (1004 - 1000) * (1004 - 1000)) = (5::real)
   \<and> moveAndSlide [\<lparr>obsId = ''obs-0'', ox = 200, oy = 200, width = 150, height = 150\<rparr>] (1 / 60)
        ((newPlayer ''user'' ''U'' ''red'' \<lparr>xc = 1000, yc = 1000\<rparr>)\<lparr>input := \<lparr>xc = 1003, yc = 1004\<rparr>\<rparr>)
       = (newPlayer ''user'' ''U'' ''red'' \<lparr>xc = 1000, yc = 1000\<rparr>)\<lparr>input := \<lparr>xc = 1003, yc = 1004\<rparr>\<rparr>
   \<and> movePlayerToward False None
        (Some [\<lparr>obsId = ''obs-0'', ox = 200, oy = 200, width = 150, height = 150\<rparr>])
        (newPlayer ''user'' ''U'' ''red'' \<lparr>xc = 1000, yc = 1000\<rparr>) 1003 1004 (1 / 60)
       = Inr ((newPlayer ''user'' ''U'' ''red'' \<lparr>xc = 1000, yc = 1000\<rparr>)
               \<lparr>position := \<lparr>xc = 2005 / 2, yc = 3010 / 3\<rparr>\<rparr>)"
proof -
  let ?o = "\<lparr>obsId = ''obs-0'', ox = 200, oy = 200, width = 150, height = 150\<rparr>"
  let ?u = "newPlayer ''user'' ''U'' ''red'' \<lparr>xc = 1000, yc = 1000\<rparr>"
  have d: "sqrt ((1003 - 1000) * (1003 - 1000) + (1004 - 1000) * (1004 - 1000)) = (5::real)"
    by simp
  have f: "xc (position ?u) = 1000" "yc (position ?u) = 1000" "speed ?u = 250" "radius ?u = 25"
    "pid ?u = ''user''"
    by (simp_all add: newPlayer_def BASE_SPEED_def PLAYER_RADIUS_def)
  have server: "moveAndSlide [?o] (1 / 60) (?u\<lparr>input := \<lparr>xc = 1003, yc = 1004\<rparr>\<rparr>)
      = ?u\<lparr>input := \<lparr>xc = 1003, yc = 1004\<rparr>\<rparr>"
    by (rule moveAndSlide_dead_zone) (simp add: newPlayer_def)
  have c: "cos (atan2 4 3) = 3 / 5" "sin (atan2 4 3) = 4 / 5"
    by (simp_all add: cos_atan2 sin_atan2)
  have v: "clientIsPositionValid (2005 / 2) 1000 25 (Some [?o]) = Inr True"
    "clientIsPositionValid (2005 / 2) (3010 / 3) 25 (Some [?o]) = Inr True"
    by (simp_all add: clientIsPositionValid_def CANVAS_WIDTH_def CANVAS_HEIGHT_def)
  have client: "movePlayerToward False None (Some [?o]) ?u 1003 1004 (1 / 60)
      = Inr (?u\<lparr>position := \<lparr>xc = 2005 / 2, yc = 3010 / 3\<rparr>\<rparr>)"
    unfolding movePlayerToward_def applyMovement_def Let_def f
    by (simp add: c v f)
  from d server client show ?thesis by blast
qed


section \<open>Pairwise separation\<close>

lemma resolvePair_apart:
  assumes "radius p1 + radius p2
      \<le> sqrt ((xc (position p2) - xc (position p1)) * (xc (position p2) - xc (position p1))
            + (yc (position p2) - yc (position p1)) * (yc (position p2) - yc (position p1)))"
  shows "resolvePair obs p1 p2 = (p1, p2)"
  using assms by (simp add: resolvePair_def Let_def)

lemma resolveAll_two:
  "resolveAll obs [p1, p2] = (let (a, b) = resolvePair obs p1 p2 in [a, b])"
proof -
  have u: "[0 ..< 2] = [0, Suc 0]" "[Suc 0 ..< 2] = [Suc 0]" "[2 ..< 2] = ([]::nat list)"
    by (simp_all add: upt_rec)
  show ?thesis
    by (simp add: resolveAll_def pairStep_def u case_prod_beta)
qed

text \<open>
  Claim C9: two avatars whose centre distance is at least the sum of their radii are
  left unchanged by the pair step, and so by the whole separation loop of a room with
  these two avatars. (Living and non-ghost is not needed: the step skips the others.)
\<close>

theorem C9_separation_idempotent:
  assumes "radius p1 + radius p2
      \<le> sqrt ((xc (position p2) - xc (position p1)) * (xc (position p2) - xc (position p1))
            + (yc (position p2) - yc (position p1)) * (yc (position p2) - yc (position p1)))"
  shows "resolvePair obs p1 p2 = (p1, p2) \<and> resolveAll obs [p1, p2] = [p1, p2]"
  using resolvePair_apart [OF assms] by (simp add: resolveAll_two)

text \<open>Two living avatars of radius 25 at distance exactly 50.\<close>

theorem C9_separation_idempotent_witness:
  "radius (newPlayer ''a'' ''A'' ''red'' \<lparr>xc = 100, yc = 100\<rparr>)
     + radius (newPlayer ''b'' ''B'' ''blue'' \<lparr>xc = 130, yc = 140\<rparr>)
     \<le> sqrt ((130 - 100) * (130 - 100) + (140 - 100) * (140 - 100))
   \<and> resolveAll []
       [newPlayer ''a'' ''A'' ''red'' \<lparr>xc = 100, yc = 100\<rparr>,
        newPlayer ''b'' ''B'' ''blue'' \<lparr>xc = 130, yc = 140\<rparr>]
     = [newPlayer ''a'' ''A'' ''red'' \<lparr>xc = 100, yc = 100\<rparr>,
        newPlayer ''b'' ''B'' ''blue'' \<lparr>xc = 130, yc = 140\<rparr>]"
proof -
  let ?a = "newPlayer ''a'' ''A'' ''red'' \<lparr>xc = 100, yc = 100\<rparr>"
  let ?b = "newPlayer ''b'' ''B'' ''blue'' \<lparr>xc = 130, yc = 140\<rparr>"
  have f: "xc (position ?a) = 100" "yc (position ?a) = 100" "xc (position ?b) = 130"
    "yc (position ?b) = 140" "radius ?a = 25" "radius ?b = 25"
    by (simp_all add: newPlayer_def PLAYER_RADIUS_def)
  have d: "(25::real) + 25 \<le> sqrt ((130 - 100) * (130 - 100) + (140 - 100) * (140 - 100))"
    by simp
  from C9_separation_idempotent [of ?a ?b "[]"] d
  have "resolveAll [] [?a, ?b] = [?a, ?b]" unfolding f by blast
  with d show ?thesis unfolding f by blast
qed

section \<open>Client reconciliation\<close>

text \<open>
  Claim C2. For the client's own avatar, present both in the snapshot (at index \<open>i\<close>)
  and among the avatars the client shows, the reconciled avatar has the server position
  when the distance between the predicted and the server position exceeds 50, and the
  predicted position otherwise; in both cases every other field is the server's.
\<close>

theorem C2_reconciliation:
  assumes "i < length targetPlayers"
    and "find (\<lambda>p. pid p = pid (targetPlayers ! i)) current = Some currentP"
    and "myId = Some (pid (targetPlayers ! i))"
  shows "let targetP = targetPlayers ! i;
             result = applyOnlineInterpolation myId factor current targetPlayers ! i;
             dist = sqrt ((xc (position targetP) - xc (position currentP)) * (xc (position targetP) - xc (position currentP))
                        + (yc (position targetP) - yc (position currentP)) * (yc (position targetP) - yc (position currentP)))
         in (dist > 50 \<longrightarrow> position result = position targetP)
          \<and> (\<not> dist > 50 \<longrightarrow> position result = position currentP)
          \<and> result\<lparr>position := position targetP\<rparr> = targetP"
  using assms
  by (simp add: applyOnlineInterpolation_def interpolatePlayer_def hypot_def Let_def)

text \<open>
  The client predicts \<open>(100, 100)\<close>; a snapshot placing it at \<open>(130, 140)\<close>, 50 units
  away, with 2 lives keeps the prediction and takes the lives, and one placing it at
  \<open>(200, 100)\<close> snaps.
\<close>

theorem C2_reconciliation_witness:
  "applyOnlineInterpolation (Some ''a'') (1 / 5)
      [newPlayer ''a'' ''A'' ''red'' \<lparr>xc = 100, yc = 100\<rparr>]
      [(newPlayer ''a'' ''A'' ''red'' \<lparr>xc = 130, yc = 140\<rparr>)\<lparr>lives := 2\<rparr>] ! 0
     = (newPlayer ''a'' ''A'' ''red'' \<lparr>xc = 130, yc = 140\<rparr>)\<lparr>lives := 2, position := \<lparr>xc = 100, yc = 100\<rparr>\<rparr>
   \<and> position (applyOnlineInterpolation (Some ''a'') (1 / 5)
      [newPlayer ''a'' ''A'' ''red'' \<lparr>xc = 100, yc = 100\<rparr>]
      [(newPlayer ''a'' ''A'' ''red'' \<lparr>xc = 200, yc = 100\<rparr>)\<lparr>lives := 2\<rparr>] ! 0)
     = \<lparr>xc = 200, yc = 100\<rparr>"
proof -
  let ?c = "newPlayer ''a'' ''A'' ''red'' \<lparr>xc = 100, yc = 100\<rparr>"
  let ?t1 = "(newPlayer ''a'' ''A'' ''red'' \<lparr>xc = 130, yc = 140\<rparr>)\<lparr>lives := 2\<rparr>"
  let ?t2 = "(newPlayer ''a'' ''A'' ''red'' \<lparr>xc = 200, yc = 100\<rparr>)\<lparr>lives := 2\<rparr>"
  have f1: "find (\<lambda>p. pid p = pid ([?t1] ! 0)) [?c] = Some ?c"
    and f2: "find (\<lambda>p. pid p = pid ([?t2] ! 0)) [?c] = Some ?c"
    by (simp_all add: newPlayer_def)
  have g: "xc (position ?c) = 100" "yc (position ?c) = 100"
    "position ?t1 = \<lparr>xc = 130, yc = 140\<rparr>" "position ?t2 = \<lparr>xc = 200, yc = 100\<rparr>"
    "[?t1] ! 0 = ?t1" "[?t2] ! 0 = ?t2" "pid ?t1 = ''a''" "pid ?t2 = ''a''"
    by (simp_all add: newPlayer_def)
  have d1: "\<not> sqrt ((130 - 100) * (130 - 100) + (140 - 100) * (140 - 100)) > (50::real)" by simp
  have d2: "sqrt ((200 - 100) * (200 - 100) + (100 - 100) * (100 - 100)) > (50::real)" by simp
  let ?r1 = "applyOnlineInterpolation (Some ''a'') (1 / 5) [?c] [?t1] ! 0"
  let ?r2 = "applyOnlineInterpolation (Some ''a'') (1 / 5) [?c] [?t2] ! 0"
  from C2_reconciliation [of 0 "[?t1]" "[?c]" ?c "Some ''a''" "1 / 5", OF _ f1]
  have a: "position ?r1 = position ?c" and b: "?r1\<lparr>position := position ?t1\<rparr> = ?t1"
    unfolding Let_def g using d1 by (simp_all add: g)
  from C2_reconciliation [of 0 "[?t2]" "[?c]" ?c "Some ''a''" "1 / 5", OF _ f2]
  have c: "position ?r2 = position ?t2"
    unfolding Let_def g using d2 by (simp_all add: g)
  have "?r1 = (?r1\<lparr>position := position ?t1\<rparr>)\<lparr>position := position ?r1\<rparr>" by simp
  also have "\<dots> = ?t1\<lparr>position := position ?c\<rparr>" unfolding b a ..
  finally have "?r1 = ?t1\<lparr>position := \<lparr>xc = 100, yc = 100\<rparr>\<rparr>" by (simp add: newPlayer_def)
  with c show ?thesis by (simp add: g)
qed

section \<open>Rejected joins\<close>

text \<open>
  Claim C8. A \<^verbatim>\<open>join_room\<close> for a room that does not exist, is not in state
  \<^verbatim>\<open>WAITING\<close>, or already holds \<^verbatim>\<open>maxPlayers\<close> avatars returns the server state
  unchanged (room table, every room, membership), consumes no random draw, and emits
  exactly one event: an \<^verbatim>\<open>error\<close> to the requesting socket.
\<close>

theorem C8_join_rejected:
  assumes "map_of (rooms srv) rid = None
     \<or> (\<exists>room. map_of (rooms srv) rid = Some room
           \<and> (state room \<noteq> WAITING \<or> maxPlayers room \<le> length (players room)))"
  shows "join_room socketId rid nm col r srv =
     (srv,
      [ToSocket socketId (ErrorEvent
         (if \<exists>room. map_of (rooms srv) rid = Some room \<and> state room = WAITING
          then ''Room is full!'' else ''Room not found or game already in progress''))],
      r)"
  using assms by (auto simp add: join_room_def split: option.splits)

text \<open>
  The three rejections at concrete servers: no room; a room in progress; a waiting room
  of capacity 1 that already holds its host.
\<close>

theorem C8_join_rejected_witness:
  "join_room ''s'' ''ROOM01'' ''N'' ''red'' (\<lambda>_. 1 / 2) \<lparr>rooms = [], joined = []\<rparr>
     = (\<lparr>rooms = [], joined = []\<rparr>,
        [ToSocket ''s'' (ErrorEvent ''Room not found or game already in progress'')], (\<lambda>_. 1 / 2))
   \<and> join_room ''s'' ''ROOM01'' ''N'' ''red'' (\<lambda>_. 1 / 2)
       \<lparr>rooms = [(''ROOM01'', (newGameRoom ''ROOM01'' ''h'' 1 4 False [] 0)
                   \<lparr>players := [newPlayer ''h'' ''H'' ''blue'' \<lparr>xc = 500, yc = 500\<rparr>], state := PLAYING\<rparr>)],
        joined = [(''h'', ''ROOM01'')]\<rparr>
     = (\<lparr>rooms = [(''ROOM01'', (newGameRoom ''ROOM01'' ''h'' 1 4 False [] 0)
                   \<lparr>players := [newPlayer ''h'' ''H'' ''blue'' \<lparr>xc = 500, yc = 500\<rparr>], state := PLAYING\<rparr>)],
        joined = [(''h'', ''ROOM01'')]\<rparr>,
        [ToSocket ''s'' (ErrorEvent ''Room not found or game already in progress'')], (\<lambda>_. 1 / 2))
   \<and> join_room ''s'' ''ROOM01'' ''N'' ''red'' (\<lambda>_. 1 / 2)
       \<lparr>rooms = [(''ROOM01'', (newGameRoom ''ROOM01'' ''h'' 1 1 False [] 0)
                   \<lparr>players := [newPlayer ''h'' ''H'' ''blue'' \<lparr>xc = 500, yc = 500\<rparr>]\<rparr>)],
        joined = [(''h'', ''ROOM01'')]\<rparr>
     = (\<lparr>rooms = [(''ROOM01'', (newGameRoom ''ROOM01'' ''h'' 1 1 False [] 0)
                   \<lparr>players := [newPlayer ''h'' ''H'' ''blue'' \<lparr>xc = 500, yc = 500\<rparr>]\<rparr>)],
        joined = [(''h'', ''ROOM01'')]\<rparr>,
        [ToSocket ''s'' (ErrorEvent ''Room is full!'')], (\<lambda>_. 1 / 2))"
proof -
  let ?s0 = "\<lparr>rooms = [], joined = []\<rparr>"
  let ?g1 = "(newGameRoom ''ROOM01'' ''h'' 1 4 False [] 0)
      \<lparr>players := [newPlayer ''h'' ''H'' ''blue'' \<lparr>xc = 500, yc = 500\<rparr>], state := PLAYING\<rparr>"
  let ?g2 = "(newGameRoom ''ROOM01'' ''h'' 1 1 False [] 0)
      \<lparr>players := [newPlayer ''h'' ''H'' ''blue'' \<lparr>xc = 500, yc = 500\<rparr>]\<rparr>"
  let ?s1 = "\<lparr>rooms = [(''ROOM01'', ?g1)], joined = [(''h'', ''ROOM01'')]\<rparr>"
  let ?s2 = "\<lparr>rooms = [(''ROOM01'', ?g2)], joined = [(''h'', ''ROOM01'')]\<rparr>"
  have h0: "map_of (rooms ?s0) ''ROOM01'' = None" by simp
  have m1: "map_of (rooms ?s1) ''ROOM01'' = Some ?g1" by simp
  have m2: "map_of (rooms ?s2) ''ROOM01'' = Some ?g2" by simp
  have st1: "state ?g1 = PLAYING" by simp
  have st2: "state ?g2 = WAITING" "maxPlayers ?g2 \<le> length (players ?g2)"
    by (simp_all add: newGameRoom_def)
  have h1: "map_of (rooms ?s1) ''ROOM01'' = None
     \<or> (\<exists>room. map_of (rooms ?s1) ''ROOM01'' = Some room
           \<and> (state room \<noteq> WAITING \<or> maxPlayers room \<le> length (players room)))"
    unfolding m1 using st1 by simp
  have h2: "map_of (rooms ?s2) ''ROOM01'' = None
     \<or> (\<exists>room. map_of (rooms ?s2) ''ROOM01'' = Some room
           \<and> (state room \<noteq> WAITING \<or> maxPlayers room \<le> length (players room)))"
    unfolding m2 using st2 by simp
  have e1: "\<not> (\<exists>room. map_of (rooms ?s1) ''ROOM01'' = Some room \<and> state room = WAITING)"
    unfolding m1 using st1 by simp
  have e2: "\<exists>room. map_of (rooms ?s2) ''ROOM01'' = Some room \<and> state room = WAITING"
    unfolding m2 using st2 by simp
  have a: "join_room ''s'' ''ROOM01'' ''N'' ''red'' (\<lambda>_. 1 / 2) ?s0
     = (?s0, [ToSocket ''s'' (ErrorEvent ''Room not found or game already in progress'')], (\<lambda>_. 1 / 2))"
    using C8_join_rejected [of ?s0 "''ROOM01''" "''s''" "''N''" "''red''" "\<lambda>_. 1 / 2"] h0
    by simp
  have b: "join_room ''s'' ''ROOM01'' ''N'' ''red'' (\<lambda>_. 1 / 2) ?s1
     = (?s1, [ToSocket ''s'' (ErrorEvent ''Room not found or game already in progress'')], (\<lambda>_. 1 / 2))"
    using C8_join_rejected [OF h1, of "''s''" "''N''" "''red''" "\<lambda>_. 1 / 2"]
    by (simp only: e1 if_False)
  have c: "join_room ''s'' ''ROOM01'' ''N'' ''red'' (\<lambda>_. 1 / 2) ?s2
     = (?s2, [ToSocket ''s'' (ErrorEvent ''Room is full!'')], (\<lambda>_. 1 / 2))"
    using C8_join_rejected [OF h2, of "''s''" "''N''" "''red''" "\<lambda>_. 1 / 2"]
    by (simp only: e2 if_True)
  from a b c show ?thesis by blast
qed

section \<open>Counting the living avatars\<close>

lemma playerTick_tally:
  "snd (playerTick now dt sl obs p (n, w, pots)) =
     (if isDead p then (n, w, pots)
      else (n + 1, Some (pid p), spawnByScore (statusUpdate now dt sl p) pots))"
  by (simp add: playerTick_def Let_def)

lemma playerTick_dead: "isDead p \<Longrightarrow> playerTick now dt sl obs p acc = (p, acc)"
  by (cases acc) (simp add: playerTick_def)

lemma playersLoop_count:
  "fst (snd (playersLoop now dt sl obs ps (n, w, pots)))
     = n + length (filter (\<lambda>p. \<not> isDead p) ps)"
proof (induction ps arbitrary: n w pots)
  case Nil
  show ?case by simp
next
  case (Cons p ps)
  obtain p' n' w' pots' where pt: "playerTick now dt sl obs p (n, w, pots) = (p', n', w', pots')"
    by (metis prod_cases4)
  from playerTick_tally [of now dt sl obs p n w pots] pt
  have n': "n' = (if isDead p then n else n + 1)" by (simp split: if_splits)
  show ?case
    using Cons.IH [of n' w' pots'] by (simp add: pt n' case_prod_beta)
qed

lemma playersLoop_winner:
  "fst (snd (snd (playersLoop now dt sl obs ps (n, w, pots))))
     = (if filter (\<lambda>p. \<not> isDead p) ps = [] then w
        else Some (pid (last (filter (\<lambda>p. \<not> isDead p) ps))))"
proof (induction ps arbitrary: n w pots)
  case Nil
  show ?case by simp
next
  case (Cons p ps)
  obtain p' n' w' pots' where pt: "playerTick now dt sl obs p (n, w, pots) = (p', n', w', pots')"
    by (metis prod_cases4)
  from playerTick_tally [of now dt sl obs p n w pots] pt
  have w': "w' = (if isDead p then w else Some (pid p))" by (simp split: if_splits)
  show ?case
    using Cons.IH [of n' w' pots'] by (simp add: pt w' case_prod_beta)
qed

lemma playersLoop_all_dead:
  "\<forall>p\<in>set ps. isDead p \<Longrightarrow> fst (playersLoop now dt sl obs ps acc) = ps"
  by (induction ps arbitrary: acc) (simp_all add: playerTick_dead case_prod_beta)

section \<open>The separation loop as a whole\<close>

lemma pairStep_length: "length (pairStep obs i j ps) = length ps"
  by (simp add: pairStep_def case_prod_beta)

lemma pairStep_id:
  "resolvePair obs (ps ! i) (ps ! j) = (ps ! i, ps ! j) \<Longrightarrow> pairStep obs i j ps = ps"
  by (simp add: pairStep_def)

lemma resolveAll_id:
  assumes "\<And>i j. i < length ps \<Longrightarrow> j < length ps \<Longrightarrow> resolvePair obs (ps ! i) (ps ! j) = (ps ! i, ps ! j)"
  shows "resolveAll obs ps = ps"
proof -
  have inner: "fold (\<lambda>j. pairStep obs i j) [i + 1 ..< length ps] ps = ps" if "i < length ps" for i
  proof (rule fold_invariant [where Q = "\<lambda>j. j < length ps" and P = "\<lambda>s. s = ps"])
    show "\<And>x. x \<in> set [i + 1..<length ps] \<Longrightarrow> x < length ps" by simp
    show "ps = ps" ..
    show "\<And>x s. x < length ps \<Longrightarrow> s = ps \<Longrightarrow> pairStep obs i x s = ps"
      using assms that by (simp add: pairStep_id)
  qed
  have "fold (\<lambda>i qs. fold (\<lambda>j. pairStep obs i j) [i + 1 ..< length qs] qs) [0 ..< length ps] ps = ps"
  proof (rule fold_invariant [where Q = "\<lambda>i. i < length ps" and P = "\<lambda>s. s = ps"])
    show "\<And>x. x \<in> set [0..<length ps] \<Longrightarrow> x < length ps" by simp
    show "ps = ps" ..
    show "\<And>x s. x < length ps \<Longrightarrow> s = ps \<Longrightarrow>
        fold (\<lambda>j. pairStep obs x j) [x + 1..<length s] s = ps"
      using inner by simp
  qed
  then show ?thesis by (simp add: resolveAll_def)
qed

lemma resolveAll_all_dead:
  assumes "\<forall>p\<in>set ps. isDead p"
  shows "resolveAll obs ps = ps"
proof (rule resolveAll_id)
  fix i j assume "i < length ps" "j < length ps"
  with assms have "isDead (ps ! i)" by simp
  then show "resolvePair obs (ps ! i) (ps ! j) = (ps ! i, ps ! j)"
    by (simp add: resolvePair_def)
qed

section \<open>The winner\<close>

lemma sort_key_hd_max:
  assumes "sort_key (\<lambda>p. - score p) ps = w # rest"
  shows "w \<in> set ps \<and> (\<forall>q\<in>set ps. score q \<le> score w)"
proof -
  have s: "sorted (map (\<lambda>p. - score p) (sort_key (\<lambda>p. - score p) ps))"
    by (rule sorted_sort_key)
  have e: "set (sort_key (\<lambda>p. - score p) ps) = set ps" by simp
  from e assms have w: "w \<in> set ps" by auto
  have "score q \<le> score w" if "q \<in> set ps" for q
  proof -
    from that e assms have "q = w \<or> q \<in> set rest" by auto
    then show ?thesis using s assms by auto
  qed
  with w show ?thesis by blast
qed

lemma update_result:
  assumes "state room = PLAYING"
  shows "fst (snd (update now r room)) =
    (let alive = filter (\<lambda>p. \<not> isDead p) (players room);
         pw = (if alive = [] then None else Some (pid (last alive)));
         ls = (if length alive = 1 then pw else lastSurvivorId room);
         dt = (now - lastUpdate room) / 1000;
         sl = filter (\<lambda>s. now < sspawnTime s + sduration s) (slimeAreas room);
         ps = resolveAll (obstacles room)
                (fst (playersLoop now dt sl (obstacles room) (players room) (0, None, potatoes room)))
     in if now - startTime room > 3000 \<and> \<not> gameEnded room \<and> length alive \<le> 1
        then GameOverResult (finalWinner pw ls ps) else Continue)"
  using assms
  by (simp add: update_def Let_def case_prod_beta playersLoop_count playersLoop_winner)

lemma checkCollisions_keeps:
  "lastSurvivorId (fst (checkCollisions now r room)) = lastSurvivorId room"
  "roomId (fst (checkCollisions now r room)) = roomId room"
  "state (fst (checkCollisions now r room)) = state room"
  "obstacles (fst (checkCollisions now r room)) = obstacles room"
  by (simp_all add: checkCollisions_def Let_def case_prod_beta)

lemma update_keeps:
  "roomId (fst (update now r room)) = roomId room"
  "obstacles (fst (update now r room)) = obstacles room"
  by (simp_all add: update_def Let_def case_prod_beta checkCollisions_keeps)

lemma update_lastSurvivor:
  assumes "state room = PLAYING"
  shows "lastSurvivorId (fst (update now r room)) =
    (let alive = filter (\<lambda>p. \<not> isDead p) (players room)
     in if length alive = 1 then Some (pid (last alive)) else lastSurvivorId room)"
proof -
  have one: "length xs = 1 \<Longrightarrow> xs \<noteq> []" for xs :: "Player list" by auto
  show ?thesis
    using assms
    by (auto simp add: update_def Let_def case_prod_beta checkCollisions_keeps
        playersLoop_count playersLoop_winner dest: one)
qed

lemma tickRoom_game_over:
  assumes "state room = PLAYING" "fst (snd (update now r room)) = GameOverResult w"
  shows "fst (snd (tickRoom now r rid room))
           = [ToRoom rid (GameOverEvent w (players (fst (update now r room))))]
       \<and> state (fst (tickRoom now r rid room)) = WAITING"
  using assms
  by (cases "update now r room") (simp add: tickRoom_def)

text \<open>
  Claim C6. For a room that is playing and has not ended, with \<open>alive\<close> the avatars not
  dead at the start of the tick: no game-over is reported while
  \<open>now - startTime \<le> 3000\<close>; after that, a single living avatar is the reported
  winner; with none alive the winner is the stored last-survivor id when there is one,
  and otherwise an avatar of highest score among all avatars of the room; with two or
  more alive the round continues. A reported winner is the \<^verbatim>\<open>winnerId\<close> of the
  \<^verbatim>\<open>game_over\<close> event of the tick driver, and the last-survivor id is recorded in every
  tick that starts with exactly one living avatar. Ids are non-empty strings (socket ids).
\<close>

theorem C6_win_check:
  assumes "state room = PLAYING" and "\<not> gameEnded room"
  shows "let alive = filter (\<lambda>p. \<not> isDead p) (players room);
             result = fst (snd (update now r room))
         in (\<not> now - startTime room > 3000 \<longrightarrow> result = Continue)
          \<and> (now - startTime room > 3000 \<longrightarrow>
               (\<forall>p. alive = [p] \<and> pid p \<noteq> [] \<longrightarrow> result = GameOverResult (Some (pid p)))
             \<and> (alive = [] \<and> truthy (lastSurvivorId room)
                  \<longrightarrow> result = GameOverResult (lastSurvivorId room))
             \<and> (alive = [] \<and> \<not> truthy (lastSurvivorId room) \<and> players room \<noteq> []
                  \<longrightarrow> (\<exists>w\<in>set (players room). result = GameOverResult (Some (pid w))
                         \<and> (\<forall>q\<in>set (players room). score q \<le> score w)))
             \<and> (length alive > 1 \<longrightarrow> result = Continue))
          \<and> (\<forall>w. result = GameOverResult w \<longrightarrow>
                (\<exists>ps. fst (snd (tickRoom now r rid room)) = [ToRoom rid (GameOverEvent w ps)])
                \<and> state (fst (tickRoom now r rid room)) = WAITING)
          \<and> (\<forall>p. alive = [p] \<longrightarrow> lastSurvivorId (fst (update now r room)) = Some (pid p))"
proof -
  let ?alive = "filter (\<lambda>p. \<not> isDead p) (players room)"
  let ?res = "fst (snd (update now r room))"
  note res = update_result [OF assms(1), of now r, unfolded Let_def]
  have grace: "\<not> now - startTime room > 3000 \<longrightarrow> ?res = Continue"
    unfolding res by simp
  have many: "length ?alive > 1 \<longrightarrow> ?res = Continue"
    unfolding res by simp
  have single: "?res = GameOverResult (Some (pid p))"
    if "now - startTime room > 3000" "?alive = [p]" "pid p \<noteq> []" for p
    unfolding res using that assms(2) by (simp add: finalWinner_def truthy_def)
  have tracked: "?res = GameOverResult (lastSurvivorId room)"
    if "now - startTime room > 3000" "?alive = []" "truthy (lastSurvivorId room)"
    unfolding res using that assms(2) by (simp add: finalWinner_def truthy_def)
  have best: "\<exists>w\<in>set (players room). ?res = GameOverResult (Some (pid w))
                         \<and> (\<forall>q\<in>set (players room). score q \<le> score w)"
    if t: "now - startTime room > 3000" and e: "?alive = []"
      and nt: "\<not> truthy (lastSurvivorId room)" and ne: "players room \<noteq> []"
  proof -
    from e have dead: "\<forall>p\<in>set (players room). isDead p"
      by (simp add: filter_empty_conv)
    have same: "resolveAll (obstacles room)
        (fst (playersLoop now ((now - lastUpdate room) / 1000)
               (filter (\<lambda>s. now < sspawnTime s + sduration s) (slimeAreas room))
               (obstacles room) (players room) (0, None, potatoes room))) = players room"
      by (simp add: playersLoop_all_dead [OF dead] resolveAll_all_dead [OF dead])
    from ne obtain w rest where srt: "sort_key (\<lambda>p. - score p) (players room) = w # rest"
      by (metis length_sort list.exhaust list.size(3) length_0_conv)
    have "?res = GameOverResult (Some (pid w))"
      unfolding res same using t e nt assms(2) srt
      by (simp add: finalWinner_def truthy_def)
    with sort_key_hd_max [OF srt] show ?thesis by blast
  qed
  have emit: "(\<exists>ps. fst (snd (tickRoom now r rid room)) = [ToRoom rid (GameOverEvent w ps)])
                \<and> state (fst (tickRoom now r rid room)) = WAITING"
    if "?res = GameOverResult w" for w
    using tickRoom_game_over [OF assms(1) that, of rid] by blast
  have track: "lastSurvivorId (fst (update now r room)) = Some (pid p)" if "?alive = [p]" for p
    using update_lastSurvivor [OF assms(1), of now r] that by (simp add: Let_def)
  show ?thesis
    unfolding Let_def using grace many single tracked best emit track by blast
qed

text \<open>
  Four avatars, three of them eliminated: after the grace period the fourth is the
  reported winner. With all four eliminated, the stored last survivor wins; without a
  stored survivor, the avatar with the highest score does.
\<close>

theorem C6_win_check_witness:
  "fst (snd (update 4000 (\<lambda>_. 1 / 2)
      ((newGameRoom ''ROOM01'' ''a'' 1 4 False [] 0)
        \<lparr>players := [(newPlayer ''a'' ''A'' ''red'' \<lparr>xc = 100, yc = 100\<rparr>)\<lparr>isDead := True, lives := 0\<rparr>,
                     (newPlayer ''b'' ''B'' ''blue'' \<lparr>xc = 300, yc = 100\<rparr>)\<lparr>isDead := True, lives := 0\<rparr>,
                     (newPlayer ''c'' ''C'' ''green'' \<lparr>xc = 500, yc = 100\<rparr>)\<lparr>isDead := True, lives := 0\<rparr>,
                     newPlayer ''d'' ''D'' ''pink'' \<lparr>xc = 700, yc = 100\<rparr>],
          state := PLAYING, lastUpdate := 3900\<rparr>)))
     = GameOverResult (Some ''d'')
   \<and> fst (snd (update 4000 (\<lambda>_. 1 / 2)
      ((newGameRoom ''ROOM01'' ''a'' 1 4 False [] 0)
        \<lparr>players := [(newPlayer ''a'' ''A'' ''red'' \<lparr>xc = 100, yc = 100\<rparr>)\<lparr>isDead := True, score := 30\<rparr>,
                     (newPlayer ''d'' ''D'' ''pink'' \<lparr>xc = 700, yc = 100\<rparr>)\<lparr>isDead := True, score := 20\<rparr>],
          state := PLAYING, lastUpdate := 3900, lastSurvivorId := Some ''d''\<rparr>)))
     = GameOverResult (Some ''d'')
   \<and> fst (snd (update 4000 (\<lambda>_. 1 / 2)
      ((newGameRoom ''ROOM01'' ''a'' 1 4 False [] 0)
        \<lparr>players := [(newPlayer ''a'' ''A'' ''red'' \<lparr>xc = 100, yc = 100\<rparr>)\<lparr>isDead := True, score := 30\<rparr>,
                     (newPlayer ''d'' ''D'' ''pink'' \<lparr>xc = 700, yc = 100\<rparr>)\<lparr>isDead := True, score := 20\<rparr>],
          state := PLAYING, lastUpdate := 3900\<rparr>)))
     = GameOverResult (Some ''a'')"
proof -
  let ?a = "(newPlayer ''a'' ''A'' ''red'' \<lparr>xc = 100, yc = 100\<rparr>)\<lparr>isDead := True, lives := 0\<rparr>"
  let ?b = "(newPlayer ''b'' ''B'' ''blue'' \<lparr>xc = 300, yc = 100\<rparr>)\<lparr>isDead := True, lives := 0\<rparr>"
  let ?c = "(newPlayer ''c'' ''C'' ''green'' \<lparr>xc = 500, yc = 100\<rparr>)\<lparr>isDead := True, lives := 0\<rparr>"
  let ?d = "newPlayer ''d'' ''D'' ''pink'' \<lparr>xc = 700, yc = 100\<rparr>"
  let ?a' = "(newPlayer ''a'' ''A'' ''red'' \<lparr>xc = 100, yc = 100\<rparr>)\<lparr>isDead := True, score := 30\<rparr>"
  let ?d' = "(newPlayer ''d'' ''D'' ''pink'' \<lparr>xc = 700, yc = 100\<rparr>)\<lparr>isDead := True, score := 20\<rparr>"
  let ?g = "newGameRoom ''ROOM01'' ''a'' 1 4 False [] 0"
  let ?R1 = "?g\<lparr>players := [?a, ?b, ?c, ?d], state := PLAYING, lastUpdate := 3900\<rparr>"
  let ?R2 = "?g\<lparr>players := [?a', ?d'], state := PLAYING, lastUpdate := 3900, lastSurvivorId := Some ''d''\<rparr>"
  let ?R3 = "?g\<lparr>players := [?a', ?d'], state := PLAYING, lastUpdate := 3900\<rparr>"
  have g: "startTime ?g = 0" "\<not> gameEnded ?g" "lastSurvivorId ?g = None"
    by (simp_all add: newGameRoom_def)
  have p: "isDead ?a" "isDead ?b" "isDead ?c" "\<not> isDead ?d" "pid ?d = ''d''"
    "isDead ?a'" "isDead ?d'" "pid ?a' = ''a''" "pid ?d' = ''d''" "score ?a' = 30" "score ?d' = 20"
    by (simp_all add: newPlayer_def)
  have one: "fst (snd (update 4000 (\<lambda>_. 1 / 2) ?R1)) = GameOverResult (Some ''d'')"
    using C6_win_check [of ?R1 4000 "\<lambda>_. 1 / 2"] by (simp add: Let_def g p)
  have two: "fst (snd (update 4000 (\<lambda>_. 1 / 2) ?R2)) = GameOverResult (Some ''d'')"
    using C6_win_check [of ?R2 4000 "\<lambda>_. 1 / 2"] by (simp add: Let_def g p truthy_def)
  have three: "fst (snd (update 4000 (\<lambda>_. 1 / 2) ?R3)) = GameOverResult (Some ''a'')"
    using C6_win_check [of ?R3 4000 "\<lambda>_. 1 / 2"] by (simp add: Let_def g p truthy_def)
  from one two three show ?thesis by blast
qed

section \<open>Safe spawning\<close>

lemma spawnLoop_safe_stop: "spawnLoop n obs (px, py, True) r = ((px, py, True), r)"
  by (cases n) simp_all

lemma findSafeSpawn_first:
  assumes "\<not> insideSomeObstacle (r 0 * (CANVAS_WIDTH - 200) + 100) (r 1 * (CANVAS_HEIGHT - 200) + 100) obs"
    and "r 0 * (CANVAS_WIDTH - 200) + 100 \<noteq> 0" and "r 1 * (CANVAS_HEIGHT - 200) + 100 \<noteq> 0"
  shows "findSafeSpawn obs r
    = (\<lparr>xc = r 0 * (CANVAS_WIDTH - 200) + 100, yc = r 1 * (CANVAS_HEIGHT - 200) + 100\<rparr>, rdrop 2 r)"
proof -
  have e: "(50::nat) = Suc 49" by simp
  have "spawnLoop 50 obs (0, 0, False) r
      = ((r 0 * (CANVAS_WIDTH - 200) + 100, r 1 * (CANVAS_HEIGHT - 200) + 100, True), rdrop 2 r)"
    unfolding e spawnLoop.simps using assms(1) by (simp add: Let_def spawnLoop_safe_stop)
  then show ?thesis using assms(2,3) by (simp add: findSafeSpawn_def)
qed

section \<open>Pursuer contact\<close>

lemma contact_dead: "isDead p \<Longrightarrow> contact now obs potato p m r = (potato, p, m, r)"
  by (simp add: contact_def)

text \<open>One contact raises the multiplier by a tenth exactly when it kills the avatar.\<close>

lemma contact_multiplier:
  assumes "contact now obs potato p m r = (potato', p', m', r')"
  shows "m' = m + (if isDead p' \<and> \<not> isDead p then 1 / 10 else 0)"
    and "isDead p \<longrightarrow> p' = p"
  using assms
  by (auto simp add: contact_def Let_def case_prod_beta split: if_splits)

lemma deadCount_Cons: "deadCount (p # ps) = (if isDead p then 1 else 0) + deadCount ps"
  by (simp add: deadCount_def)

lemma contactPlayers_multiplier:
  assumes "contactPlayers now obs potato ps m r = (potato', ps', m', r')"
  shows "length ps' = length ps"
    and "deadCount ps \<le> deadCount ps'"
    and "m' = m + real (deadCount ps' - deadCount ps) / 10"
    and "\<forall>i<length ps. isDead (ps ! i) \<longrightarrow> ps' ! i = ps ! i"
  using assms
proof (induction ps arbitrary: potato m r potato' ps' m' r')
  case Nil
  {
    case 1 then show ?case by simp
  next
    case 2 then show ?case by simp
  next
    case 3 then show ?case by simp
  next
    case 4 then show ?case by simp
  }
next
  case (Cons p ps)
  {
    case prems: 1
    obtain q1 p1 m1 r1 where c: "contact now obs potato p m r = (q1, p1, m1, r1)"
      by (metis prod_cases4)
    obtain q2 ps2 m2 r2 where l: "contactPlayers now obs q1 ps m1 r1 = (q2, ps2, m2, r2)"
      by (metis prod_cases4)
    from prems c l have res: "ps' = p1 # ps2" by simp
    from Cons.IH(1) [OF l] res show ?case by simp
  next
    case prems: 2
    obtain q1 p1 m1 r1 where c: "contact now obs potato p m r = (q1, p1, m1, r1)"
      by (metis prod_cases4)
    obtain q2 ps2 m2 r2 where l: "contactPlayers now obs q1 ps m1 r1 = (q2, ps2, m2, r2)"
      by (metis prod_cases4)
    from prems c l have res: "ps' = p1 # ps2" by simp
    from contact_multiplier(2) [OF c] have "isDead p \<longrightarrow> isDead p1" by auto
    with Cons.IH(2) [OF l] show ?case unfolding res deadCount_Cons by auto
  next
    case prems: 3
    obtain q1 p1 m1 r1 where c: "contact now obs potato p m r = (q1, p1, m1, r1)"
      by (metis prod_cases4)
    obtain q2 ps2 m2 r2 where l: "contactPlayers now obs q1 ps m1 r1 = (q2, ps2, m2, r2)"
      by (metis prod_cases4)
    from prems c l have res: "ps' = p1 # ps2" "m' = m2" by simp_all
    from contact_multiplier(2) [OF c] have d: "isDead p \<longrightarrow> isDead p1" by auto
    note le = Cons.IH(2) [OF l]
    have m2: "m2 = m1 + real (deadCount ps2 - deadCount ps) / 10" by (rule Cons.IH(3) [OF l])
    have m1: "m1 = m + (if isDead p1 \<and> \<not> isDead p then 1 / 10 else 0)"
      by (rule contact_multiplier(1) [OF c])
    have "real (deadCount (p1 # ps2) - deadCount (p # ps))
        = real (deadCount ps2 - deadCount ps) + (if isDead p1 \<and> \<not> isDead p then 1 else 0)"
      unfolding deadCount_Cons using le d by (cases "isDead p1"; cases "isDead p") simp_all
    then show ?case unfolding res m2 m1 by (simp add: add_divide_distrib)
  next
    case prems: 4
    obtain q1 p1 m1 r1 where c: "contact now obs potato p m r = (q1, p1, m1, r1)"
      by (metis prod_cases4)
    obtain q2 ps2 m2 r2 where l: "contactPlayers now obs q1 ps m1 r1 = (q2, ps2, m2, r2)"
      by (metis prod_cases4)
    from prems c l have res: "ps' = p1 # ps2" by simp
    note hd = contact_multiplier(2) [OF c]
    note tl = Cons.IH(4) [OF l]
    show ?case
    proof (intro allI impI)
      fix i assume i: "i < length (p # ps)" "isDead ((p # ps) ! i)"
      show "ps' ! i = (p # ps) ! i"
      proof (cases i)
        case 0
        with i hd res show ?thesis by simp
      next
        case (Suc j)
        with i tl res show ?thesis by simp
      qed
    qed
  }
qed

lemma contactPotatoes_multiplier:
  assumes "contactPotatoes now obs pots ps m r = (pots', ps', m', r')"
  shows "length ps' = length ps
    \<and> deadCount ps \<le> deadCount ps'
    \<and> m' = m + real (deadCount ps' - deadCount ps) / 10
    \<and> (\<forall>i<length ps. isDead (ps ! i) \<longrightarrow> ps' ! i = ps ! i)"
  using assms
proof (induction pots arbitrary: ps m r pots' ps' m' r')
  case Nil
  then show ?case by simp
next
  case (Cons potato pots)
  obtain q1 ps1 m1 r1 where c: "contactPlayers now obs potato ps m r = (q1, ps1, m1, r1)"
    by (metis prod_cases4)
  obtain qs2 ps2 m2 r2 where l: "contactPotatoes now obs pots ps1 m1 r1 = (qs2, ps2, m2, r2)"
    by (metis prod_cases4)
  from Cons.prems c l have res: "ps' = ps2" "m' = m2" by simp_all
  note a = contactPlayers_multiplier [OF c]
  from Cons.IH [OF l] have b1: "length ps2 = length ps1"
    and b2: "deadCount ps1 \<le> deadCount ps2"
    and b3: "m2 = m1 + real (deadCount ps2 - deadCount ps1) / 10"
    and b4: "\<forall>i<length ps1. isDead (ps1 ! i) \<longrightarrow> ps2 ! i = ps1 ! i"
    by blast+
  have len: "length ps' = length ps" using a(1) b1 res by simp
  have mono: "deadCount ps \<le> deadCount ps'" using a(2) b2 res by simp
  have "real (deadCount ps2 - deadCount ps)
      = real (deadCount ps1 - deadCount ps) + real (deadCount ps2 - deadCount ps1)"
    using a(2) b2 by simp
  then have mult: "m' = m + real (deadCount ps' - deadCount ps) / 10"
    unfolding res b3 a(3) by (simp add: add_divide_distrib)
  have keep: "\<forall>i<length ps. isDead (ps ! i) \<longrightarrow> ps' ! i = ps ! i"
  proof (intro allI impI)
    fix i assume i: "i < length ps" "isDead (ps ! i)"
    with a(4) have e: "ps1 ! i = ps ! i" by simp
    with i a(1) b4 have "ps2 ! i = ps1 ! i" by simp
    with e res show "ps' ! i = ps ! i" by simp
  qed
  from len mono mult keep show ?case by blast
qed

lemma statusUpdate_shield:
  assumes "shieldCooldown p = 20000" and "dt * 1000 < 3000"
  shows "isShielded (statusUpdate now dt [] p)"
  using assms by (simp add: statusUpdate_def Let_def)

text \<open>
  What \<^verbatim>\<open>checkCollisions\<close> does with a living avatar \<open>p\<close> in contact with a pursuer
  (centre distance below the sum of the radii):
  \<^item> if \<open>p\<close> is shielded, the pursuer is frozen afterwards (until \<open>now + 1000\<close> if it was
    not frozen before) and \<open>p\<close> and the multiplier are unchanged;
  \<^item> else if \<open>p\<close> is a ghost, or the pursuer is frozen, nothing changes;
  \<^item> else \<open>p\<close> loses exactly one life. If that was its last life it is marked dead, keeps
    its position, and the multiplier grows by \<open>0.1\<close>. Otherwise it is moved to the
    position returned by \<^verbatim>\<open>findSafeSpawn\<close> and its shield cooldown is set to 20000, so
    that the next tick (shorter than 3 s, outside slime) derives the shield flag.
  Over the whole contact loop of a tick, an avatar already dead is never touched again,
  and the multiplier grows by exactly \<open>0.1\<close> per avatar that died in the loop.
\<close>

lemma contact_outcome:
  "(\<not> isDead p
      \<and> hypot (xc (position p) - xc (position potato)) (yc (position p) - yc (position potato))
          < radius p + radius potato
    \<longrightarrow> (case contact now obs potato p m r of (potato', p', m', r') \<Rightarrow>
          (isShielded p \<longrightarrow>
             isFrozen potato' \<and> (\<not> isFrozen potato \<longrightarrow> freezeEndTime potato' = now + 1000)
             \<and> p' = p \<and> m' = m)
        \<and> (\<not> isShielded p \<and> (isGhost p \<or> isFrozen potato) \<longrightarrow>
             potato' = potato \<and> p' = p \<and> m' = m \<and> r' = r)
        \<and> (\<not> isShielded p \<and> \<not> isGhost p \<and> \<not> isFrozen potato \<longrightarrow>
             lives p' = lives p - 1 \<and> potato' = potato
             \<and> (lives p \<le> 1 \<longrightarrow> p' = p\<lparr>lives := lives p - 1, isDead := True\<rparr> \<and> m' = m + 1 / 10)
             \<and> (lives p > 1 \<longrightarrow>
                  p' = p\<lparr>lives := lives p - 1, position := fst (findSafeSpawn obs r),
                         shieldCooldown := 20000\<rparr>
                  \<and> m' = m
                  \<and> (\<forall>now' dt. dt * 1000 < 3000 \<longrightarrow> isShielded (statusUpdate now' dt [] p'))))))
   \<and> (case contactPotatoes now obs pots ps m r of (pots', ps', m', r') \<Rightarrow>
        length ps' = length ps
        \<and> (\<forall>i<length ps. isDead (ps ! i) \<longrightarrow> ps' ! i = ps ! i)
        \<and> deadCount ps \<le> deadCount ps'
        \<and> m' = m + real (deadCount ps' - deadCount ps) / 10)"
  (is "(?A \<longrightarrow> ?B) \<and> ?C")
proof -
  have loop: ?C
  proof -
    obtain pots' ps' m' r' where c: "contactPotatoes now obs pots ps m r = (pots', ps', m', r')"
      by (metis prod_cases4)
    from contactPotatoes_multiplier [OF c] show ?thesis unfolding c by simp
  qed
  have one: ?B
    if alive: "\<not> isDead p"
      and touch: "hypot (xc (position p) - xc (position potato)) (yc (position p) - yc (position potato))
          < radius p + radius potato"
  proof (cases "isShielded p")
    case True
    with alive touch show ?thesis by (simp add: contact_def Let_def)
  next
    case ns: False
    show ?thesis
    proof (cases "isGhost p \<or> isFrozen potato")
      case True
      with ns alive touch show ?thesis by (auto simp add: contact_def Let_def)
    next
      case hit: False
      show ?thesis
      proof (cases "lives p \<le> 1")
        case True
        with hit ns alive touch show ?thesis by (simp add: contact_def Let_def)
      next
        case more: False
        let ?p' = "p\<lparr>lives := lives p - 1, position := fst (findSafeSpawn obs r), shieldCooldown := 20000\<rparr>"
        have c: "contact now obs potato p m r = (potato, ?p', m, snd (findSafeSpawn obs r))"
          using more hit ns alive touch by (simp add: contact_def Let_def case_prod_beta)
        have sh: "\<forall>now' dt. dt * 1000 < 3000 \<longrightarrow> isShielded (statusUpdate now' dt [] ?p')"
          by (simp add: statusUpdate_shield)
        show ?thesis unfolding c using more hit ns sh by simp
      qed
    qed
  qed
  show ?thesis
  proof (rule conjI)
    show "?A \<longrightarrow> ?B"
    proof (rule impI)
      assume a: ?A
      show ?B by (rule one [OF conjunct1 [OF a] conjunct2 [OF a]])
    qed
    show ?C by (rule loop)
  qed
qed


text \<open>
  Claim C5 at a respawn next to a wall. An obstacle occupies \<open>x \<in> [500, 650]\<close>,
  \<open>y \<in> [500, 650]\<close>; a pursuer at \<open>(100, 100)\<close> touches an avatar with three lives at
  \<open>(110, 100)\<close>, and the next two random draws are \<open>1/4\<close> and \<open>399/1800\<close>. The first
  candidate of \<^verbatim>\<open>findSafeSpawn\<close> is \<open>(550, 499)\<close>, one unit above the obstacle: the
  server's test of the centre accepts it, and the avatar is moved there with two lives
  and its shield cooldown at 20000. Its circle of radius 25 overlaps the obstacle, so
  the position is not valid; the test of the client's own \<^verbatim>\<open>findSafeSpawn\<close>, padded
  by the avatar radius, rejects the same point. From there a step of a thirtieth of a
  second toward \<open>(550, 300)\<close> is refused by move-and-slide: the avatar does not move.
\<close>

theorem C5_respawn_overlaps_obstacle:
  "fst (snd (contact 5000 [\<lparr>obsId = ''obs-0'', ox = 500, oy = 500, width = 150, height = 150\<rparr>]
       \<lparr>position = \<lparr>xc = 100, yc = 100\<rparr>, radius = 20, velocity = \<lparr>xc = 0, yc = 0\<rparr>, speed = 230,
        targetId = None, isFrozen = False, freezeEndTime = 0\<rparr>
       (newPlayer ''a'' ''A'' ''red'' \<lparr>xc = 110, yc = 100\<rparr>) 1
       (\<lambda>n. if n = 0 then 1 / 4 else 399 / 1800)))
      = (newPlayer ''a'' ''A'' ''red'' \<lparr>xc = 110, yc = 100\<rparr>)
          \<lparr>lives := 2, position := \<lparr>xc = 550, yc = 499\<rparr>, shieldCooldown := 20000\<rparr>
   \<and> \<not> insideSomeObstacle 550 499 [\<lparr>obsId = ''obs-0'', ox = 500, oy = 500, width = 150, height = 150\<rparr>]
   \<and> \<not> isPositionValid 550 499 PLAYER_RADIUS
         [\<lparr>obsId = ''obs-0'', ox = 500, oy = 500, width = 150, height = 150\<rparr>]
   \<and> nearSomeObstacle 550 499 [\<lparr>obsId = ''obs-0'', ox = 500, oy = 500, width = 150, height = 150\<rparr>]
   \<and> position (moveAndSlide [\<lparr>obsId = ''obs-0'', ox = 500, oy = 500, width = 150, height = 150\<rparr>] (1 / 30)
        ((newPlayer ''a'' ''A'' ''red'' \<lparr>xc = 110, yc = 100\<rparr>)
          \<lparr>lives := 2, position := \<lparr>xc = 550, yc = 499\<rparr>, shieldCooldown := 20000,
            input := \<lparr>xc = 550, yc = 300\<rparr>\<rparr>))
      = \<lparr>xc = 550, yc = 499\<rparr>"
proof -
  let ?o = "\<lparr>obsId = ''obs-0'', ox = 500, oy = 500, width = 150, height = 150\<rparr>"
  let ?pot = "\<lparr>position = \<lparr>xc = 100, yc = 100\<rparr>, radius = 20, velocity = \<lparr>xc = 0, yc = 0\<rparr>,
        speed = 230, targetId = None, isFrozen = False, freezeEndTime = 0\<rparr> :: Potato"
  let ?p = "newPlayer ''a'' ''A'' ''red'' \<lparr>xc = 110, yc = 100\<rparr>"
  let ?r = "(\<lambda>n. if n = 0 then 1 / 4 else 399 / 1800) :: rng"
  have acc: "\<not> insideSomeObstacle 550 499 [?o]" by simp
  have inv: "\<not> isPositionValid 550 499 PLAYER_RADIUS [?o]"
    by (simp add: isPositionValid_def CANVAS_WIDTH_def CANVAS_HEIGHT_def PLAYER_RADIUS_def)
  have pad: "nearSomeObstacle 550 499 [?o]" by (simp add: PLAYER_RADIUS_def)
  have sp: "fst (findSafeSpawn [?o] ?r) = \<lparr>xc = 550, yc = 499\<rparr>"
    by (subst findSafeSpawn_first) (simp_all add: CANVAS_WIDTH_def CANVAS_HEIGHT_def)
  have touch: "hypot (110 - 100) (100 - 100) < (25::real) + 20" by (simp add: hypot_def)
  have hit: "fst (snd (contact 5000 [?o] ?pot ?p 1 ?r))
      = ?p\<lparr>lives := 2, position := \<lparr>xc = 550, yc = 499\<rparr>, shieldCooldown := 20000\<rparr>"
    using touch sp
    by (simp add: contact_def Let_def case_prod_beta newPlayer_def PLAYER_RADIUS_def)
  have d: "sqrt ((300 - 499) * (300 - 499)) = (199::real)" by simp
  have stuck: "position (moveAndSlide [?o] (1 / 30)
        (?p\<lparr>lives := 2, position := \<lparr>xc = 550, yc = 499\<rparr>, shieldCooldown := 20000,
            input := \<lparr>xc = 550, yc = 300\<rparr>\<rparr>)) = \<lparr>xc = 550, yc = 499\<rparr>"
    by (simp add: moveAndSlide_eq stepVector_eq Let_def newPlayer_def BASE_SPEED_def
        PLAYER_RADIUS_def isPositionValid_def CANVAS_WIDTH_def CANVAS_HEIGHT_def)
  from hit acc inv pad stuck show ?thesis by blast
qed

section \<open>Status flags and the scheduled callback\<close>

lemma slimeEffect_inSlime: "inSlime (fst (slimeEffect s pm)) = inSlime (fst pm)"
  by (rule ext) (simp add: inSlime_def slimeEffect_keeps)

lemma slimeLoop_flags:
  "isShielded (fst (slimeLoop sl pm)) = (isShielded (fst pm) \<and> \<not> list_ex (inSlime (fst pm)) sl)"
  "isHidden (fst (slimeLoop sl pm)) = (isHidden (fst pm) \<and> \<not> list_ex (inSlime (fst pm)) sl)"
  "isGhost (fst (slimeLoop sl pm)) = (isGhost (fst pm) \<and> \<not> list_ex (inSlime (fst pm)) sl)"
  "isSilenced (fst (slimeLoop sl pm)) = (isSilenced (fst pm) \<or> list_ex (inSlime (fst pm)) sl)"
  "isSlowed (fst (slimeLoop sl pm)) = (isSlowed (fst pm) \<or> list_ex (inSlime (fst pm)) sl)"
  "speedBoostEndTime (fst (slimeLoop sl pm))
     = (if list_ex (inSlime (fst pm)) sl then 0 else speedBoostEndTime (fst pm))"
  "snd (slimeLoop sl pm) = snd pm * (3 / 4) ^ length (filter (inSlime (fst pm)) sl)"
proof (induction sl arbitrary: pm)
  case Nil
  {
    case 1 show ?case by simp
  next
    case 2 show ?case by simp
  next
    case 3 show ?case by simp
  next
    case 4 show ?case by simp
  next
    case 5 show ?case by simp
  next
    case 6 show ?case by simp
  next
    case 7 show ?case by simp
  }
next
  case (Cons s sl)
  {
    case 1
    show ?case unfolding slimeLoop.simps Cons.IH(1) slimeEffect_inSlime
      by (auto simp add: slimeEffect_def Let_def)
  next
    case 2
    show ?case unfolding slimeLoop.simps Cons.IH(2) slimeEffect_inSlime
      by (auto simp add: slimeEffect_def Let_def)
  next
    case 3
    show ?case unfolding slimeLoop.simps Cons.IH(3) slimeEffect_inSlime
      by (auto simp add: slimeEffect_def Let_def)
  next
    case 4
    show ?case unfolding slimeLoop.simps Cons.IH(4) slimeEffect_inSlime
      by (auto simp add: slimeEffect_def Let_def)
  next
    case 5
    show ?case unfolding slimeLoop.simps Cons.IH(5) slimeEffect_inSlime
      by (auto simp add: slimeEffect_def Let_def)
  next
    case 6
    show ?case unfolding slimeLoop.simps Cons.IH(6) slimeEffect_inSlime
      by (auto simp add: slimeEffect_def Let_def)
  next
    case 7
    show ?case unfolding slimeLoop.simps Cons.IH(7) slimeEffect_inSlime
      by (simp add: slimeEffect_def Let_def)
  }
qed

lemma statusUpdate_flags:
  "isShielded (statusUpdate now dt sl p)
     = (max 0 (shieldCooldown p - dt * 1000) > 17000 \<and> \<not> list_ex (inSlime p) sl)"
  "isHidden (statusUpdate now dt sl p)
     = (max 0 (smokeCooldown p - dt * 1000) > 7000 \<and> \<not> list_ex (inSlime p) sl)"
  "isGhost (statusUpdate now dt sl p) = (isGhost p \<and> \<not> list_ex (inSlime p) sl)"
  "isSilenced (statusUpdate now dt sl p) = list_ex (inSlime p) sl"
  "isSlowed (statusUpdate now dt sl p) = list_ex (inSlime p) sl"
  "speedBoostEndTime (statusUpdate now dt sl p)
     = (if list_ex (inSlime p) sl then 0 else speedBoostEndTime p)"
  "speed (statusUpdate now dt sl p)
     = (if now > speedBoostEndTime p then BASE_SPEED else speed p)
         * (3 / 4) ^ length (filter (inSlime p) sl)"
proof -
  let ?p3 = "p\<lparr>dashCooldown := max 0 (dashCooldown p - dt * 1000),
                 shieldCooldown := max 0 (shieldCooldown p - dt * 1000),
                 smokeCooldown := max 0 (smokeCooldown p - dt * 1000),
                 slimeCooldown := max 0 (slimeCooldown p - dt * 1000),
                 isShielded := (max 0 (shieldCooldown p - dt * 1000) > 17000),
                 isHidden := (max 0 (smokeCooldown p - dt * 1000) > 7000),
                 isSilenced := False, isSlowed := False\<rparr>"
  let ?ms = "if now > speedBoostEndTime p then BASE_SPEED else speed p"
  have su: "statusUpdate now dt sl p =
      (fst (slimeLoop sl (?p3, ?ms)))\<lparr>speed := snd (slimeLoop sl (?p3, ?ms)),
         score := score (fst (slimeLoop sl (?p3, ?ms))) + dt * 10\<rparr>"
    by (simp add: statusUpdate_def Let_def case_prod_beta)
  have same: "inSlime ?p3 = inSlime p"
    by (rule ext) (simp add: inSlime_def)
  show "isShielded (statusUpdate now dt sl p)
     = (max 0 (shieldCooldown p - dt * 1000) > 17000 \<and> \<not> list_ex (inSlime p) sl)"
    unfolding su using slimeLoop_flags(1) [of sl "(?p3, ?ms)"] by (simp add: same)
  show "isHidden (statusUpdate now dt sl p)
     = (max 0 (smokeCooldown p - dt * 1000) > 7000 \<and> \<not> list_ex (inSlime p) sl)"
    unfolding su using slimeLoop_flags(2) [of sl "(?p3, ?ms)"] by (simp add: same)
  show "isGhost (statusUpdate now dt sl p) = (isGhost p \<and> \<not> list_ex (inSlime p) sl)"
    unfolding su using slimeLoop_flags(3) [of sl "(?p3, ?ms)"] by (simp add: same)
  show "isSilenced (statusUpdate now dt sl p) = list_ex (inSlime p) sl"
    unfolding su using slimeLoop_flags(4) [of sl "(?p3, ?ms)"] by (simp add: same)
  show "isSlowed (statusUpdate now dt sl p) = list_ex (inSlime p) sl"
    unfolding su using slimeLoop_flags(5) [of sl "(?p3, ?ms)"] by (simp add: same)
  show "speedBoostEndTime (statusUpdate now dt sl p)
     = (if list_ex (inSlime p) sl then 0 else speedBoostEndTime p)"
    unfolding su using slimeLoop_flags(6) [of sl "(?p3, ?ms)"] by (simp add: same)
  show "speed (statusUpdate now dt sl p)
     = (if now > speedBoostEndTime p then BASE_SPEED else speed p)
         * (3 / 4) ^ length (filter (inSlime p) sl)"
    unfolding su using slimeLoop_flags(7) [of sl "(?p3, ?ms)"] by (simp add: same)
qed

lemma moveAndSlide_keeps:
  "isShielded (moveAndSlide obs dt p) = isShielded p"
  "isHidden (moveAndSlide obs dt p) = isHidden p"
  "isGhost (moveAndSlide obs dt p) = isGhost p"
  "isSilenced (moveAndSlide obs dt p) = isSilenced p"
  "isSlowed (moveAndSlide obs dt p) = isSlowed p"
  "speedBoostEndTime (moveAndSlide obs dt p) = speedBoostEndTime p"
  "speed (moveAndSlide obs dt p) = speed p"
  "radius (moveAndSlide obs dt p) = radius p"
  "lives (moveAndSlide obs dt p) = lives p"
  "pid (moveAndSlide obs dt p) = pid p"
  by (simp_all add: moveAndSlide_eq Let_def)

lemma playerTick_flags:
  assumes "\<not> isDead p"
  shows "isShielded (fst (playerTick now dt sl obs p acc))
     = (max 0 (shieldCooldown p - dt * 1000) > 17000 \<and> \<not> list_ex (inSlime p) sl)"
    and "isHidden (fst (playerTick now dt sl obs p acc))
     = (max 0 (smokeCooldown p - dt * 1000) > 7000 \<and> \<not> list_ex (inSlime p) sl)"
    and "isGhost (fst (playerTick now dt sl obs p acc)) = (isGhost p \<and> \<not> list_ex (inSlime p) sl)"
    and "isSilenced (fst (playerTick now dt sl obs p acc)) = list_ex (inSlime p) sl"
    and "isSlowed (fst (playerTick now dt sl obs p acc)) = list_ex (inSlime p) sl"
    and "speedBoostEndTime (fst (playerTick now dt sl obs p acc))
     = (if list_ex (inSlime p) sl then 0 else speedBoostEndTime p)"
    and "speed (fst (playerTick now dt sl obs p acc))
     = (if now > speedBoostEndTime p then BASE_SPEED else speed p)
         * (3 / 4) ^ length (filter (inSlime p) sl)"
proof -
  have pt: "fst (playerTick now dt sl obs p acc) = moveAndSlide obs dt (statusUpdate now dt sl p)"
    using assms by (cases acc) (simp add: playerTick_def Let_def)
  show "isShielded (fst (playerTick now dt sl obs p acc))
     = (max 0 (shieldCooldown p - dt * 1000) > 17000 \<and> \<not> list_ex (inSlime p) sl)"
    unfolding pt moveAndSlide_keeps by (rule statusUpdate_flags)
  show "isHidden (fst (playerTick now dt sl obs p acc))
     = (max 0 (smokeCooldown p - dt * 1000) > 7000 \<and> \<not> list_ex (inSlime p) sl)"
    unfolding pt moveAndSlide_keeps by (rule statusUpdate_flags)
  show "isGhost (fst (playerTick now dt sl obs p acc)) = (isGhost p \<and> \<not> list_ex (inSlime p) sl)"
    unfolding pt moveAndSlide_keeps by (rule statusUpdate_flags)
  show "isSilenced (fst (playerTick now dt sl obs p acc)) = list_ex (inSlime p) sl"
    unfolding pt moveAndSlide_keeps by (rule statusUpdate_flags)
  show "isSlowed (fst (playerTick now dt sl obs p acc)) = list_ex (inSlime p) sl"
    unfolding pt moveAndSlide_keeps by (rule statusUpdate_flags)
  show "speedBoostEndTime (fst (playerTick now dt sl obs p acc))
     = (if list_ex (inSlime p) sl then 0 else speedBoostEndTime p)"
    unfolding pt moveAndSlide_keeps by (rule statusUpdate_flags)
  show "speed (fst (playerTick now dt sl obs p acc))
     = (if now > speedBoostEndTime p then BASE_SPEED else speed p)
         * (3 / 4) ^ length (filter (inSlime p) sl)"
    unfolding pt moveAndSlide_keeps by (rule statusUpdate_flags)
qed

lemma updatePotato_freeze:
  "isFrozen (updatePotato now dt m ps potato) = (isFrozen potato \<and> \<not> now > freezeEndTime potato)"
  "freezeEndTime (updatePotato now dt m ps potato) = freezeEndTime potato"
  by (simp_all add: updatePotato_def Let_def split: option.splits)

lemma checkCollisions_slimeAreas:
  "slimeAreas (fst (checkCollisions now r room)) = slimeAreas room"
  by (simp add: checkCollisions_def Let_def case_prod_beta)

lemma update_slimeAreas:
  assumes "state room = PLAYING"
  shows "slimeAreas (fst (update now r room))
     = filter (\<lambda>s. now < sspawnTime s + sduration s) (slimeAreas room)"
  using assms by (simp add: update_def Let_def case_prod_beta checkCollisions_slimeAreas)

lemma applyPowerup_timers:
  "snd (snd (applyPowerup now pu p pots)) = (if putype pu = GHOST then [(5000, pid p)] else [])"
  by (cases "putype pu") (simp_all add: applyPowerup_def Let_def)

lemma applyPowerup_ghost:
  "isGhost (fst (applyPowerup now pu p pots)) = (putype pu = GHOST \<or> isGhost p)"
  by (cases "putype pu") (simp_all add: applyPowerup_def Let_def)

lemma modifyPlayer_ghost:
  "map (\<lambda>p. p\<lparr>isGhost := g\<rparr>) (modifyPlayer k (\<lambda>p. p\<lparr>isGhost := False\<rparr>) ps)
     = map (\<lambda>p. p\<lparr>isGhost := g\<rparr>) ps"
  by (induction ps) simp_all

lemma modifyPlayer_absent: "findPlayer k ps = None \<Longrightarrow> modifyPlayer k f ps = ps"
  by (induction ps) (auto simp add: findPlayer_def split: if_splits)

lemma modifyPlayer_found:
  "findPlayer k ps = Some p \<Longrightarrow> pid (f p) = k \<Longrightarrow> findPlayer k (modifyPlayer k f ps) = Some (f p)"
  by (induction ps) (auto simp add: findPlayer_def split: if_splits)

lemma findPlayer_pid: "findPlayer k ps = Some p \<Longrightarrow> pid p = k"
  by (induction ps) (auto simp add: findPlayer_def split: if_splits)

text \<open>
  Claim C7, as the code has it. In every tick the per-avatar body recomputes the status
  of a living avatar from its stored values and the hazard (slime) areas of other
  avatars it stands in: it is shielded exactly when more than 17000 ms of shield
  cooldown remain after the decrement of the tick and it stands in no such area, hidden
  exactly when more than 7000 ms of smoke cooldown remain and it stands in no such
  area, silenced and slowed exactly when it stands in one; its speed is the base speed
  once the time is past the stored boost deadline (the stored speed before), times
  \<open>0.75\<close> per area it stands in; and a ghost standing in such an area stops being one.
  A dead avatar is left as it is. A pursuer is frozen after its step exactly when it was
  frozen and the time is not past its freeze deadline. A tick of a playing room keeps
  exactly the hazard areas whose spawn time plus duration is still ahead.

  The ghost flag has no stored deadline. Collecting a power-up sets it exactly when the
  power-up is a \<^verbatim>\<open>GHOST\<close>, and exactly then one callback is scheduled, 5000 ms ahead, for
  the collecting avatar. When the callback runs, the avatar it captured, if still in the
  room, is no longer a ghost; the callback changes the ghost flag and nothing else in
  the room (no other flag, no cooldown, no pursuer, no hazard), and nothing at all when
  the avatar is gone.
\<close>

theorem C7_status_flags:
  "(\<not> isDead p \<longrightarrow>
      isShielded (fst (playerTick now dt slimes obs p acc))
        = (max 0 (shieldCooldown p - dt * 1000) > 17000 \<and> \<not> list_ex (inSlime p) slimes)
    \<and> isHidden (fst (playerTick now dt slimes obs p acc))
        = (max 0 (smokeCooldown p - dt * 1000) > 7000 \<and> \<not> list_ex (inSlime p) slimes)
    \<and> isSilenced (fst (playerTick now dt slimes obs p acc)) = list_ex (inSlime p) slimes
    \<and> isSlowed (fst (playerTick now dt slimes obs p acc)) = list_ex (inSlime p) slimes
    \<and> isGhost (fst (playerTick now dt slimes obs p acc))
        = (isGhost p \<and> \<not> list_ex (inSlime p) slimes)
    \<and> speed (fst (playerTick now dt slimes obs p acc))
        = (if now > speedBoostEndTime p then BASE_SPEED else speed p)
            * (3 / 4) ^ length (filter (inSlime p) slimes))
   \<and> (isDead p \<longrightarrow> fst (playerTick now dt slimes obs p acc) = p)
   \<and> isFrozen (updatePotato now dt m ps potato)
       = (isFrozen potato \<and> \<not> now > freezeEndTime potato)
   \<and> (state room = PLAYING \<longrightarrow>
        slimeAreas (fst (update now r room))
          = filter (\<lambda>s. now < sspawnTime s + sduration s) (slimeAreas room))
   \<and> isGhost (fst (applyPowerup now pu p pots)) = (putype pu = GHOST \<or> isGhost p)
   \<and> snd (snd (applyPowerup now pu p pots)) = (if putype pu = GHOST then [(5000, pid p)] else [])
   \<and> (findPlayer k (players room) = Some q \<longrightarrow>
        findPlayer k (players (ghostTimeout k room)) = Some (q\<lparr>isGhost := False\<rparr>))
   \<and> map (\<lambda>p. p\<lparr>isGhost := g\<rparr>) (players (ghostTimeout k room))
       = map (\<lambda>p. p\<lparr>isGhost := g\<rparr>) (players room)
   \<and> (ghostTimeout k room)\<lparr>players := players room\<rparr> = room
   \<and> (findPlayer k (players room) = None \<longrightarrow> ghostTimeout k room = room)"
proof -
  have c1: "\<not> isDead p \<longrightarrow>
      isShielded (fst (playerTick now dt slimes obs p acc))
        = (max 0 (shieldCooldown p - dt * 1000) > 17000 \<and> \<not> list_ex (inSlime p) slimes)
    \<and> isHidden (fst (playerTick now dt slimes obs p acc))
        = (max 0 (smokeCooldown p - dt * 1000) > 7000 \<and> \<not> list_ex (inSlime p) slimes)
    \<and> isSilenced (fst (playerTick now dt slimes obs p acc)) = list_ex (inSlime p) slimes
    \<and> isSlowed (fst (playerTick now dt slimes obs p acc)) = list_ex (inSlime p) slimes
    \<and> isGhost (fst (playerTick now dt slimes obs p acc))
        = (isGhost p \<and> \<not> list_ex (inSlime p) slimes)
    \<and> speed (fst (playerTick now dt slimes obs p acc))
        = (if now > speedBoostEndTime p then BASE_SPEED else speed p)
            * (3 / 4) ^ length (filter (inSlime p) slimes)"
  proof (rule impI)
    assume alive: "\<not> isDead p"
    show "isShielded (fst (playerTick now dt slimes obs p acc))
        = (max 0 (shieldCooldown p - dt * 1000) > 17000 \<and> \<not> list_ex (inSlime p) slimes)
    \<and> isHidden (fst (playerTick now dt slimes obs p acc))
        = (max 0 (smokeCooldown p - dt * 1000) > 7000 \<and> \<not> list_ex (inSlime p) slimes)
    \<and> isSilenced (fst (playerTick now dt slimes obs p acc)) = list_ex (inSlime p) slimes
    \<and> isSlowed (fst (playerTick now dt slimes obs p acc)) = list_ex (inSlime p) slimes
    \<and> isGhost (fst (playerTick now dt slimes obs p acc))
        = (isGhost p \<and> \<not> list_ex (inSlime p) slimes)
    \<and> speed (fst (playerTick now dt slimes obs p acc))
        = (if now > speedBoostEndTime p then BASE_SPEED else speed p)
            * (3 / 4) ^ length (filter (inSlime p) slimes)"
      by (intro conjI)
        (rule playerTick_flags(1) [OF alive], rule playerTick_flags(2) [OF alive],
         rule playerTick_flags(4) [OF alive], rule playerTick_flags(5) [OF alive],
         rule playerTick_flags(3) [OF alive], rule playerTick_flags(7) [OF alive])
  qed
  have c2: "isDead p \<longrightarrow> fst (playerTick now dt slimes obs p acc) = p"
    by (simp add: playerTick_dead)
  have c3: "isFrozen (updatePotato now dt m ps potato)
       = (isFrozen potato \<and> \<not> now > freezeEndTime potato)"
    by (rule updatePotato_freeze)
  have c4: "state room = PLAYING \<longrightarrow>
        slimeAreas (fst (update now r room))
          = filter (\<lambda>s. now < sspawnTime s + sduration s) (slimeAreas room)"
    by (simp add: update_slimeAreas)
  have c5: "isGhost (fst (applyPowerup now pu p pots)) = (putype pu = GHOST \<or> isGhost p)"
    by (rule applyPowerup_ghost)
  have c6: "snd (snd (applyPowerup now pu p pots))
       = (if putype pu = GHOST then [(5000, pid p)] else [])"
    by (rule applyPowerup_timers)
  have c7: "findPlayer k (players room) = Some q \<longrightarrow>
        findPlayer k (players (ghostTimeout k room)) = Some (q\<lparr>isGhost := False\<rparr>)"
  proof (rule impI)
    assume f: "findPlayer k (players room) = Some q"
    from findPlayer_pid [OF f] have "pid (q\<lparr>isGhost := False\<rparr>) = k" by simp
    from modifyPlayer_found [of k "players room" q "\<lambda>p. p\<lparr>isGhost := False\<rparr>", OF f this]
    show "findPlayer k (players (ghostTimeout k room)) = Some (q\<lparr>isGhost := False\<rparr>)"
      by (simp add: ghostTimeout_def)
  qed
  have c8: "map (\<lambda>p. p\<lparr>isGhost := g\<rparr>) (players (ghostTimeout k room))
       = map (\<lambda>p. p\<lparr>isGhost := g\<rparr>) (players room)"
    by (simp add: ghostTimeout_def modifyPlayer_ghost)
  have c9: "(ghostTimeout k room)\<lparr>players := players room\<rparr> = room"
    by (simp add: ghostTimeout_def)
  have c10: "findPlayer k (players room) = None \<longrightarrow> ghostTimeout k room = room"
    by (simp add: ghostTimeout_def modifyPlayer_absent)
  show ?thesis
    by (intro conjI) (rule c1, rule c2, rule c3, rule c4, rule c5, rule c6, rule c7, rule c8, rule c9, rule c10)
qed
text \<open>
  At time 5000 an avatar that is a ghost and has 20000 ms of shield cooldown left is,
  after a tick of a thirtieth of a second outside every hazard area, shielded and still
  a ghost, at the base speed; a pursuer whose freeze deadline was 4000 is no longer
  frozen; the hazard area spawned at 1000 for 3000 ms is gone from the room; a \<^verbatim>\<open>GHOST\<close>
  pickup schedules the callback 5000 ms ahead; and when the callback runs the avatar is
  no longer a ghost.
\<close>

theorem C7_status_flags_witness:
  "\<not> isDead ((newPlayer ''a'' ''A'' ''red'' \<lparr>xc = 500, yc = 500\<rparr>)\<lparr>shieldCooldown := 20000, isGhost := True\<rparr>)
   \<and> isShielded (fst (playerTick 5000 (1 / 30) [] []
        ((newPlayer ''a'' ''A'' ''red'' \<lparr>xc = 500, yc = 500\<rparr>)\<lparr>shieldCooldown := 20000, isGhost := True\<rparr>)
        (0, None, [])))
   \<and> isGhost (fst (playerTick 5000 (1 / 30) [] []
        ((newPlayer ''a'' ''A'' ''red'' \<lparr>xc = 500, yc = 500\<rparr>)\<lparr>shieldCooldown := 20000, isGhost := True\<rparr>)
        (0, None, [])))
   \<and> speed (fst (playerTick 5000 (1 / 30) [] []
        ((newPlayer ''a'' ''A'' ''red'' \<lparr>xc = 500, yc = 500\<rparr>)\<lparr>shieldCooldown := 20000, isGhost := True\<rparr>)
        (0, None, []))) = 250
   \<and> \<not> isFrozen (updatePotato 5000 (1 / 30) 1 []
        \<lparr>position = \<lparr>xc = 100, yc = 100\<rparr>, radius = 20, velocity = \<lparr>xc = 0, yc = 0\<rparr>, speed = 230,
         targetId = None, isFrozen = True, freezeEndTime = 4000\<rparr>)
   \<and> state ((newGameRoom ''ROOM01'' ''a'' 1 4 False [] 0)
        \<lparr>players := [(newPlayer ''a'' ''A'' ''red'' \<lparr>xc = 500, yc = 500\<rparr>)
                       \<lparr>shieldCooldown := 20000, isGhost := True\<rparr>],
          slimeAreas := [\<lparr>slimeId = 1 / 3, ownerId = ''b'', sx = 900, sy = 900, sradius = 80,
                           sspawnTime = 1000, sduration = 3000\<rparr>],
          state := PLAYING\<rparr>) = PLAYING
   \<and> slimeAreas (fst (update 5000 (\<lambda>_. 1 / 2) ((newGameRoom ''ROOM01'' ''a'' 1 4 False [] 0)
        \<lparr>players := [(newPlayer ''a'' ''A'' ''red'' \<lparr>xc = 500, yc = 500\<rparr>)
                       \<lparr>shieldCooldown := 20000, isGhost := True\<rparr>],
          slimeAreas := [\<lparr>slimeId = 1 / 3, ownerId = ''b'', sx = 900, sy = 900, sradius = 80,
                           sspawnTime = 1000, sduration = 3000\<rparr>],
          state := PLAYING\<rparr>))) = []
   \<and> snd (snd (applyPowerup 5000
        \<lparr>position = \<lparr>xc = 500, yc = 500\<rparr>, radius = 20, puId = 1 / 3, putype = GHOST, spawnTime = 900\<rparr>
        ((newPlayer ''a'' ''A'' ''red'' \<lparr>xc = 500, yc = 500\<rparr>)\<lparr>shieldCooldown := 20000, isGhost := True\<rparr>)
        [])) = [(5000, ''a'')]
   \<and> findPlayer ''a'' (players (ghostTimeout ''a'' ((newGameRoom ''ROOM01'' ''a'' 1 4 False [] 0)
        \<lparr>players := [(newPlayer ''a'' ''A'' ''red'' \<lparr>xc = 500, yc = 500\<rparr>)
                       \<lparr>shieldCooldown := 20000, isGhost := True\<rparr>],
          slimeAreas := [\<lparr>slimeId = 1 / 3, ownerId = ''b'', sx = 900, sy = 900, sradius = 80,
                           sspawnTime = 1000, sduration = 3000\<rparr>],
          state := PLAYING\<rparr>)))
      = Some ((newPlayer ''a'' ''A'' ''red'' \<lparr>xc = 500, yc = 500\<rparr>)
                \<lparr>shieldCooldown := 20000, isGhost := False\<rparr>)"
proof -
  let ?P = "(newPlayer ''a'' ''A'' ''red'' \<lparr>xc = 500, yc = 500\<rparr>)\<lparr>shieldCooldown := 20000, isGhost := True\<rparr>"
  let ?pot = "\<lparr>position = \<lparr>xc = 100, yc = 100\<rparr>, radius = 20, velocity = \<lparr>xc = 0, yc = 0\<rparr>,
        speed = 230, targetId = None, isFrozen = True, freezeEndTime = 4000\<rparr> :: Potato"
  let ?pu = "\<lparr>position = \<lparr>xc = 500, yc = 500\<rparr>, radius = 20, puId = 1 / 3,
               putype = GHOST, spawnTime = 900\<rparr> :: Powerup"
  let ?R = "(newGameRoom ''ROOM01'' ''a'' 1 4 False [] 0)
        \<lparr>players := [?P],
          slimeAreas := [\<lparr>slimeId = 1 / 3, ownerId = ''b'', sx = 900, sy = 900, sradius = 80,
                           sspawnTime = 1000, sduration = 3000\<rparr>],
          state := PLAYING\<rparr>"
  note inst = C7_status_flags [where p = ?P and now = 5000 and dt = "1 / 30" and slimes = "[]"
      and obs = "[]" and acc = "(0, None, [])" and m = 1 and ps = "[]" and potato = ?pot
      and room = ?R and r = "\<lambda>_. 1 / 2" and pu = ?pu and pots = "[]" and k = "''a''"
      and q = ?P and g = False]
  have alive: "\<not> isDead ?P" by (simp add: newPlayer_def)
  have playing: "state ?R = PLAYING" by simp
  have found: "findPlayer ''a'' (players ?R) = Some ?P" by (simp add: findPlayer_def newPlayer_def)
  note tick = inst [THEN conjunct1, THEN mp, OF alive]
  have sh: "isShielded (fst (playerTick 5000 (1 / 30) [] [] ?P (0, None, [])))"
    unfolding tick [THEN conjunct1] by (simp add: newPlayer_def)
  have gh: "isGhost (fst (playerTick 5000 (1 / 30) [] [] ?P (0, None, [])))"
    unfolding tick [THEN conjunct2, THEN conjunct2, THEN conjunct2, THEN conjunct2, THEN conjunct1]
    by (simp add: newPlayer_def)
  have sp: "speed (fst (playerTick 5000 (1 / 30) [] [] ?P (0, None, []))) = 250"
    unfolding tick [THEN conjunct2, THEN conjunct2, THEN conjunct2, THEN conjunct2, THEN conjunct2]
    by (simp add: newPlayer_def BASE_SPEED_def)
  note rest = inst [THEN conjunct2, THEN conjunct2]
  have fr: "\<not> isFrozen (updatePotato 5000 (1 / 30) 1 [] ?pot)"
    unfolding rest [THEN conjunct1] by simp
  note rest4 = rest [THEN conjunct2]
  have sl: "slimeAreas (fst (update 5000 (\<lambda>_. 1 / 2) ?R)) = []"
    unfolding rest4 [THEN conjunct1, THEN mp, OF playing] by simp
  note rest6 = rest4 [THEN conjunct2, THEN conjunct2]
  have tm: "snd (snd (applyPowerup 5000 ?pu ?P [])) = [(5000, ''a'')]"
    unfolding rest6 [THEN conjunct1] by (simp add: newPlayer_def)
  note rest7 = rest6 [THEN conjunct2]
  have cb: "findPlayer ''a'' (players (ghostTimeout ''a'' ?R))
      = Some ((newPlayer ''a'' ''A'' ''red'' \<lparr>xc = 500, yc = 500\<rparr>)
                \<lparr>shieldCooldown := 20000, isGhost := False\<rparr>)"
    unfolding rest7 [THEN conjunct1, THEN mp, OF found] by simp
  show ?thesis
    by (intro conjI) (rule alive, rule sh, rule gh, rule sp, rule fr, rule playing, rule sl, rule tm, rule cb)
qed

text \<open>
  Claim C7 as stated fails for the ghost flag. An avatar standing on a \<^verbatim>\<open>GHOST\<close>
  power-up becomes a ghost in \<^verbatim>\<open>checkCollisions\<close>, which schedules a callback 5000 ms
  ahead; when that callback runs, outside any tick and any input handler, the flag
  changes from true to false.
\<close>

theorem C7_counterexample:
  "fst (snd (checkCollisions 1000 (\<lambda>_. 1 / 2)
      ((newGameRoom ''ROOM01'' ''a'' 1 4 False [] 0)
        \<lparr>players := [newPlayer ''a'' ''A'' ''red'' \<lparr>xc = 500, yc = 500\<rparr>],
          powerups := [\<lparr>position = \<lparr>xc = 500, yc = 500\<rparr>, radius = 20, puId = 1 / 3,
                         putype = GHOST, spawnTime = 900\<rparr>],
          state := PLAYING\<rparr>))) = [(5000, ''a'')]
   \<and> map isGhost (players (fst (checkCollisions 1000 (\<lambda>_. 1 / 2)
      ((newGameRoom ''ROOM01'' ''a'' 1 4 False [] 0)
        \<lparr>players := [newPlayer ''a'' ''A'' ''red'' \<lparr>xc = 500, yc = 500\<rparr>],
          powerups := [\<lparr>position = \<lparr>xc = 500, yc = 500\<rparr>, radius = 20, puId = 1 / 3,
                         putype = GHOST, spawnTime = 900\<rparr>],
          state := PLAYING\<rparr>)))) = [True]
   \<and> map isGhost (players (ghostTimeout ''a'' (fst (checkCollisions 1000 (\<lambda>_. 1 / 2)
      ((newGameRoom ''ROOM01'' ''a'' 1 4 False [] 0)
        \<lparr>players := [newPlayer ''a'' ''A'' ''red'' \<lparr>xc = 500, yc = 500\<rparr>],
          powerups := [\<lparr>position = \<lparr>xc = 500, yc = 500\<rparr>, radius = 20, puId = 1 / 3,
                         putype = GHOST, spawnTime = 900\<rparr>],
          state := PLAYING\<rparr>))))) = [False]"
proof -
  let ?p = "newPlayer ''a'' ''A'' ''red'' \<lparr>xc = 500, yc = 500\<rparr>"
  let ?pu = "\<lparr>position = \<lparr>xc = 500, yc = 500\<rparr>, radius = 20, puId = 1 / 3,
               putype = GHOST, spawnTime = 900\<rparr> :: Powerup"
  let ?pot = "\<lparr>position = \<lparr>xc = 100, yc = 100\<rparr>, radius = POTATO_RADIUS,
                velocity = \<lparr>xc = 0, yc = 0\<rparr>, speed = POTATO_SPEED,
                targetId = None, isFrozen = False, freezeEndTime = 0\<rparr> :: Potato"
  let ?R = "(newGameRoom ''ROOM01'' ''a'' 1 4 False [] 0)
        \<lparr>players := [?p], powerups := [?pu], state := PLAYING\<rparr>"
  have far: "\<not> hypot (500 - 100) (500 - 100) < (25::real) + 20"
  proof -
    have "(45::real) \<le> sqrt (45 * 45)" by simp
    also have "\<dots> \<le> sqrt ((500 - 100) * (500 - 100) + (500 - 100) * (500 - 100))"
      by (rule real_sqrt_le_mono) simp
    finally show ?thesis by (simp add: hypot_def)
  qed
  have g: "gameEnded ?R = False" "obstacles ?R = []" "potatoes ?R = [?pot]" "players ?R = [?p]"
    "potatoSpeedMultiplier ?R = 1" "powerups ?R = [?pu]"
    by (simp_all add: newGameRoom_def)
  have c1: "contactPotatoes 1000 [] [?pot] [?p] 1 (\<lambda>_. 1 / 2) = ([?pot], [?p], 1, (\<lambda>_. 1 / 2))"
    using far by (simp add: contact_def Let_def newPlayer_def PLAYER_RADIUS_def POTATO_RADIUS_def)
  have c2: "powerupFilter 1000 [?pu] ([?p], [?pot], [])
      = ([], [?p\<lparr>score := 50, isGhost := True\<rparr>], [?pot], [(5000, ''a'')])"
    by (simp add: applyPowerup_def hypot_def Let_def newPlayer_def PLAYER_RADIUS_def)
  have cc: "checkCollisions 1000 (\<lambda>_. 1 / 2) ?R
      = (?R\<lparr>players := [?p\<lparr>score := 50, isGhost := True\<rparr>], potatoes := [?pot], powerups := [],
              potatoSpeedMultiplier := 1\<rparr>, [(5000, ''a'')], (\<lambda>_. 1 / 2))"
    unfolding checkCollisions_def g c1 by (simp add: c2 del: powerupFilter.simps)
  show ?thesis
    unfolding cc by (simp add: ghostTimeout_def newPlayer_def)
qed

section \<open>Positions over a tick\<close>

lemma setXIfValid_valid: "circleValid obs p \<Longrightarrow> circleValid obs (setXIfValid obs nextX p)"
  by (simp add: circleValid_def setXIfValid_def)

lemma setYIfValid_valid: "circleValid obs p \<Longrightarrow> circleValid obs (setYIfValid obs nextY p)"
  by (simp add: circleValid_def setYIfValid_def)

lemma tryMoveX_valid: "circleValid obs p \<Longrightarrow> circleValid obs (tryMoveX obs vx p)"
  by (simp add: tryMoveX_def setXIfValid_valid)

lemma tryMoveY_valid: "circleValid obs p \<Longrightarrow> circleValid obs (tryMoveY obs vy p)"
  by (simp add: tryMoveY_def setYIfValid_valid)

lemma moveAndSlide_valid: "circleValid obs p \<Longrightarrow> circleValid obs (moveAndSlide obs dt p)"
  by (simp add: moveAndSlide_def case_prod_beta tryMoveX_valid tryMoveY_valid)

lemma stays_refl: "stays obs p p"
  by (simp add: stays_def)

lemma stays_trans: "stays obs p q \<Longrightarrow> stays obs q s \<Longrightarrow> stays obs p s"
  by (simp add: stays_def)

lemma slimeLoop_lives: "lives (fst (slimeLoop sl pm)) = lives (fst pm)"
  by (induction sl arbitrary: pm) (simp_all add: slimeEffect_def Let_def)

lemma statusUpdate_lives: "lives (statusUpdate now dt sl p) = lives p"
  unfolding statusUpdate_def Let_def by (simp add: case_prod_beta slimeLoop_lives)

lemma playerTick_stays: "stays obs p (fst (playerTick now dt sl obs p acc))"
proof (cases "isDead p")
  case True
  then show ?thesis by (simp add: playerTick_dead stays_refl)
next
  case False
  have "circleValid obs p \<longrightarrow> circleValid obs (moveAndSlide obs dt (statusUpdate now dt sl p))"
  proof
    assume "circleValid obs p"
    then have "circleValid obs (statusUpdate now dt sl p)"
      by (simp add: circleValid_def statusUpdate_keeps)
    then show "circleValid obs (moveAndSlide obs dt (statusUpdate now dt sl p))"
      by (rule moveAndSlide_valid)
  qed
  with False show ?thesis
    by (cases acc)
      (simp add: playerTick_def Let_def stays_def moveAndSlide_keeps statusUpdate_keeps statusUpdate_lives)
qed

lemma playersLoop_stays:
  "list_all2 (stays obs) ps (fst (playersLoop now dt sl obs ps acc))"
proof (induction ps arbitrary: acc)
  case Nil
  show ?case by simp
next
  case (Cons p ps)
  show ?case
    using playerTick_stays [of obs p now dt sl acc]
      Cons.IH [of "snd (playerTick now dt sl obs p acc)"]
    by (simp add: case_prod_beta)
qed

lemma setIfValid_keeps:
  "lives (setXIfValid obs x p) = lives p" "radius (setXIfValid obs x p) = radius p"
  "lives (setYIfValid obs y p) = lives p" "radius (setYIfValid obs y p) = radius p"
  "pid (setXIfValid obs x p) = pid p" "pid (setYIfValid obs y p) = pid p"
  by (simp_all add: setXIfValid_def setYIfValid_def)

lemma resolvePair_stays:
  "stays obs p1 (fst (resolvePair obs p1 p2))" "stays obs p2 (snd (resolvePair obs p1 p2))"
  by (simp_all add: resolvePair_def Let_def stays_def setIfValid_keeps setXIfValid_valid setYIfValid_valid)

lemma pairStep_stays:
  assumes "i < length ps" and "j < length ps"
  shows "list_all2 (stays obs) ps (pairStep obs i j ps)"
proof -
  have "stays obs (ps ! n) (pairStep obs i j ps ! n)" if "n < length ps" for n
  proof -
    have "pairStep obs i j ps ! n
        = (if n = j then snd (resolvePair obs (ps ! i) (ps ! j))
           else if n = i then fst (resolvePair obs (ps ! i) (ps ! j)) else ps ! n)"
      using that assms by (simp add: pairStep_def case_prod_beta nth_list_update)
    then show ?thesis
      by (simp add: stays_refl resolvePair_stays)
  qed
  then show ?thesis by (simp add: list_all2_conv_all_nth pairStep_length)
qed

lemma list_all2_stays_trans:
  "list_all2 (stays obs) xs ys \<Longrightarrow> list_all2 (stays obs) ys zs \<Longrightarrow> list_all2 (stays obs) xs zs"
  by (rule list_all2_trans [of "stays obs" "stays obs" "stays obs"]) (auto intro: stays_trans)

lemma resolveAll_stays: "list_all2 (stays obs) ps (resolveAll obs ps)"
proof -
  let ?P = "\<lambda>s. list_all2 (stays obs) ps s"
  have inner: "?P (fold (\<lambda>j. pairStep obs i j) [i + 1 ..< length s] s)" if "?P s" "i < length ps" for i s
  proof (rule fold_invariant [where Q = "\<lambda>j. j < length ps" and P = ?P])
    from that have "length s = length ps" by (simp add: list_all2_lengthD)
    then show "\<And>x. x \<in> set [i + 1..<length s] \<Longrightarrow> x < length ps" by simp
    show "?P s" by (rule that)
    show "?P (pairStep obs i x t)" if "x < length ps" "?P t" for x t
    proof -
      from that have len: "length t = length ps" by (simp add: list_all2_lengthD)
      with that \<open>i < length ps\<close> have "i < length t" "x < length t" by simp_all
      from pairStep_stays [OF this] have "list_all2 (stays obs) t (pairStep obs i x t)" .
      with that(2) show ?thesis by (rule list_all2_stays_trans)
    qed
  qed
  have "?P (fold (\<lambda>i qs. fold (\<lambda>j. pairStep obs i j) [i + 1 ..< length qs] qs) [0 ..< length ps] ps)"
  proof (rule fold_invariant [where Q = "\<lambda>i. i < length ps" and P = ?P])
    show "\<And>x. x \<in> set [0..<length ps] \<Longrightarrow> x < length ps" by simp
    show "?P ps" by (simp add: list_all2_conv_all_nth stays_refl)
    show "\<And>x s. x < length ps \<Longrightarrow> ?P s \<Longrightarrow> ?P (fold (\<lambda>j. pairStep obs x j) [x + 1..<length s] s)"
      using inner by blast
  qed
  then show ?thesis by (simp add: resolveAll_def)
qed

lemma keptOrHit_refl: "keptOrHit p p"
  by (simp add: keptOrHit_def)

lemma keptOrHit_trans: "keptOrHit p q \<Longrightarrow> keptOrHit q s \<Longrightarrow> keptOrHit p s"
  by (auto simp add: keptOrHit_def)

lemma list_all2_keptOrHit_refl: "list_all2 keptOrHit ps ps"
  by (simp add: list_all2_conv_all_nth keptOrHit_refl)

lemma list_all2_keptOrHit_trans:
  "list_all2 keptOrHit xs ys \<Longrightarrow> list_all2 keptOrHit ys zs \<Longrightarrow> list_all2 keptOrHit xs zs"
  by (rule list_all2_trans [of keptOrHit keptOrHit keptOrHit]) (auto intro: keptOrHit_trans)

lemma contact_keptOrHit: "keptOrHit p (fst (snd (contact now obs potato p m r)))"
  by (simp add: contact_def Let_def case_prod_beta keptOrHit_def)

lemma contactPlayers_keptOrHit:
  "list_all2 keptOrHit ps (fst (snd (contactPlayers now obs potato ps m r)))"
proof (induction ps arbitrary: potato m r)
  case Nil
  show ?case by simp
next
  case (Cons p ps)
  obtain q1 p1 m1 r1 where c: "contact now obs potato p m r = (q1, p1, m1, r1)"
    by (metis prod_cases4)
  from contact_keptOrHit [of p now obs potato m r] c have "keptOrHit p p1" by simp
  with Cons.IH [of q1 m1 r1] show ?case by (simp add: c case_prod_beta)
qed

lemma contactPotatoes_keptOrHit:
  "list_all2 keptOrHit ps (fst (snd (contactPotatoes now obs pots ps m r)))"
proof (induction pots arbitrary: ps m r)
  case Nil
  show ?case by (simp add: list_all2_keptOrHit_refl)
next
  case (Cons potato pots)
  obtain q1 ps1 m1 r1 where c: "contactPlayers now obs potato ps m r = (q1, ps1, m1, r1)"
    by (metis prod_cases4)
  from contactPlayers_keptOrHit [of ps now obs potato m r] c
  have "list_all2 keptOrHit ps ps1" by simp
  from list_all2_keptOrHit_trans [OF this Cons.IH [of ps1 m1 r1]]
  show ?case by (simp add: c case_prod_beta)
qed

lemma applyPowerup_keptOrHit: "keptOrHit p (fst (applyPowerup now pu p pots))"
  by (cases "putype pu") (simp_all add: applyPowerup_def Let_def keptOrHit_def)

lemma collectLoop_keptOrHit:
  "list_all2 keptOrHit ps (fst (collectLoop now pu ps acc))"
proof (induction ps arbitrary: acc)
  case Nil
  show ?case by simp
next
  case (Cons p ps)
  obtain c pots ts where acc: "acc = (c, pots, ts)" by (metis prod_cases3)
  show ?case
    unfolding acc using applyPowerup_keptOrHit [of p now pu pots] Cons.IH
    by (simp add: Let_def case_prod_beta keptOrHit_refl)
qed

lemma powerupFilter_keptOrHit:
  "list_all2 keptOrHit ps (fst (snd (powerupFilter now pus (ps, pots, ts))))"
proof (induction pus arbitrary: ps pots ts)
  case Nil
  show ?case by (simp add: list_all2_keptOrHit_refl)
next
  case (Cons pu pus)
  obtain ps1 c1 pots1 ts1 where c: "collectLoop now pu ps (False, pots, ts) = (ps1, c1, pots1, ts1)"
    by (metis prod_cases4)
  from collectLoop_keptOrHit [of ps now pu "(False, pots, ts)"] c
  have "list_all2 keptOrHit ps ps1" by simp
  from list_all2_keptOrHit_trans [OF this Cons.IH [of ps1 pots1 ts1]]
  show ?case by (simp add: c case_prod_beta)
qed

lemma checkCollisions_keptOrHit:
  "list_all2 keptOrHit (players room) (players (fst (checkCollisions now r room)))"
proof (cases "gameEnded room")
  case True
  then show ?thesis by (simp add: checkCollisions_def list_all2_keptOrHit_refl)
next
  case False
  obtain pots ps m r' where c: "contactPotatoes now (obstacles room) (potatoes room) (players room)
      (potatoSpeedMultiplier room) r = (pots, ps, m, r')"
    by (metis prod_cases4)
  from contactPotatoes_keptOrHit
    [of "players room" now "obstacles room" "potatoes room" "potatoSpeedMultiplier room" r] c
  have "list_all2 keptOrHit (players room) ps" by simp
  from list_all2_keptOrHit_trans [OF this powerupFilter_keptOrHit [of ps now "powerups room" pots "[]"]]
    False
  show ?thesis by (simp add: checkCollisions_def c case_prod_beta)
qed

lemma checkCollisions_keptOrHit_at:
  "players rm = ps \<Longrightarrow> list_all2 keptOrHit ps (players (fst (checkCollisions now r rm)))"
  using checkCollisions_keptOrHit [of rm now r] by simp

lemma update_players:
  assumes "state room = PLAYING"
  shows "list_all2 keptOrHit
     (resolveAll (obstacles room)
        (fst (playersLoop now ((now - lastUpdate room) / 1000)
           (filter (\<lambda>s. now < sspawnTime s + sduration s) (slimeAreas room))
           (obstacles room) (players room) (0, None, potatoes room))))
     (players (fst (update now r room)))"
  using assms
  by (simp add: update_def Let_def case_prod_beta list_all2_keptOrHit_refl)
    (intro conjI impI checkCollisions_keptOrHit_at; simp)

text \<open>
  Claim C1, as the code has it, for one avatar. An avatar that is validly placed before
  a tick (its circle within the arena bounds and clear of every obstacle) is validly
  placed after the movement phase and after the pairwise separation, whatever the other
  avatars do. After the whole tick the room has the same avatars in the same order, and
  that avatar is validly placed unless it lost a life in the tick (a hit by a pursuer,
  which moves it to the position chosen by \<^verbatim>\<open>findSafeSpawn\<close>; nothing is stated about
  that position). Nothing is stated for the pursuers either: their step is not
  validated.
\<close>

theorem C1_avatar_positions:
  assumes "k < length (players room)"
    and "circleValid (obstacles room) (players room ! k)"
  shows "circleValid (obstacles room)
           (fst (playersLoop now dt slimes (obstacles room) (players room) acc) ! k)
       \<and> circleValid (obstacles room)
           (resolveAll (obstacles room)
              (fst (playersLoop now dt slimes (obstacles room) (players room) acc)) ! k)
       \<and> map pid (players (fst (update now r room))) = map pid (players room)
       \<and> (circleValid (obstacles room) (players (fst (update now r room)) ! k)
            \<or> lives (players (fst (update now r room)) ! k) < lives (players room ! k))"
proof -
  let ?obs = "obstacles room"
  have phase1: "stays ?obs (players room ! k) (fst (playersLoop t d sl ?obs (players room) a) ! k)"
    for t d sl a
    by (rule list_all2_nthD [OF playersLoop_stays assms(1)])
  have len1: "length (fst (playersLoop t d sl ?obs (players room) a)) = length (players room)"
    for t d sl a
    using playersLoop_stays [of ?obs "players room" t d sl a] by (simp add: list_all2_lengthD)
  have phase2: "stays ?obs (fst (playersLoop t d sl ?obs (players room) a) ! k)
      (resolveAll ?obs (fst (playersLoop t d sl ?obs (players room) a)) ! k)" for t d sl a
    by (rule list_all2_nthD [OF resolveAll_stays]) (simp add: len1 assms(1))
  have both: "stays ?obs (players room ! k)
      (resolveAll ?obs (fst (playersLoop t d sl ?obs (players room) a)) ! k)" for t d sl a
    by (rule stays_trans [OF phase1 phase2])
  have v1: "circleValid ?obs (fst (playersLoop now dt slimes ?obs (players room) acc) ! k)"
    using phase1 [of now dt slimes acc] assms(2) by (simp add: stays_def)
  have v2: "circleValid ?obs
      (resolveAll ?obs (fst (playersLoop now dt slimes ?obs (players room) acc)) ! k)"
    using both [of now dt slimes acc] assms(2) by (simp add: stays_def)
  have ids: "list_all2 P xs ys \<Longrightarrow> (\<And>x y. P x y \<Longrightarrow> pid y = pid x) \<Longrightarrow> map pid ys = map pid xs"
    for P and xs ys :: "Player list"
    by (induction rule: list_all2_induct) simp_all
  have whole: "map pid (players (fst (update now r room))) = map pid (players room)
       \<and> (circleValid ?obs (players (fst (update now r room)) ! k)
            \<or> lives (players (fst (update now r room)) ! k) < lives (players room ! k))"
  proof (cases "state room = PLAYING")
    case False
    with assms(2) show ?thesis by (simp add: update_def)
  next
    case True
    let ?mid1 = "fst (playersLoop now ((now - lastUpdate room) / 1000)
           (filter (\<lambda>s. now < sspawnTime s + sduration s) (slimeAreas room))
           ?obs (players room) (0, None, potatoes room))"
    let ?mid = "resolveAll ?obs ?mid1"
    let ?fin = "players (fst (update now r room))"
    note up = update_players [OF True, of now r]
    have s1: "list_all2 (stays ?obs) (players room) ?mid"
      by (rule list_all2_stays_trans [OF playersLoop_stays resolveAll_stays])
    have lenm: "length ?mid = length (players room)"
      using s1 by (simp add: list_all2_lengthD)
    have "map pid ?mid = map pid (players room)"
      by (rule ids [OF s1]) (simp add: stays_def)
    moreover have "map pid ?fin = map pid ?mid"
      by (rule ids [OF up]) (simp add: keptOrHit_def)
    ultimately have i: "map pid ?fin = map pid (players room)" by simp
    have st: "stays ?obs (players room ! k) (?mid ! k)"
      by (rule list_all2_nthD [OF s1 assms(1)])
    have kh: "keptOrHit (?mid ! k) (?fin ! k)"
      by (rule list_all2_nthD [OF up]) (simp add: lenm assms(1))
    from st assms(2) have vm: "circleValid ?obs (?mid ! k)" and lm: "lives (?mid ! k) = lives (players room ! k)"
      by (simp_all add: stays_def)
    from kh have "position (?fin ! k) = position (?mid ! k) \<and> radius (?fin ! k) = radius (?mid ! k)
        \<or> lives (?fin ! k) < lives (?mid ! k)"
      by (auto simp add: keptOrHit_def)
    with vm lm have "circleValid ?obs (?fin ! k) \<or> lives (?fin ! k) < lives (players room ! k)"
      by (auto simp add: circleValid_def)
    with i show ?thesis by simp
  qed
  from v1 v2 whole show ?thesis by simp
qed

text \<open>
  A validly placed avatar walking toward a wall: the avatar at \<open>(1000, 100)\<close> heads for
  \<open>(1400, 100)\<close> with an obstacle at \<open>x \<in> [1240, 1340]\<close>, \<open>y \<in> [50, 150]\<close>. It is
  validly placed after the movement phase, after the separation and, having kept its
  three lives, after the whole tick.
\<close>

theorem C1_avatar_positions_witness:
  "0 < length (players ((newGameRoom ''ROOM01'' ''a'' 1 4 False
              [\<lparr>obsId = ''obs-0'', ox = 1240, oy = 50, width = 100, height = 100\<rparr>] 0)
            \<lparr>players := [(newPlayer ''a'' ''A'' ''red'' \<lparr>xc = 1000, yc = 100\<rparr>)
                           \<lparr>input := \<lparr>xc = 1400, yc = 100\<rparr>\<rparr>],
              state := PLAYING\<rparr>))
   \<and> circleValid [\<lparr>obsId = ''obs-0'', ox = 1240, oy = 50, width = 100, height = 100\<rparr>]
      ((newPlayer ''a'' ''A'' ''red'' \<lparr>xc = 1000, yc = 100\<rparr>)\<lparr>input := \<lparr>xc = 1400, yc = 100\<rparr>\<rparr>)
   \<and> circleValid [\<lparr>obsId = ''obs-0'', ox = 1240, oy = 50, width = 100, height = 100\<rparr>]
        (resolveAll [\<lparr>obsId = ''obs-0'', ox = 1240, oy = 50, width = 100, height = 100\<rparr>]
           (fst (playersLoop 1000 1 [] [\<lparr>obsId = ''obs-0'', ox = 1240, oy = 50, width = 100, height = 100\<rparr>]
              [(newPlayer ''a'' ''A'' ''red'' \<lparr>xc = 1000, yc = 100\<rparr>)\<lparr>input := \<lparr>xc = 1400, yc = 100\<rparr>\<rparr>]
              (0, None, []))) ! 0)
   \<and> map lives (players (fst (update 1000 (\<lambda>_. 1 / 2)
          ((newGameRoom ''ROOM01'' ''a'' 1 4 False
              [\<lparr>obsId = ''obs-0'', ox = 1240, oy = 50, width = 100, height = 100\<rparr>] 0)
            \<lparr>players := [(newPlayer ''a'' ''A'' ''red'' \<lparr>xc = 1000, yc = 100\<rparr>)
                           \<lparr>input := \<lparr>xc = 1400, yc = 100\<rparr>\<rparr>],
              state := PLAYING\<rparr>)))) = [3]
   \<and> circleValid [\<lparr>obsId = ''obs-0'', ox = 1240, oy = 50, width = 100, height = 100\<rparr>]
        (players (fst (update 1000 (\<lambda>_. 1 / 2)
          ((newGameRoom ''ROOM01'' ''a'' 1 4 False
              [\<lparr>obsId = ''obs-0'', ox = 1240, oy = 50, width = 100, height = 100\<rparr>] 0)
            \<lparr>players := [(newPlayer ''a'' ''A'' ''red'' \<lparr>xc = 1000, yc = 100\<rparr>)
                           \<lparr>input := \<lparr>xc = 1400, yc = 100\<rparr>\<rparr>],
              state := PLAYING\<rparr>))) ! 0)"
proof -
  let ?o = "\<lparr>obsId = ''obs-0'', ox = 1240, oy = 50, width = 100, height = 100\<rparr>"
  let ?p = "(newPlayer ''a'' ''A'' ''red'' \<lparr>xc = 1000, yc = 100\<rparr>)\<lparr>input := \<lparr>xc = 1400, yc = 100\<rparr>\<rparr>"
  let ?R = "(newGameRoom ''ROOM01'' ''a'' 1 4 False [?o] 0)\<lparr>players := [?p], state := PLAYING\<rparr>"
  have v: "circleValid [?o] ?p"
    by (simp add: circleValid_def isPositionValid_def newPlayer_def PLAYER_RADIUS_def
        CANVAS_WIDTH_def CANVAS_HEIGHT_def)
  have f: "obstacles ?R = [?o]" "players ?R = [?p]" by (simp_all add: newGameRoom_def)
  have k: "0 < length (players ?R)" by simp
  have h: "circleValid (obstacles ?R) (players ?R ! 0)" unfolding f using v by simp
  note inst = C1_avatar_positions [OF k h, of 1000 1 "[]" "(0, None, [])" "\<lambda>_. 1 / 2", unfolded f]
  have lv: "map lives (players (fst (update 1000 (\<lambda>_. 1 / 2) ?R))) = [3]"
    by (simp add: update_def newGameRoom_def newPlayer_def playerTick_def statusUpdate_def
        spawnByScore_def moveAndSlide_eq stepVector_eq
        isPositionValid_def CANVAS_WIDTH_def CANVAS_HEIGHT_def
        resolveAll_def updatePotato_def considerTarget_def hypot_def updatePowerups_def
        checkCollisions_def contact_def rdrop_def Let_def
        PLAYER_RADIUS_def POTATO_RADIUS_def BASE_SPEED_def POTATO_SPEED_def)
  have one: "length (players (fst (update 1000 (\<lambda>_. 1 / 2) ?R))) = 1"
    using arg_cong [OF lv, of length] by simp
  have l0: "lives (players (fst (update 1000 (\<lambda>_. 1 / 2) ?R)) ! 0) = 3"
    using arg_cong [OF lv, of "\<lambda>xs. xs ! 0"] one by (simp add: nth_map)
  have l1: "lives (?p) = 3" by (simp add: newPlayer_def)
  from inst have sep: "circleValid [?o] (resolveAll [?o] (fst (playersLoop 1000 1 [] [?o] [?p] (0, None, []))) ! 0)"
    by (rule conjunct2 [THEN conjunct1])
  from inst have "circleValid [?o] (players (fst (update 1000 (\<lambda>_. 1 / 2) ?R)) ! 0)
      \<or> lives (players (fst (update 1000 (\<lambda>_. 1 / 2) ?R)) ! 0) < lives ([?p] ! 0)"
    by (rule conjunct2 [THEN conjunct2, THEN conjunct2])
  with l0 l1 have fin: "circleValid [?o] (players (fst (update 1000 (\<lambda>_. 1 / 2) ?R)) ! 0)"
    by simp
  show ?thesis
    by (intro conjI) (rule k, rule v, rule sep, rule lv, rule fin)
qed

text \<open>
  Claim C1 as stated fails for the pursuers, and for an avatar that is hit. In a playing
  room with one obstacle at \<open>x \<in> [250, 350]\<close>, \<open>y \<in> [50, 150]\<close>, the pursuer at
  \<open>(100, 100)\<close> and an avatar at \<open>(500, 100)\<close> are both validly placed; after one tick of
  one second the pursuer stands at \<open>(330, 100)\<close>, inside the obstacle. With the avatar at
  \<open>(380, 100)\<close> instead, validly placed, a tick of 1.1 seconds brings the pursuer to
  \<open>(353, 100)\<close>, in contact; the avatar loses a life and is moved to the first candidate
  of \<^verbatim>\<open>findSafeSpawn\<close>, here \<open>(300, 160)\<close>, where its circle overlaps the obstacle.
\<close>

theorem C1_counterexample:
  "isPositionValid 100 100 POTATO_RADIUS [\<lparr>obsId = ''obs-0'', ox = 250, oy = 50, width = 100, height = 100\<rparr>]
   \<and> isPositionValid 500 100 PLAYER_RADIUS [\<lparr>obsId = ''obs-0'', ox = 250, oy = 50, width = 100, height = 100\<rparr>]
   \<and> map position (potatoes (fst (update 1000 (\<lambda>_. 1 / 2)
        ((newGameRoom ''ROOM01'' ''a'' 1 4 False
            [\<lparr>obsId = ''obs-0'', ox = 250, oy = 50, width = 100, height = 100\<rparr>] 0)
          \<lparr>players := [newPlayer ''a'' ''A'' ''red'' \<lparr>xc = 500, yc = 100\<rparr>],
            state := PLAYING\<rparr>))))
      = [\<lparr>xc = 330, yc = 100\<rparr>]
   \<and> \<not> isPositionValid 330 100 POTATO_RADIUS [\<lparr>obsId = ''obs-0'', ox = 250, oy = 50, width = 100, height = 100\<rparr>]
   \<and> isPositionValid 380 100 PLAYER_RADIUS [\<lparr>obsId = ''obs-0'', ox = 250, oy = 50, width = 100, height = 100\<rparr>]
   \<and> map (\<lambda>p. (position p, lives p)) (players (fst (update 1100 (\<lambda>n. if n = 1 then 1 / 9 else if n = 2 then 1 / 30 else 1 / 2)
        ((newGameRoom ''ROOM01'' ''a'' 1 4 False
            [\<lparr>obsId = ''obs-0'', ox = 250, oy = 50, width = 100, height = 100\<rparr>] 0)
          \<lparr>players := [newPlayer ''a'' ''A'' ''red'' \<lparr>xc = 380, yc = 100\<rparr>],
            state := PLAYING\<rparr>))))
      = [(\<lparr>xc = 300, yc = 160\<rparr>, 2)]
   \<and> \<not> isPositionValid 300 160 PLAYER_RADIUS [\<lparr>obsId = ''obs-0'', ox = 250, oy = 50, width = 100, height = 100\<rparr>]"
proof -
  let ?o = "\<lparr>obsId = ''obs-0'', ox = 250, oy = 50, width = 100, height = 100\<rparr>"
  let ?p = "newPlayer ''a'' ''A'' ''red'' \<lparr>xc = 500, yc = 100\<rparr>"
  let ?R = "(newGameRoom ''ROOM01'' ''a'' 1 4 False [?o] 0)\<lparr>players := [?p], state := PLAYING\<rparr>"
  let ?q = "newPlayer ''a'' ''A'' ''red'' \<lparr>xc = 380, yc = 100\<rparr>"
  let ?S = "(newGameRoom ''ROOM01'' ''a'' 1 4 False [?o] 0)\<lparr>players := [?q], state := PLAYING\<rparr>"
  let ?r = "(\<lambda>n. if n = 1 then 1 / 9 else if n = 2 then 1 / 30 else 1 / 2) :: rng"
  have v: "isPositionValid 100 100 POTATO_RADIUS [?o]" "isPositionValid 500 100 PLAYER_RADIUS [?o]"
    "\<not> isPositionValid 330 100 POTATO_RADIUS [?o]" "isPositionValid 380 100 PLAYER_RADIUS [?o]"
    "\<not> isPositionValid 300 160 PLAYER_RADIUS [?o]"
    by (simp_all add: isPositionValid_def CANVAS_WIDTH_def CANVAS_HEIGHT_def POTATO_RADIUS_def PLAYER_RADIUS_def)
  have pursuer: "map position (potatoes (fst (update 1000 (\<lambda>_. 1 / 2) ?R))) = [\<lparr>xc = 330, yc = 100\<rparr>]"
    by (simp add: update_def newGameRoom_def newPlayer_def playerTick_def statusUpdate_def
        spawnByScore_def moveAndSlide_def stepVector_def tryMoveX_def tryMoveY_def setXIfValid_def setYIfValid_def
        resolveAll_def updatePotato_def considerTarget_def hypot_def updatePowerups_def
        checkCollisions_def contact_def rdrop_def Let_def
        PLAYER_RADIUS_def POTATO_RADIUS_def BASE_SPEED_def POTATO_SPEED_def)
  have avatar: "map (\<lambda>p. (position p, lives p)) (players (fst (update 1100 ?r ?S)))
      = [(\<lparr>xc = 300, yc = 160\<rparr>, 2)]"
    by (simp add: update_def newGameRoom_def newPlayer_def playerTick_def statusUpdate_def
        spawnByScore_def moveAndSlide_def stepVector_def tryMoveX_def tryMoveY_def setXIfValid_def setYIfValid_def
        resolveAll_def updatePotato_def considerTarget_def hypot_def updatePowerups_def
        checkCollisions_def contact_def findSafeSpawn_first rdrop_def
        CANVAS_WIDTH_def CANVAS_HEIGHT_def Let_def
        PLAYER_RADIUS_def POTATO_RADIUS_def BASE_SPEED_def POTATO_SPEED_def)
  show ?thesis
    by (intro conjI) (rule v(1), rule v(2), rule pursuer, rule v(3), rule v(4), rule avatar, rule v(5))
qed



section \<open>The pursuer's step\<close>

lemma considerTarget_position:
  "position a = position b \<Longrightarrow> considerTarget a p acc = considerTarget b p acc"
  by (simp add: considerTarget_def)

lemma targetLoop_position:
  "position a = position b \<Longrightarrow> targetLoop a ps acc = targetLoop b ps acc"
  by (induction ps arbitrary: acc) (simp_all add: considerTarget_position [of a b])

text \<open>
  The targeting loop returns a nearest avatar among those that are alive, not hidden
  and not ghosts, and nothing if there is none.
\<close>

lemma targetLoop_invariant:
  fixes potato :: Potato
  defines "d \<equiv> \<lambda>p. hypot (xc (position p) - xc (position potato)) (yc (position p) - yc (position potato))"
    and "el \<equiv> \<lambda>p. \<not> isDead p \<and> \<not> isHidden p \<and> \<not> isGhost p"
  assumes "(acc = (None, None) \<and> (\<forall>p\<in>S. \<not> el p))
      \<or> (\<exists>t. acc = (Some (d t), Some t) \<and> t \<in> S \<and> el t \<and> (\<forall>p\<in>S. el p \<longrightarrow> d t \<le> d p))"
  shows "(targetLoop potato ps acc = (None, None) \<and> (\<forall>p\<in>S \<union> set ps. \<not> el p))
      \<or> (\<exists>t. targetLoop potato ps acc = (Some (d t), Some t) \<and> t \<in> S \<union> set ps \<and> el t
            \<and> (\<forall>p\<in>S \<union> set ps. el p \<longrightarrow> d t \<le> d p))"
  using assms(3)
proof (induction ps arbitrary: acc S)
  case Nil
  then show ?case by simp
next
  case (Cons q qs)
  let ?acc = "considerTarget potato q acc"
  have step: "(?acc = (None, None) \<and> (\<forall>p\<in>insert q S. \<not> el p))
      \<or> (\<exists>t. ?acc = (Some (d t), Some t) \<and> t \<in> insert q S \<and> el t
            \<and> (\<forall>p\<in>insert q S. el p \<longrightarrow> d t \<le> d p))"
  proof (cases "el q")
    case False
    then have "?acc = acc" by (auto simp add: considerTarget_def el_def)
    with Cons.prems False show ?thesis by auto
  next
    case True
    from Cons.prems show ?thesis
    proof
      assume a: "acc = (None, None) \<and> (\<forall>p\<in>S. \<not> el p)"
      with True have "?acc = (Some (d q), Some q)"
        by (simp add: considerTarget_def el_def d_def)
      with a True show ?thesis by auto
    next
      assume "\<exists>t. acc = (Some (d t), Some t) \<and> t \<in> S \<and> el t \<and> (\<forall>p\<in>S. el p \<longrightarrow> d t \<le> d p)"
      then obtain t where t: "acc = (Some (d t), Some t)" "t \<in> S" "el t"
        "\<forall>p\<in>S. el p \<longrightarrow> d t \<le> d p" by blast
      show ?thesis
      proof (cases "d q < d t")
        case True
        with \<open>el q\<close> t(1) have "?acc = (Some (d q), Some q)"
          by (simp add: considerTarget_def el_def d_def)
        moreover from True t(4) have "\<forall>p\<in>insert q S. el p \<longrightarrow> d q \<le> d p" by auto
        ultimately show ?thesis using \<open>el q\<close> by auto
      next
        case False
        with \<open>el q\<close> t(1) have "?acc = acc"
          by (simp add: considerTarget_def el_def d_def)
        moreover from False t(4) have "\<forall>p\<in>insert q S. el p \<longrightarrow> d t \<le> d p" by auto
        ultimately show ?thesis using t by auto
      qed
    qed
  qed
  from Cons.IH [OF step] show ?case by simp
qed

lemma targetLoop_nearest:
  "(targetLoop potato ps (None, None) = (None, None)
      \<and> (\<forall>p\<in>set ps. isDead p \<or> isHidden p \<or> isGhost p))
   \<or> (\<exists>t. snd (targetLoop potato ps (None, None)) = Some t \<and> t \<in> set ps
         \<and> \<not> isDead t \<and> \<not> isHidden t \<and> \<not> isGhost t
         \<and> (\<forall>p\<in>set ps. \<not> isDead p \<and> \<not> isHidden p \<and> \<not> isGhost p \<longrightarrow>
               hypot (xc (position t) - xc (position potato)) (yc (position t) - yc (position potato))
             \<le> hypot (xc (position p) - xc (position potato)) (yc (position p) - yc (position potato))))"
  using targetLoop_invariant [of "(None, None)" "{}" potato ps] by auto

lemma step_length_speed:
  fixes dx dy s dt :: real
  assumes "sqrt (dx * dx + dy * dy) > 1"
  shows "hypot (dx / sqrt (dx * dx + dy * dy) * s * dt) (dy / sqrt (dx * dx + dy * dy) * s * dt)
           = \<bar>s * dt\<bar>"
proof -
  from assms have "sqrt (dx * dx + dy * dy) > 0" by linarith
  from step_length [OF this, of "s * dt"] show ?thesis
    by (simp add: hypot_def mult.assoc)
qed

text \<open>
  Claim C3, as the code has it. In the server tick a pursuer that stays frozen (its
  freeze has not expired) is left unchanged. Otherwise it targets a nearest avatar among
  the living, non-hidden, non-ghost ones; with no such avatar it keeps its position and
  has no target; with target \<open>t\<close> at distance \<open>dist > 1\<close> its new position is the old
  one plus \<open>(dx / dist, dy / dist)\<close> times \<open>speed * multiplier * dt\<close>, a straight step of
  that length toward \<open>t\<close>, taken on both axes whatever the obstacles are; at distance
  at most 1 it keeps its position. The same rule applies in every tick: the function has
  no path, waypoint or timer to consult.
\<close>

theorem C3_pursuer_step:
  "(isFrozen potato \<and> \<not> now > freezeEndTime potato
      \<longrightarrow> updatePotato now dt multiplier ps potato = potato)
   \<and> (\<not> (isFrozen potato \<and> \<not> now > freezeEndTime potato) \<longrightarrow>
        (case snd (targetLoop potato ps (None, None)) of
           None \<Rightarrow>
             (\<forall>p\<in>set ps. isDead p \<or> isHidden p \<or> isGhost p)
             \<and> position (updatePotato now dt multiplier ps potato) = position potato
             \<and> targetId (updatePotato now dt multiplier ps potato) = None
         | Some t \<Rightarrow>
             t \<in> set ps \<and> \<not> isDead t \<and> \<not> isHidden t \<and> \<not> isGhost t
             \<and> (\<forall>p\<in>set ps. \<not> isDead p \<and> \<not> isHidden p \<and> \<not> isGhost p \<longrightarrow>
                   hypot (xc (position t) - xc (position potato)) (yc (position t) - yc (position potato))
                 \<le> hypot (xc (position p) - xc (position potato)) (yc (position p) - yc (position potato)))
             \<and> targetId (updatePotato now dt multiplier ps potato) = Some (pid t)
             \<and> (let dx = xc (position t) - xc (position potato);
                     dy = yc (position t) - yc (position potato);
                     dist = sqrt (dx * dx + dy * dy);
                     q = updatePotato now dt multiplier ps potato
                 in if dist > 1 then
                      position q = \<lparr>xc = xc (position potato) + dx / dist * (speed potato * multiplier) * dt,
                                    yc = yc (position potato) + dy / dist * (speed potato * multiplier) * dt\<rparr>
                      \<and> hypot (xc (position q) - xc (position potato)) (yc (position q) - yc (position potato))
                          = \<bar>speed potato * multiplier * dt\<bar>
                    else position q = position potato)))"
  (is "(?F \<longrightarrow> ?A) \<and> (\<not> ?F \<longrightarrow> ?B)")
proof -
  have frozen: ?A if ?F
    using that by (simp add: updatePotato_def Let_def)
  have moving: ?B if nf: "\<not> ?F"
  proof -
    let ?th = "if isFrozen potato \<and> now > freezeEndTime potato then potato\<lparr>isFrozen := False\<rparr> else potato"
    have th: "\<not> isFrozen ?th" "position ?th = position potato" "speed ?th = speed potato"
      using nf by auto
    have tl: "targetLoop ?th ps (None, None) = targetLoop potato ps (None, None)"
      by (rule targetLoop_position) (simp add: th)
    show ?thesis
    proof (cases "snd (targetLoop potato ps (None, None))")
      case None
      with targetLoop_nearest [of potato ps]
      have "\<forall>p\<in>set ps. isDead p \<or> isHidden p \<or> isGhost p" by auto
      with None th tl show ?thesis
        by (simp add: updatePotato_def Let_def)
    next
      case (Some t)
      with targetLoop_nearest [of potato ps]
      have near: "t \<in> set ps \<and> \<not> isDead t \<and> \<not> isHidden t \<and> \<not> isGhost t
             \<and> (\<forall>p\<in>set ps. \<not> isDead p \<and> \<not> isHidden p \<and> \<not> isGhost p \<longrightarrow>
                   hypot (xc (position t) - xc (position potato)) (yc (position t) - yc (position potato))
                 \<le> hypot (xc (position p) - xc (position potato)) (yc (position p) - yc (position potato)))"
        by auto
      let ?dx = "xc (position t) - xc (position potato)"
      let ?dy = "yc (position t) - yc (position potato)"
      let ?dist = "sqrt (?dx * ?dx + ?dy * ?dy)"
      let ?q = "updatePotato now dt multiplier ps potato"
      have tid: "targetId ?q = Some (pid t)"
        using Some th tl by (simp add: updatePotato_def Let_def)
      have pos: "if ?dist > 1 then
            position ?q = \<lparr>xc = xc (position potato) + ?dx / ?dist * (speed potato * multiplier) * dt,
                           yc = yc (position potato) + ?dy / ?dist * (speed potato * multiplier) * dt\<rparr>
            \<and> hypot (xc (position ?q) - xc (position potato)) (yc (position ?q) - yc (position potato))
                = \<bar>speed potato * multiplier * dt\<bar>
          else position ?q = position potato"
      proof (cases "?dist > 1")
        case True
        have p: "position ?q = \<lparr>xc = xc (position potato) + ?dx / ?dist * (speed potato * multiplier) * dt,
                           yc = yc (position potato) + ?dy / ?dist * (speed potato * multiplier) * dt\<rparr>"
          using Some th tl True by (simp add: updatePotato_def Let_def)
        have "hypot (xc (position ?q) - xc (position potato)) (yc (position ?q) - yc (position potato))
            = hypot (?dx / ?dist * (speed potato * multiplier) * dt) (?dy / ?dist * (speed potato * multiplier) * dt)"
          unfolding p by simp
        also have "\<dots> = \<bar>speed potato * multiplier * dt\<bar>"
          by (rule step_length_speed [OF True])
        finally show ?thesis using True p by simp
      next
        case False
        then show ?thesis using Some th tl by (simp add: updatePotato_def Let_def)
      qed
      show ?thesis
        unfolding Some option.case Let_def using near tid pos unfolding Let_def by blast
    qed
  qed
  from frozen moving show ?thesis by blast
qed

text \<open>
  A pursuer at \<open>(100, 100)\<close> with speed 230 and the only avatar at \<open>(500, 400)\<close>, 500
  units away: it targets the avatar and steps to \<open>(284, 238)\<close> in a tick of one second.
\<close>

theorem C3_pursuer_step_witness:
  "\<not> (isFrozen (\<lparr>position = \<lparr>xc = 100, yc = 100\<rparr>, radius = 20, velocity = \<lparr>xc = 0, yc = 0\<rparr>,
          speed = 230, targetId = None, isFrozen = False, freezeEndTime = 0\<rparr> :: Potato)
       \<and> \<not> 1000 > freezeEndTime (\<lparr>position = \<lparr>xc = 100, yc = 100\<rparr>, radius = 20,
          velocity = \<lparr>xc = 0, yc = 0\<rparr>, speed = 230, targetId = None, isFrozen = False,
          freezeEndTime = 0\<rparr> :: Potato))
   \<and> targetId (updatePotato 1000 1 1 [newPlayer ''a'' ''A'' ''red'' \<lparr>xc = 500, yc = 400\<rparr>]
        \<lparr>position = \<lparr>xc = 100, yc = 100\<rparr>, radius = 20, velocity = \<lparr>xc = 0, yc = 0\<rparr>, speed = 230,
         targetId = None, isFrozen = False, freezeEndTime = 0\<rparr>) = Some ''a''
   \<and> position (updatePotato 1000 1 1 [newPlayer ''a'' ''A'' ''red'' \<lparr>xc = 500, yc = 400\<rparr>]
        \<lparr>position = \<lparr>xc = 100, yc = 100\<rparr>, radius = 20, velocity = \<lparr>xc = 0, yc = 0\<rparr>, speed = 230,
         targetId = None, isFrozen = False, freezeEndTime = 0\<rparr>) = \<lparr>xc = 284, yc = 238\<rparr>"
proof -
  let ?pot = "\<lparr>position = \<lparr>xc = 100, yc = 100\<rparr>, radius = 20, velocity = \<lparr>xc = 0, yc = 0\<rparr>,
          speed = 230, targetId = None, isFrozen = False, freezeEndTime = 0\<rparr> :: Potato"
  let ?p = "newPlayer ''a'' ''A'' ''red'' \<lparr>xc = 500, yc = 400\<rparr>"
  have nf: "\<not> (isFrozen ?pot \<and> \<not> 1000 > freezeEndTime ?pot)" by simp
  have tg: "snd (targetLoop ?pot [?p] (None, None)) = Some ?p"
    by (simp add: considerTarget_def newPlayer_def)
  have f: "xc (position ?p) = 500" "yc (position ?p) = 400" "pid ?p = ''a''"
    "xc (position ?pot) = 100" "yc (position ?pot) = 100" "speed ?pot = 230"
    by (simp_all add: newPlayer_def)
  have d: "sqrt ((500 - 100) * (500 - 100) + (400 - 100) * (400 - 100)) = (500::real)" by simp
  from C3_pursuer_step [of ?pot 1000 1 1 "[?p]"] nf
  have "targetId (updatePotato 1000 1 1 [?p] ?pot) = Some ''a''
      \<and> position (updatePotato 1000 1 1 [?p] ?pot) = \<lparr>xc = 284, yc = 238\<rparr>"
    unfolding tg option.case Let_def f d by simp
  with nf show ?thesis by blast
qed

text \<open>
  Claim C3 as stated fails on the server. With an obstacle at \<open>x \<in> [260, 320]\<close>,
  \<open>y \<in> [200, 280]\<close> between the pursuer at \<open>(100, 100)\<close> and the avatar at \<open>(500, 400)\<close>,
  one tick of one second puts the pursuer at \<open>(284, 238)\<close>, on the straight line to the
  avatar and inside the obstacle. The per-axis validation of avatar movement would have
  accepted the X step to \<open>(284, 100)\<close> and rejected the Y step.
\<close>

theorem C3_counterexample:
  "map position (potatoes (fst (update 1000 (\<lambda>_. 1 / 2)
        ((newGameRoom ''ROOM01'' ''a'' 1 4 False
            [\<lparr>obsId = ''obs-0'', ox = 260, oy = 200, width = 60, height = 80\<rparr>] 0)
          \<lparr>players := [newPlayer ''a'' ''A'' ''red'' \<lparr>xc = 500, yc = 400\<rparr>],
            state := PLAYING\<rparr>))))
      = [\<lparr>xc = 284, yc = 238\<rparr>]
   \<and> isPositionValid 284 100 POTATO_RADIUS [\<lparr>obsId = ''obs-0'', ox = 260, oy = 200, width = 60, height = 80\<rparr>]
   \<and> \<not> isPositionValid 284 238 POTATO_RADIUS [\<lparr>obsId = ''obs-0'', ox = 260, oy = 200, width = 60, height = 80\<rparr>]"
proof -
  let ?o = "\<lparr>obsId = ''obs-0'', ox = 260, oy = 200, width = 60, height = 80\<rparr>"
  let ?p = "newPlayer ''a'' ''A'' ''red'' \<lparr>xc = 500, yc = 400\<rparr>"
  let ?R = "(newGameRoom ''ROOM01'' ''a'' 1 4 False [?o] 0)\<lparr>players := [?p], state := PLAYING\<rparr>"
  have v: "isPositionValid 284 100 POTATO_RADIUS [?o]" "\<not> isPositionValid 284 238 POTATO_RADIUS [?o]"
    by (simp_all add: isPositionValid_def CANVAS_WIDTH_def CANVAS_HEIGHT_def POTATO_RADIUS_def)
  have far: "\<not> sqrt (216 * 216 + 162 * 162) < (45::real)"
  proof -
    have "(45::real) \<le> sqrt (45 * 45)" by simp
    also have "\<dots> \<le> sqrt (216 * 216 + 162 * 162)" by (rule real_sqrt_le_mono) simp
    finally show ?thesis by simp
  qed
  have "map position (potatoes (fst (update 1000 (\<lambda>_. 1 / 2) ?R))) = [\<lparr>xc = 284, yc = 238\<rparr>]"
    using far
    by (simp add: update_def newGameRoom_def newPlayer_def playerTick_def statusUpdate_def
        spawnByScore_def moveAndSlide_def stepVector_def tryMoveX_def tryMoveY_def
        resolveAll_def updatePotato_def considerTarget_def hypot_def updatePowerups_def
        checkCollisions_def contact_def rdrop_def Let_def
        PLAYER_RADIUS_def POTATO_RADIUS_def BASE_SPEED_def POTATO_SPEED_def)
  with v show ?thesis by simp
qed

end
